theory Spec2Isabelle
  imports Complex_Main "HOL-Library.AList"
begin

section \<open>Python values\<close>

text \<open>
  A Python \<open>str\<close> is a sequence of Unicode code points; it is modelled as a list of
  code points, so that \<open>len\<close>, slicing, \<open>split\<close> and \<open>strip\<close> count what Python counts.
  ASCII literals of the source are written through \<open>ascii\<close>; the Cyrillic literals are
  written out as code points.
\<close>

type_synonym pystr = "nat list"

definition ascii :: "string \<Rightarrow> pystr" where
  "ascii s = map of_char s"

text \<open>\<open>str.isspace\<close> on one code point: the code points with Unicode property White_Space
  or bidirectional class WS, B or S.\<close>

definition py_isspace :: "nat \<Rightarrow> bool" where
  "py_isspace c \<longleftrightarrow>
     (9 \<le> c \<and> c \<le> 13) \<or> (28 \<le> c \<and> c \<le> 32) \<or> c = 133 \<or> c = 160 \<or> c = 5760 \<or>
     (8192 \<le> c \<and> c \<le> 8202) \<or> c = 8232 \<or> c = 8233 \<or> c = 8239 \<or> c = 8287 \<or> c = 12288"

text \<open>\<open>s.strip()\<close>\<close>

definition py_strip :: "pystr \<Rightarrow> pystr" where
  "py_strip s = rev (dropWhile py_isspace (rev (dropWhile py_isspace s)))"

text \<open>\<open>s.split(sep)\<close> for a separator of one code point: \<open>''.split(',') = ['']\<close>.\<close>

fun py_split :: "nat \<Rightarrow> pystr \<Rightarrow> pystr list" where
  "py_split sep [] = [[]]"
| "py_split sep (c # cs) =
     (if c = sep then [] # py_split sep cs
      else (case py_split sep cs of t # ts \<Rightarrow> (c # t) # ts | [] \<Rightarrow> [[c]]))"

text \<open>\<open>sep.join(xs)\<close>\<close>

fun py_join :: "pystr \<Rightarrow> pystr list \<Rightarrow> pystr" where
  "py_join sep [] = []"
| "py_join sep [x] = x"
| "py_join sep (x # y # ys) = x @ sep @ py_join sep (y # ys)"

text \<open>\<open>s.split()\<close>: the maximal runs of non-whitespace; \<open>cur\<close> is the current run, reversed.\<close>

fun split_ws_from :: "pystr \<Rightarrow> pystr \<Rightarrow> pystr list" where
  "split_ws_from cur [] = (if cur = [] then [] else [rev cur])"
| "split_ws_from cur (c # cs) =
     (if py_isspace c
      then (if cur = [] then split_ws_from [] cs else rev cur # split_ws_from [] cs)
      else split_ws_from (c # cur) cs)"

definition py_split_ws :: "pystr \<Rightarrow> pystr list" where
  "py_split_ws s = split_ws_from [] s"

text \<open>\<open>s.startswith(p)\<close>\<close>

definition py_startswith :: "pystr \<Rightarrow> pystr \<Rightarrow> bool" where
  "py_startswith s p \<longleftrightarrow> take (length p) s = p"

text \<open>\<open>str(n)\<close> for an integer: decimal digits, a minus sign for negative numbers.\<close>

fun str_nat :: "nat \<Rightarrow> pystr" where
  "str_nat n = (if n < 10 then [48 + n] else str_nat (n div 10) @ [48 + n mod 10])"

declare str_nat.simps [simp del]

definition str_int :: "int \<Rightarrow> pystr" where
  "str_int i = (if i < 0 then 45 # str_nat (nat (- i)) else str_nat (nat i))"

text \<open>Zero padding to a minimal width, as \<open>%02d\<close> and \<open>%04d\<close> do.\<close>

definition zfill :: "nat \<Rightarrow> pystr \<Rightarrow> pystr" where
  "zfill w s = replicate (w - length s) 48 @ s"

text \<open>
  A \<open>datetime.date\<close>. Python only constructs valid dates (\<open>valid_date\<close>): year 1 to 9999,
  month 1 to 12, day within the month. A \<open>datetime\<close> has a \<open>strftime\<close> too and takes the same
  branches as a date everywhere in this program; only dates are modelled.
\<close>

record py_date =
  year :: nat
  month :: nat
  day :: nat

definition is_leap :: "nat \<Rightarrow> bool" where
  "is_leap y \<longleftrightarrow> y mod 4 = 0 \<and> (y mod 100 \<noteq> 0 \<or> y mod 400 = 0)"

definition days_in_month :: "nat \<Rightarrow> nat \<Rightarrow> nat" where
  "days_in_month y m =
     (if m = 2 then (if is_leap y then 29 else 28)
      else if m = 4 \<or> m = 6 \<or> m = 9 \<or> m = 11 then 30 else 31)"

definition valid_date :: "py_date \<Rightarrow> bool" where
  "valid_date d \<longleftrightarrow>
     1 \<le> year d \<and> year d \<le> 9999 \<and> 1 \<le> month d \<and> month d \<le> 12 \<and>
     1 \<le> day d \<and> day d \<le> days_in_month (year d) (month d)"

text \<open>
  The values the program handles: \<open>None\<close>, booleans, integers, strings, dates, and (in a
  JSON payload) lists. Floats and nested dictionaries are not modelled.
\<close>

datatype pyval = PNone | PBool bool | PInt int | PStr pystr | PDate py_date

datatype py_error =
  AttributeError | TypeError | KeyError | ValueError | IndexError | IllegalCharacterError

text \<open>Truthiness, as \<open>if not v\<close> and \<open>a or b\<close> test it.\<close>

fun truthy :: "pyval \<Rightarrow> bool" where
  "truthy PNone = False"
| "truthy (PBool b) = b"
| "truthy (PInt i) = (i \<noteq> 0)"
| "truthy (PStr s) = (s \<noteq> [])"
| "truthy (PDate d) = True"

definition py_or :: "pyval \<Rightarrow> pyval \<Rightarrow> pyval" where
  "py_or a b = (if truthy a then a else b)"

text \<open>\<open>d.isoformat()\<close>, which is \<open>str(d)\<close>: the year in four digits, the month and the
  day in two.\<close>

definition isoformat :: "py_date \<Rightarrow> pystr" where
  "isoformat d =
     zfill 4 (str_nat (year d)) @ [45] @ zfill 2 (str_nat (month d)) @ [45] @ zfill 2 (str_nat (day d))"

text \<open>\<open>d.strftime("%d.%m.%Y")\<close>, which Python hands to the \<open>strftime\<close> of the C library:
  \<open>%d\<close> and \<open>%m\<close> are written in two digits; \<open>%Y\<close> is the year as a decimal number, which
  the C library of Linux writes without leading zeros, so that a year before 1000 has
  fewer than four digits.\<close>

definition strftime_dmY :: "py_date \<Rightarrow> pystr" where
  "strftime_dmY d =
     zfill 2 (str_nat (day d)) @ [46] @ zfill 2 (str_nat (month d)) @ [46] @ str_nat (year d)"

fun py_str :: "pyval \<Rightarrow> pystr" where
  "py_str PNone = ascii ''None''"
| "py_str (PBool b) = (if b then ascii ''True'' else ascii ''False'')"
| "py_str (PInt i) = str_int i"
| "py_str (PStr s) = s"
| "py_str (PDate d) = isoformat d"

text \<open>A \<open>dict\<close> keeps insertion order: an association list, written with \<open>AList.update\<close>
  and read with \<open>map_of\<close>.\<close>

type_synonym 'v py_dict = "(pystr \<times> 'v) list"

text \<open>\<open>d.get(k)\<close> and \<open>d.get(k, default)\<close>\<close>

definition dict_get :: "pyval py_dict \<Rightarrow> pystr \<Rightarrow> pyval" where
  "dict_get d k = (case map_of d k of None \<Rightarrow> PNone | Some v \<Rightarrow> v)"

definition dict_get_default :: "pyval py_dict \<Rightarrow> pystr \<Rightarrow> pyval \<Rightarrow> pyval" where
  "dict_get_default d k dflt = (case map_of d k of None \<Rightarrow> dflt | Some v \<Rightarrow> v)"

section \<open>\<open>datetime.strptime\<close>\<close>

text \<open>
  \<open>datetime.strptime(s, fmt)\<close> compiles the format into a regular expression, matches it at
  the start of \<open>s\<close> with a backtracking matcher, raises \<open>ValueError\<close> when nothing matches or
  when input remains after the match, and then builds the date, which raises
  \<open>ValueError\<close> for a date that does not exist. The directives of the three formats:
  \<^item> \<open>%Y\<close> is \<open>\d\d\d\d\<close>;
  \<^item> \<open>%m\<close> is \<open>1[0-2]|0[1-9]|[1-9]\<close>;
  \<^item> \<open>%d\<close> is \<open>3[0-1]|[1-2]\d|0[1-9]|[1-9]| [1-9]\<close>.
  A matcher returns the list of its successes (value read, rest of the input) in the order
  the backtracking matcher tries them. The classes in brackets hold ASCII digits only;
  \<open>\d\<close> matches every decimal digit of Unicode (the category Nd), and \<open>int\<close>, which reads
  the text matched, takes each digit at its decimal value.
\<close>

text \<open>The decimal digits of Unicode: every script has its ten digits in a row, from its
  zero to its nine. \<open>decimal_zeros\<close> are the zeros of Unicode 14.0, the version of the
  database of Python 3.11, from the ASCII zero to the zero of the segmented digits.\<close>

definition decimal_zeros :: "nat list" where
  "decimal_zeros =
     [48, 1632, 1776, 1984, 2406, 2534, 2662, 2790, 2918, 3046, 3174, 3302, 3430, 3558, 3664,
      3792, 3872, 4160, 4240, 6112, 6160, 6470, 6608, 6784, 6800, 6992, 7088, 7232, 7248,
      42528, 43216, 43264, 43472, 43504, 43600, 44016, 65296, 66720, 68912, 69734, 69872,
      69942, 70096, 70384, 70736, 70864, 71248, 71360, 71472, 71904, 72016, 72784, 73040,
      73120, 92768, 92864, 93008, 120782, 120792, 120802, 120812, 120822, 123200, 123632,
      125264, 130032]"

text \<open>The decimal value of a code point that is a decimal digit.\<close>

definition decimal_value :: "nat \<Rightarrow> nat option" where
  "decimal_value c =
     (case find (\<lambda>z. z \<le> c \<and> c \<le> z + 9) decimal_zeros of
        Some z \<Rightarrow> Some (c - z)
      | None \<Rightarrow> None)"

definition is_digit :: "nat \<Rightarrow> bool" where
  "is_digit c \<longleftrightarrow> decimal_value c \<noteq> None"

definition digit :: "nat \<Rightarrow> nat" where
  "digit c = (case decimal_value c of Some v \<Rightarrow> v | None \<Rightarrow> 0)"

definition in_range :: "nat \<Rightarrow> nat \<Rightarrow> nat \<Rightarrow> bool" where
  "in_range lo hi c \<longleftrightarrow> lo \<le> c \<and> c \<le> hi"

fun re_two :: "(nat \<Rightarrow> bool) \<Rightarrow> (nat \<Rightarrow> bool) \<Rightarrow> pystr \<Rightarrow> (nat \<times> pystr) list" where
  "re_two p q (a # b # r) = (if p a \<and> q b then [(digit a * 10 + digit b, r)] else [])"
| "re_two p q _ = []"

fun re_one :: "(nat \<Rightarrow> bool) \<Rightarrow> pystr \<Rightarrow> (nat \<times> pystr) list" where
  "re_one p (a # r) = (if p a then [(digit a, r)] else [])"
| "re_one p [] = []"

fun re_space_one :: "(nat \<Rightarrow> bool) \<Rightarrow> pystr \<Rightarrow> (nat \<times> pystr) list" where
  "re_space_one p (a # b # r) = (if a = 32 \<and> p b then [(digit b, r)] else [])"
| "re_space_one p _ = []"

fun re_Y :: "pystr \<Rightarrow> (nat \<times> pystr) list" where
  "re_Y (a # b # c # d # r) =
     (if is_digit a \<and> is_digit b \<and> is_digit c \<and> is_digit d
      then [(digit a * 1000 + digit b * 100 + digit c * 10 + digit d, r)] else [])"
| "re_Y _ = []"

definition re_m :: "pystr \<Rightarrow> (nat \<times> pystr) list" where
  "re_m s = re_two (\<lambda>c. c = 49) (in_range 48 50) s @ re_two (\<lambda>c. c = 48) (in_range 49 57) s
            @ re_one (in_range 49 57) s"

definition re_d :: "pystr \<Rightarrow> (nat \<times> pystr) list" where
  "re_d s = re_two (\<lambda>c. c = 51) (in_range 48 49) s @ re_two (in_range 49 50) is_digit s
            @ re_two (\<lambda>c. c = 48) (in_range 49 57) s @ re_one (in_range 49 57) s
            @ re_space_one (in_range 49 57) s"

fun re_lit :: "nat \<Rightarrow> pystr \<Rightarrow> pystr list" where
  "re_lit c (a # r) = (if a = c then [r] else [])"
| "re_lit c [] = []"

datatype date_format = Fmt_Ymd | Fmt_dmY | Fmt_mdY

text \<open>All matches of the compiled format, as (year, month, day, rest), in matching order.\<close>

fun re_format :: "date_format \<Rightarrow> pystr \<Rightarrow> (nat \<times> nat \<times> nat \<times> pystr) list" where
  "re_format Fmt_Ymd s =
     concat (map (\<lambda>(y, r1). concat (map (\<lambda>r2. concat (map (\<lambda>(m, r3). concat (map (\<lambda>r4.
       map (\<lambda>(d, r5). (y, m, d, r5)) (re_d r4)) (re_lit 45 r3))) (re_m r2))) (re_lit 45 r1))) (re_Y s))"
| "re_format Fmt_dmY s =
     concat (map (\<lambda>(d, r1). concat (map (\<lambda>r2. concat (map (\<lambda>(m, r3). concat (map (\<lambda>r4.
       map (\<lambda>(y, r5). (y, m, d, r5)) (re_Y r4)) (re_lit 46 r3))) (re_m r2))) (re_lit 46 r1))) (re_d s))"
| "re_format Fmt_mdY s =
     concat (map (\<lambda>(m, r1). concat (map (\<lambda>r2. concat (map (\<lambda>(d, r3). concat (map (\<lambda>r4.
       map (\<lambda>(y, r5). (y, m, d, r5)) (re_Y r4)) (re_lit 47 r3))) (re_d r2))) (re_lit 47 r1))) (re_m s))"

definition strptime :: "pystr \<Rightarrow> date_format \<Rightarrow> py_error + py_date" where
  "strptime s fmt =
     (case re_format fmt s of
        [] \<Rightarrow> Inl ValueError
      | (y, m, d, rest) # _ \<Rightarrow>
          if rest \<noteq> [] then Inl ValueError
          else if valid_date \<lparr>year = y, month = m, day = d\<rparr>
               then Inr \<lparr>year = y, month = m, day = d\<rparr>
               else Inl ValueError)"

text \<open>The tuple of formats that the source runs through, in both functions.\<close>

definition date_formats :: "date_format list" where
  "date_formats = [Fmt_Ymd, Fmt_dmY, Fmt_mdY]"

section \<open>\<open>format_excel_date\<close>\<close>

text \<open>The loop over the formats: the first format that parses returns; a \<open>ValueError\<close>
  goes on to the next format; after the last one the function falls through to
  \<open>str(date_value)\<close>.\<close>

fun format_excel_date_loop :: "pystr \<Rightarrow> date_format list \<Rightarrow> py_error + pystr" where
  "format_excel_date_loop s [] = Inr (py_str (PStr s))"
| "format_excel_date_loop s (fmt # fmts) =
     (case strptime s fmt of
        Inr date_obj \<Rightarrow> Inr (strftime_dmY date_obj)
      | Inl e \<Rightarrow> if e = ValueError then format_excel_date_loop s fmts else Inl e)"

fun format_excel_date :: "pyval \<Rightarrow> py_error + pystr" where
  "format_excel_date PNone = Inr []"
| "format_excel_date (PDate d) = Inr (strftime_dmY d)"
| "format_excel_date (PStr s) = format_excel_date_loop s date_formats"
| "format_excel_date v = Inr (py_str v)"

section \<open>Field normalisation: \<open>create_or_update_record\<close>\<close>

text \<open>
  A JSON payload value is a scalar or a list. \<open>HTTPException status_code detail\<close> is the
  exception the function raises.
\<close>

datatype jval = JScalar pyval | JList "pyval list"

datatype http_error = HTTPException nat pystr

fun jv_truthy :: "jval \<Rightarrow> bool" where
  "jv_truthy (JScalar v) = truthy v"
| "jv_truthy (JList vs) = (vs \<noteq> [])"

text \<open>\<open>value is None or value == ''\<close>, which is also \<open>value in (None, '')\<close>.\<close>

definition none_or_empty :: "jval \<Rightarrow> bool" where
  "none_or_empty v \<longleftrightarrow> v = JScalar PNone \<or> v = JScalar (PStr [])"

definition jdict_get :: "jval py_dict \<Rightarrow> pystr \<Rightarrow> jval" where
  "jdict_get d k = (case map_of d k of None \<Rightarrow> JScalar PNone | Some v \<Rightarrow> v)"

text \<open>
  \<open>key.lower() == "bureanumber"\<close>. The lower case of a code point beyond ASCII holds a
  code point beyond ASCII, but for the Kelvin sign, whose lower case is \<open>k\<close>, a letter
  the word does not have. So the comparison holds for the keys made of ASCII code points that give the
  word when the letters \<open>A\<close> to \<open>Z\<close> are lowered, and for no other key.
\<close>

definition is_bureanumber :: "pystr \<Rightarrow> bool" where
  "is_bureanumber key \<longleftrightarrow>
     map (\<lambda>c. if 65 \<le> c \<and> c \<le> 90 then c + 32 else c) key = ascii ''bureanumber''"

text \<open>
  \<open>c.isupper()\<close> on one code point: the letters \<open>A\<close> to \<open>Z\<close> and, beyond ASCII, the code
  points with the property Uppercase of Unicode 14.0 (the database of Python 3.11), held
  as ranges: first, last, step.
\<close>

definition upper_ranges :: "(nat \<times> nat \<times> nat) list" where
  "upper_ranges =
     [(192, 214, 1), (216, 222, 1), (256, 310, 2), (313, 327, 2), (330, 376, 2), (377, 381, 2),
      (385, 386, 1), (388, 390, 2), (391, 393, 2), (394, 395, 1), (398, 401, 1), (403, 404, 1),
      (406, 408, 1), (412, 413, 1), (415, 416, 1), (418, 422, 2), (423, 425, 2), (428, 430, 2),
      (431, 433, 2), (434, 435, 1), (437, 439, 2), (440, 440, 1), (444, 444, 1), (452, 452, 1),
      (455, 455, 1), (458, 458, 1), (461, 475, 2), (478, 494, 2), (497, 497, 1), (500, 502, 2),
      (503, 504, 1), (506, 562, 2), (570, 571, 1), (573, 574, 1), (577, 579, 2), (580, 582, 1),
      (584, 590, 2), (880, 882, 2), (886, 886, 1), (895, 895, 1), (902, 904, 2), (905, 906, 1),
      (908, 910, 2), (911, 913, 2), (914, 929, 1), (931, 939, 1), (975, 975, 1), (978, 980, 1),
      (984, 1006, 2), (1012, 1012, 1), (1015, 1017, 2), (1018, 1018, 1), (1021, 1071, 1),
      (1120, 1152, 2), (1162, 1216, 2), (1217, 1229, 2), (1232, 1326, 2), (1329, 1366, 1),
      (4256, 4293, 1), (4295, 4295, 1), (4301, 4301, 1), (5024, 5109, 1), (7312, 7354, 1),
      (7357, 7359, 1), (7680, 7828, 2), (7838, 7934, 2), (7944, 7951, 1), (7960, 7965, 1),
      (7976, 7983, 1), (7992, 7999, 1), (8008, 8013, 1), (8025, 8031, 2), (8040, 8047, 1),
      (8120, 8123, 1), (8136, 8139, 1), (8152, 8155, 1), (8168, 8172, 1), (8184, 8187, 1),
      (8450, 8450, 1), (8455, 8455, 1), (8459, 8461, 1), (8464, 8466, 1), (8469, 8469, 1),
      (8473, 8477, 1), (8484, 8490, 2), (8491, 8493, 1), (8496, 8499, 1), (8510, 8511, 1),
      (8517, 8517, 1), (8544, 8559, 1), (8579, 8579, 1), (9398, 9423, 1), (11264, 11311, 1),
      (11360, 11362, 2), (11363, 11364, 1), (11367, 11373, 2), (11374, 11376, 1),
      (11378, 11378, 1), (11381, 11381, 1), (11390, 11392, 1), (11394, 11490, 2),
      (11499, 11501, 2), (11506, 11506, 1), (42560, 42604, 2), (42624, 42650, 2),
      (42786, 42798, 2), (42802, 42862, 2), (42873, 42877, 2), (42878, 42886, 2),
      (42891, 42893, 2), (42896, 42898, 2), (42902, 42922, 2), (42923, 42926, 1),
      (42928, 42932, 1), (42934, 42948, 2), (42949, 42951, 1), (42953, 42953, 1),
      (42960, 42960, 1), (42966, 42968, 2), (42997, 42997, 1), (65313, 65338, 1),
      (66560, 66599, 1), (66736, 66771, 1), (66928, 66938, 1), (66940, 66954, 1),
      (66956, 66962, 1), (66964, 66965, 1), (68736, 68786, 1), (71840, 71871, 1),
      (93760, 93791, 1), (119808, 119833, 1), (119860, 119885, 1), (119912, 119937, 1),
      (119964, 119966, 2), (119967, 119967, 1), (119970, 119970, 1), (119973, 119974, 1),
      (119977, 119980, 1), (119982, 119989, 1), (120016, 120041, 1), (120068, 120069, 1),
      (120071, 120074, 1), (120077, 120084, 1), (120086, 120092, 1), (120120, 120121, 1),
      (120123, 120126, 1), (120128, 120132, 1), (120134, 120134, 1), (120138, 120144, 1),
      (120172, 120197, 1), (120224, 120249, 1), (120276, 120301, 1), (120328, 120353, 1),
      (120380, 120405, 1), (120432, 120457, 1), (120488, 120512, 1), (120546, 120570, 1),
      (120604, 120628, 1), (120662, 120686, 1), (120720, 120744, 1), (120778, 120778, 1),
      (125184, 125217, 1), (127280, 127305, 1), (127312, 127337, 1), (127344, 127369, 1)]"

definition py_isupper :: "nat \<Rightarrow> bool" where
  "py_isupper c \<longleftrightarrow>
     (if c < 128 then 65 \<le> c \<and> c \<le> 90
      else \<exists>(a, b, k) \<in> set upper_ranges. a \<le> c \<and> c \<le> b \<and> (c - a) mod k = 0)"

text \<open>
  \<open>c.lower()\<close> for a code point \<open>c\<close> with \<open>c.isupper()\<close>, which is where the source calls
  it: the lower case is one code point, held in ranges (first, last, step, lower case of
  the first), but for the capital I with a dot above (304), which gives two; a capital
  letter without a lower case is left as it is.
\<close>

definition lower_ranges :: "(nat \<times> nat \<times> nat \<times> nat) list" where
  "lower_ranges =
     [(192, 214, 1, 224), (216, 222, 1, 248), (256, 302, 2, 257), (306, 310, 2, 307),
      (313, 327, 2, 314), (330, 374, 2, 331), (376, 376, 1, 255), (377, 381, 2, 378),
      (385, 385, 1, 595), (386, 388, 2, 387), (390, 390, 1, 596), (391, 391, 1, 392),
      (393, 394, 1, 598), (395, 395, 1, 396), (398, 398, 1, 477), (399, 399, 1, 601),
      (400, 400, 1, 603), (401, 401, 1, 402), (403, 403, 1, 608), (404, 404, 1, 611),
      (406, 406, 1, 617), (407, 407, 1, 616), (408, 408, 1, 409), (412, 412, 1, 623),
      (413, 413, 1, 626), (415, 415, 1, 629), (416, 420, 2, 417), (422, 422, 1, 640),
      (423, 423, 1, 424), (425, 425, 1, 643), (428, 428, 1, 429), (430, 430, 1, 648),
      (431, 431, 1, 432), (433, 434, 1, 650), (435, 437, 2, 436), (439, 439, 1, 658),
      (440, 440, 1, 441), (444, 444, 1, 445), (452, 452, 1, 454), (455, 455, 1, 457),
      (458, 458, 1, 460), (461, 475, 2, 462), (478, 494, 2, 479), (497, 497, 1, 499),
      (500, 500, 1, 501), (502, 502, 1, 405), (503, 503, 1, 447), (504, 542, 2, 505),
      (544, 544, 1, 414), (546, 562, 2, 547), (570, 570, 1, 11365), (571, 571, 1, 572),
      (573, 573, 1, 410), (574, 574, 1, 11366), (577, 577, 1, 578), (579, 579, 1, 384),
      (580, 580, 1, 649), (581, 581, 1, 652), (582, 590, 2, 583), (880, 882, 2, 881),
      (886, 886, 1, 887), (895, 895, 1, 1011), (902, 902, 1, 940), (904, 906, 1, 941),
      (908, 908, 1, 972), (910, 911, 1, 973), (913, 929, 1, 945), (931, 939, 1, 963),
      (975, 975, 1, 983), (984, 1006, 2, 985), (1012, 1012, 1, 952), (1015, 1015, 1, 1016),
      (1017, 1017, 1, 1010), (1018, 1018, 1, 1019), (1021, 1023, 1, 891), (1024, 1039, 1, 1104),
      (1040, 1071, 1, 1072), (1120, 1152, 2, 1121), (1162, 1214, 2, 1163), (1216, 1216, 1, 1231),
      (1217, 1229, 2, 1218), (1232, 1326, 2, 1233), (1329, 1366, 1, 1377),
      (4256, 4293, 1, 11520), (4295, 4295, 1, 11559), (4301, 4301, 1, 11565),
      (5024, 5103, 1, 43888), (5104, 5109, 1, 5112), (7312, 7354, 1, 4304),
      (7357, 7359, 1, 4349), (7680, 7828, 2, 7681), (7838, 7838, 1, 223), (7840, 7934, 2, 7841),
      (7944, 7951, 1, 7936), (7960, 7965, 1, 7952), (7976, 7983, 1, 7968), (7992, 7999, 1, 7984),
      (8008, 8013, 1, 8000), (8025, 8031, 2, 8017), (8040, 8047, 1, 8032), (8120, 8121, 1, 8112),
      (8122, 8123, 1, 8048), (8136, 8139, 1, 8050), (8152, 8153, 1, 8144), (8154, 8155, 1, 8054),
      (8168, 8169, 1, 8160), (8170, 8171, 1, 8058), (8172, 8172, 1, 8165), (8184, 8185, 1, 8056),
      (8186, 8187, 1, 8060), (8486, 8486, 1, 969), (8490, 8490, 1, 107), (8491, 8491, 1, 229),
      (8498, 8498, 1, 8526), (8544, 8559, 1, 8560), (8579, 8579, 1, 8580), (9398, 9423, 1, 9424),
      (11264, 11311, 1, 11312), (11360, 11360, 1, 11361), (11362, 11362, 1, 619),
      (11363, 11363, 1, 7549), (11364, 11364, 1, 637), (11367, 11371, 2, 11368),
      (11373, 11373, 1, 593), (11374, 11374, 1, 625), (11375, 11375, 1, 592),
      (11376, 11376, 1, 594), (11378, 11378, 1, 11379), (11381, 11381, 1, 11382),
      (11390, 11391, 1, 575), (11392, 11490, 2, 11393), (11499, 11501, 2, 11500),
      (11506, 11506, 1, 11507), (42560, 42604, 2, 42561), (42624, 42650, 2, 42625),
      (42786, 42798, 2, 42787), (42802, 42862, 2, 42803), (42873, 42875, 2, 42874),
      (42877, 42877, 1, 7545), (42878, 42886, 2, 42879), (42891, 42891, 1, 42892),
      (42893, 42893, 1, 613), (42896, 42898, 2, 42897), (42902, 42920, 2, 42903),
      (42922, 42922, 1, 614), (42923, 42923, 1, 604), (42924, 42924, 1, 609),
      (42925, 42925, 1, 620), (42926, 42926, 1, 618), (42928, 42928, 1, 670),
      (42929, 42929, 1, 647), (42930, 42930, 1, 669), (42931, 42931, 1, 43859),
      (42932, 42946, 2, 42933), (42948, 42948, 1, 42900), (42949, 42949, 1, 642),
      (42950, 42950, 1, 7566), (42951, 42953, 2, 42952), (42960, 42960, 1, 42961),
      (42966, 42968, 2, 42967), (42997, 42997, 1, 42998), (65313, 65338, 1, 65345),
      (66560, 66599, 1, 66600), (66736, 66771, 1, 66776), (66928, 66938, 1, 66967),
      (66940, 66954, 1, 66979), (66956, 66962, 1, 66995), (66964, 66965, 1, 67003),
      (68736, 68786, 1, 68800), (71840, 71871, 1, 71872), (93760, 93791, 1, 93792),
      (125184, 125217, 1, 125218)]"

definition py_lower_char :: "nat \<Rightarrow> pystr" where
  "py_lower_char c =
     (if c < 128 then [if 65 \<le> c \<and> c \<le> 90 then c + 32 else c]
      else if c = 304 then [105, 775]
      else case find (\<lambda>(a, b, k, t). a \<le> c \<and> c \<le> b \<and> (c - a) mod k = 0) lower_ranges of
             Some (a, b, k, t) \<Rightarrow> [t + (c - a)]
           | None \<Rightarrow> [c])"

text \<open>The three names of the expert forms that are renamed to the standard ones.\<close>

definition rename_expert_key :: "pystr \<Rightarrow> pystr" where
  "rename_expert_key key =
     (if key = ascii ''expertDocumentFormat'' then ascii ''documentFormat''
      else if key = ascii ''expertPurpose'' then ascii ''purpose''
      else if key = ascii ''pdoDevelopedExpert'' then ascii ''pdoDeveloped''
      else key)"

text \<open>\<open>''.join(['_' + c.lower() if c.isupper() else c for c in key]).lstrip('_')\<close>\<close>

definition snake_key :: "pystr \<Rightarrow> pystr" where
  "snake_key key =
     dropWhile (\<lambda>c. c = 95)
       (concat (map (\<lambda>c. if py_isupper c then 95 # py_lower_char c else [c]) key))"

definition date_field_names :: "pystr list" where
  "date_field_names =
     [ascii ''mse_date'', ascii ''decision_date'', ascii ''reg_date'', ascii ''birth_date'']"

text \<open>The loop over the formats with its \<open>else\<close> branch: the first format that parses
  wins; when none does, \<open>ValueError\<close> is raised.\<close>

fun parse_date_loop :: "pystr \<Rightarrow> date_format list \<Rightarrow> py_error + py_date" where
  "parse_date_loop v [] = Inl ValueError"
| "parse_date_loop v (fmt # fmts) =
     (case strptime v fmt of
        Inr d \<Rightarrow> Inr d
      | Inl e \<Rightarrow> if e = ValueError then parse_date_loop v fmts else Inl e)"

text \<open>The detail of the status 400 raised for a date that does not parse: it holds the key
  (after the renaming of the expert names) and the raw value,
  \<open>"<date_detail_1>{key}<date_detail_2><date_detail_3>{value}"\<close>.\<close>

definition date_detail_1 :: pystr where
  "date_detail_1 =
     [1053, 1077, 1074, 1077, 1088, 1085, 1099, 1081, 32, 1092, 1086, 1088, 1084, 1072, 1090,
      32, 1076, 1072, 1090, 1099, 32, 1076, 1083, 1103, 32, 1087, 1086, 1083, 1103, 32]"

definition date_detail_2 :: pystr where
  "date_detail_2 =
     [46, 32, 1054, 1078, 1080, 1076, 1072, 1077, 1090, 1089, 1103, 32, 89, 89, 89, 89, 45,
      77, 77, 45, 68, 68, 46, 32, 1054, 1096, 1080, 1073, 1082, 1072, 58, 32]"

definition date_detail_3 :: pystr where
  "date_detail_3 =
     [1053, 1077, 1074, 1077, 1088, 1085, 1099, 1081, 32, 1092, 1086, 1088, 1084, 1072, 1090,
      32, 1076, 1072, 1090, 1099, 58, 32]"

definition date_detail :: "pystr \<Rightarrow> pystr \<Rightarrow> pystr" where
  "date_detail key v = date_detail_1 @ key @ date_detail_2 @ date_detail_3 @ v"

text \<open>The name of the examination date on the form, and the detail of the status 400 for
  a record without it: the name between quotes, in a sentence saying that the required
  field is not filled in.\<close>

definition mse_date_label :: pystr where
  "mse_date_label =
     [1044, 1072, 1090, 1072, 32, 1087, 1088, 1086, 1074, 1077, 1076, 1077, 1085, 1080, 1103,
      32, 1052, 1057, 1069]"

definition mse_date_required_detail :: pystr where
  "mse_date_required_detail =
     [1054, 1073, 1103, 1079, 1072, 1090, 1077, 1083, 1100, 1085, 1086, 1077, 32, 1087, 1086,
      1083, 1077, 32, 39] @ mse_date_label @
     [39, 32, 1085, 1077, 32, 1079, 1072, 1087, 1086, 1083, 1085, 1077, 1085, 1086]"

text \<open>The detail of the status 500 that any other exception becomes.\<close>

definition save_failed_detail :: pystr where
  "save_failed_detail =
     [1054, 1096, 1080, 1073, 1082, 1072, 32, 1087, 1088, 1080, 32, 1089, 1086, 1093, 1088,
      1072, 1085, 1077, 1085, 1080, 1080, 32, 1079, 1072, 1087, 1080, 1089, 1080, 32, 1074, 32,
      1073, 1072, 1079, 1091, 32, 1076, 1072, 1085, 1085, 1099, 1093]"

text \<open>\<open>','.join(value)\<close> raises \<open>TypeError\<close> for an item that is not a string.\<close>

fun str_items :: "pyval list \<Rightarrow> py_error + pystr list" where
  "str_items [] = Inr []"
| "str_items (PStr s # vs) = (case str_items vs of Inr ss \<Rightarrow> Inr (s # ss) | Inl e \<Rightarrow> Inl e)"
| "str_items (v # vs) = Inl TypeError"

definition join_items :: "pystr \<Rightarrow> pyval list \<Rightarrow> py_error + pystr" where
  "join_items sep vs = (case str_items vs of Inr ss \<Rightarrow> Inr (py_join sep ss) | Inl e \<Rightarrow> Inl e)"

text \<open>The date branch of the loop body, for the key \<open>key\<close> and its snake-case form \<open>sk\<close>.\<close>

definition transform_date :: "jval py_dict \<Rightarrow> pystr \<Rightarrow> pystr \<Rightarrow> jval \<Rightarrow> http_error + jval py_dict" where
  "transform_date td key sk v =
     (if none_or_empty v then Inr (AList.update sk (JScalar PNone) td)
      else case v of
        JScalar (PDate d) \<Rightarrow> Inr (AList.update sk v td)
      | JScalar (PStr s) \<Rightarrow>
          (case parse_date_loop s date_formats of
             Inr d \<Rightarrow> Inr (AList.update sk (JScalar (PDate d)) td)
           | Inl e \<Rightarrow> Inl (HTTPException 400 (date_detail key s)))
      | _ \<Rightarrow> Inr (AList.update sk v td))"

text \<open>One round of the loop over \<open>record_data.items()\<close>; \<open>td\<close> is \<open>transformed_data\<close>.\<close>

definition transform_item :: "jval py_dict \<Rightarrow> pystr \<times> jval \<Rightarrow> http_error + jval py_dict" where
  "transform_item td item =
     (let (key0, v) = item in
      if is_bureanumber key0 then Inr td
      else
        let key = rename_expert_key key0; sk = snake_key key in
        if sk \<in> set date_field_names then transform_date td key sk v
        else case v of
          JList vs \<Rightarrow>
            if sk = ascii ''special_marks'' then
              (if vs \<noteq> [] then
                 (case join_items [44] vs of
                    Inr s \<Rightarrow> Inr (AList.update sk (JScalar (PStr s)) td)
                  | Inl e \<Rightarrow> Inl (HTTPException 500 save_failed_detail))
               else Inr (AList.update sk (JScalar PNone) td))
            else Inr (AList.update sk v td)
        | JScalar x \<Rightarrow>
            Inr (AList.update sk (if none_or_empty v then JScalar PNone else v) td))"

fun transform_items :: "jval py_dict \<Rightarrow> (pystr \<times> jval) list \<Rightarrow> http_error + jval py_dict" where
  "transform_items td [] = Inr td"
| "transform_items td (item # items) =
     (case transform_item td item of
        Inl e \<Rightarrow> Inl e
      | Inr td' \<Rightarrow> transform_items td' items)"

text \<open>The normalisation of the full name: \<open>' '.join(name.split())\<close>; a value that is not a
  string has no \<open>split\<close>, and the \<open>AttributeError\<close> becomes the status 500.\<close>

definition normalize_full_name :: "jval py_dict \<Rightarrow> http_error + jval py_dict" where
  "normalize_full_name td =
     (case map_of td (ascii ''full_name'') of
        None \<Rightarrow> Inr td
      | Some v \<Rightarrow>
          if jv_truthy v then
            (case v of
               JScalar (PStr s) \<Rightarrow>
                 Inr (AList.update (ascii ''full_name'') (JScalar (PStr (py_join [32] (py_split_ws s)))) td)
             | _ \<Rightarrow> Inl (HTTPException 500 save_failed_detail))
          else Inr td)"

text \<open>
  \<open>create_or_update_record\<close>, once it holds a connection, up to the point where it turns
  to the record store: the result is \<open>transformed_data\<close> as it is written to the store, or
  the exception raised before anything is written. The payload is the list of the items of
  \<open>record_data\<close>, in the order of the dictionary.
\<close>

definition create_or_update_record_data :: "(pystr \<times> jval) list \<Rightarrow> http_error + jval py_dict" where
  "create_or_update_record_data record_data =
     (case transform_items [] record_data of
        Inl e \<Rightarrow> Inl e
      | Inr td \<Rightarrow>
          if \<not> jv_truthy (jdict_get td (ascii ''mse_date''))
          then Inl (HTTPException 400 mse_date_required_detail)
          else normalize_full_name td)"

section \<open>The taxonomy and \<open>map_value\<close>\<close>

text \<open>The three tables of the source, from field name to the mapping from code to label.\<close>

definition COMMON_VALUE_MAPPINGS :: "(pystr \<times> (pystr \<times> pystr) list) list" where
  "COMMON_VALUE_MAPPINGS =
    [
     (ascii ''age_category'',
       [
        (ascii ''adult'',
         [1042, 1079, 1088, 1086, 1089, 1083, 1099, 1077]),
        (ascii ''child'',
         [1044, 1077, 1090, 1080])
       ]),
     (ascii ''special_marks'',
       [
        (ascii ''amputee'',
         [1040, 1084, 1087, 1091, 1090, 1072, 1085, 1090]),
        (ascii ''prisoner'',
         [1051, 1080, 1094, 1086, 44, 32, 1085, 1072, 1093, 1086, 1076, 1103, 1097, 1077,
          1077, 1089, 1103, 32, 1074, 32, 1084, 1077, 1089, 1090, 1072, 1093, 32, 1083, 1080,
          1096, 1077, 1085, 1080, 1103, 32, 1089, 1074, 1086, 1073, 1086, 1076, 1099]),
        (ascii ''pni'',
         [1051, 1080, 1094, 1086, 44, 32, 1085, 1072, 1093, 1086, 1076, 1103, 1097, 1077,
          1077, 1089, 1103, 32, 1074, 32, 1055, 1053, 1048, 32, 40, 1044, 1044, 1048, 41]),
        (ascii ''other_institution'',
         [1051, 1080, 1094, 1086, 44, 32, 1085, 1072, 1093, 1086, 1076, 1103, 1097, 1077,
          1077, 1089, 1103, 32, 1074, 32, 1076, 1088, 1091, 1075, 1080, 1093, 32, 1089, 1090,
          1072, 1094, 1080, 1086, 1085, 1072, 1088, 1085, 1099, 1093, 32, 1091, 1095, 1088,
          1077, 1078, 1076, 1077, 1085, 1080, 1103, 1093, 32, 1089, 1086, 1094, 1079, 1072,
          1097, 1080, 1090, 1099]),
        (ascii ''palliative'',
         [1053, 1091, 1078, 1076, 1072, 1102, 1097, 1080, 1081, 1089, 1103, 32, 1074, 32,
          1087, 1072, 1083, 1083, 1080, 1072, 1090, 1080, 1074, 1085, 1086, 1081, 32, 1087,
          1086, 1084, 1086, 1097, 1080]),
        (ascii ''new_region'',
         [1046, 1080, 1090, 1077, 1083, 1100, 32, 1085, 1086, 1074, 1099, 1093, 32, 1088,
          1077, 1075, 1080, 1086, 1085, 1086, 1074]),
        (ascii ''svo'',
         [1059, 1095, 1072, 1089, 1090, 1085, 1080, 1082, 32, 1057, 1042, 1054])
       ]),
     (ascii ''military_registration'',
       [
        (ascii ''registered'',
         [1057, 1086, 1089, 1090, 1086, 1103, 1097, 1080, 1081, 32, 1085, 1072, 32, 1074,
          1086, 1080, 1085, 1089, 1082, 1086, 1084, 32, 1091, 1095, 1077, 1090, 1077]),
        (ascii ''obliged'',
         [1053, 1077, 32, 1089, 1086, 1089, 1090, 1086, 1103, 1097, 1080, 1081, 32, 1085,
          1072, 32, 1074, 1086, 1080, 1085, 1089, 1082, 1086, 1084, 32, 1091, 1095, 1077, 1090,
          1077, 44, 32, 1085, 1086, 32, 1086, 1073, 1103, 1079, 1072, 1085, 1085, 1099, 1081,
          32, 1089, 1086, 1089, 1090, 1086, 1103, 1090, 1100]),
        (ascii ''applying'',
         [1055, 1086, 1089, 1090, 1091, 1087, 1072, 1102, 1097, 1080, 1081, 32, 1085, 1072,
          32, 1074, 1086, 1080, 1085, 1089, 1082, 1080, 1081, 32, 1091, 1095, 1077, 1090]),
        (ascii ''not_registered'',
         [1053, 1077, 32, 1089, 1086, 1089, 1090, 1086, 1103, 1097, 1080, 1081, 32, 1085,
          1072, 32, 1074, 1086, 1080, 1085, 1089, 1082, 1086, 1084, 32, 1091, 1095, 1077, 1090,
          1077])
       ]),
     (ascii ''mse_form'',
       [
        (ascii ''in_person'',
         [1054, 1095, 1085, 1086]),
        (ascii ''in_absentia'',
         [1047, 1072, 1086, 1095, 1085, 1086])
       ]),
     (ascii ''mse_form_change'',
       [
        (ascii ''v'',
         [1042]),
        (ascii ''g'',
         [1043]),
        (ascii ''d'',
         [1044]),
        (ascii ''e'',
         [1045]),
        (ascii ''zh'',
         [1046])
       ]),
     (ascii ''prev_disability'',
       [
        (ascii ''first'',
         [1055, 1077, 1088, 1074, 1072, 1103]),
        (ascii ''second'',
         [1042, 1090, 1086, 1088, 1072, 1103]),
        (ascii ''third'',
         [1058, 1088, 1077, 1090, 1100, 1103]),
        (ascii ''kri'',
         [1050, 1056, 1048]),
        (ascii ''not_set'',
         [1048, 1085, 1074, 1072, 1083, 1080, 1076, 1085, 1086, 1089, 1090, 1100, 32, 1085,
          1077, 32, 1091, 1089, 1090, 1072, 1085, 1086, 1074, 1083, 1077, 1085, 1072]),
        (ascii ''supt_set'',
         [1059, 1089, 1090, 1072, 1085, 1086, 1074, 1083, 1077, 1085, 1080, 1077, 32, 1057,
          1059, 1055, 1058]),
        (ascii ''supt_not_set'',
         [1057, 1059, 1055, 1058, 32, 1085, 1077, 32, 1091, 1089, 1090, 1072, 1085, 1086,
          1074, 1083, 1077, 1085, 1072])
       ]),
     (ascii ''prev_disability_reason'',
       [
        (ascii ''general_disease'',
         [1054, 1073, 1097, 1077, 1077, 32, 1079, 1072, 1073, 1086, 1083, 1077, 1074, 1072,
          1085, 1080, 1077]),
        (ascii ''childhood'',
         [1048, 1085, 1074, 1072, 1083, 1080, 1076, 1085, 1086, 1089, 1090, 1100, 32, 1089,
          32, 1076, 1077, 1090, 1089, 1090, 1074, 1072]),
        (ascii ''professional_disease'',
         [1055, 1088, 1086, 1092, 1077, 1089, 1089, 1080, 1086, 1085, 1072, 1083, 1100, 1085,
          1086, 1077, 32, 1079, 1072, 1073, 1086, 1083, 1077, 1074, 1072, 1085, 1080, 1077]),
        (ascii ''work_injury'',
         [1058, 1088, 1091, 1076, 1086, 1074, 1086, 1077, 32, 1091, 1074, 1077, 1095, 1100,
          1077]),
        (ascii ''military_injury'',
         [1042, 1086, 1077, 1085, 1085, 1072, 1103, 32, 1090, 1088, 1072, 1074, 1084, 1072]),
        (ascii ''military_service'',
         [1047, 1072, 1073, 1086, 1083, 1077, 1074, 1072, 1085, 1080, 1077, 32, 1087, 1086,
          1083, 1091, 1095, 1077, 1085, 1086, 32, 1074, 32, 1087, 1077, 1088, 1080, 1086, 1076,
          32, 1074, 1086, 1077, 1085, 1085, 1086, 1081, 32, 1089, 1083, 1091, 1078, 1073,
          1099]),
        (ascii ''other'',
         [1044, 1088, 1091, 1075, 1086, 1077])
       ]),
     (ascii ''prev_disability_term'',
       [
        (ascii ''1_year'',
         [49, 32, 1075, 1086, 1076]),
        (ascii ''2_years'',
         [50, 32, 1075, 1086, 1076, 1072]),
        (ascii ''5_years'',
         [53, 32, 1083, 1077, 1090]),
        (ascii ''until_14'',
         [1044, 1086, 32, 49, 52, 32, 1083, 1077, 1090]),
        (ascii ''until_18'',
         [1044, 1086, 32, 49, 56, 32, 1083, 1077, 1090]),
        (ascii ''indefinitely'',
         [1041, 1077, 1089, 1089, 1088, 1086, 1095, 1085, 1086])
       ]),
     (ascii ''current_disability'',
       [
        (ascii ''first'',
         [1055, 1077, 1088, 1074, 1072, 1103]),
        (ascii ''second'',
         [1042, 1090, 1086, 1088, 1072, 1103]),
        (ascii ''third'',
         [1058, 1088, 1077, 1090, 1100, 1103]),
        (ascii ''kri'',
         [1050, 1056, 1048]),
        (ascii ''not_set'',
         [1048, 1085, 1074, 1072, 1083, 1080, 1076, 1085, 1086, 1089, 1090, 1100, 32, 1085,
          1077, 32, 1091, 1089, 1090, 1072, 1085, 1086, 1074, 1083, 1077, 1085, 1072]),
        (ascii ''supt_set'',
         [1059, 1089, 1090, 1072, 1085, 1086, 1074, 1083, 1077, 1085, 1080, 1077, 32, 1057,
          1059, 1055, 1058]),
        (ascii ''supt_not_set'',
         [1057, 1059, 1055, 1058, 32, 1085, 1077, 32, 1091, 1089, 1090, 1072, 1085, 1086,
          1074, 1083, 1077, 1085, 1072])
       ]),
     (ascii ''current_disability_reason'',
       [
        (ascii ''general_disease'',
         [1054, 1073, 1097, 1077, 1077, 32, 1079, 1072, 1073, 1086, 1083, 1077, 1074, 1072,
          1085, 1080, 1077]),
        (ascii ''childhood'',
         [1048, 1085, 1074, 1072, 1083, 1080, 1076, 1085, 1086, 1089, 1090, 1100, 32, 1089,
          32, 1076, 1077, 1090, 1089, 1090, 1074, 1072]),
        (ascii ''professional_disease'',
         [1055, 1088, 1086, 1092, 1077, 1089, 1089, 1080, 1086, 1085, 1072, 1083, 1100, 1085,
          1086, 1077, 32, 1079, 1072, 1073, 1086, 1083, 1077, 1074, 1072, 1085, 1080, 1077]),
        (ascii ''work_injury'',
         [1058, 1088, 1091, 1076, 1086, 1074, 1086, 1077, 32, 1091, 1074, 1077, 1095, 1100,
          1077]),
        (ascii ''military_injury'',
         [1042, 1086, 1077, 1085, 1085, 1072, 1103, 32, 1090, 1088, 1072, 1074, 1084, 1072]),
        (ascii ''military_service'',
         [1047, 1072, 1073, 1086, 1083, 1077, 1074, 1072, 1085, 1080, 1077, 32, 1087, 1086,
          1083, 1091, 1095, 1077, 1085, 1086, 32, 1074, 32, 1087, 1077, 1088, 1080, 1086, 1076,
          32, 1074, 1086, 1077, 1085, 1085, 1086, 1081, 32, 1089, 1083, 1091, 1078, 1073,
          1099]),
        (ascii ''other'',
         [1044, 1088, 1091, 1075, 1086, 1077])
       ]),
     (ascii ''current_disability_term'',
       [
        (ascii ''1_year'',
         [49, 32, 1075, 1086, 1076]),
        (ascii ''2_years'',
         [50, 32, 1075, 1086, 1076, 1072]),
        (ascii ''5_years'',
         [53, 32, 1083, 1077, 1090]),
        (ascii ''until_14'',
         [1044, 1086, 32, 49, 52, 32, 1083, 1077, 1090]),
        (ascii ''until_18'',
         [1044, 1086, 32, 49, 56, 32, 1083, 1077, 1090]),
        (ascii ''indefinitely'',
         [1041, 1077, 1089, 1089, 1088, 1086, 1095, 1085, 1086])
       ]),
     (ascii ''pdo_developed'',
       [
        (ascii ''consent'',
         [1055, 1086, 1083, 1091, 1095, 1077, 1085, 1086, 32, 1089, 1086, 1075, 1083, 1072,
          1089, 1080, 1077]),
        (ascii ''refusal'',
         [1054, 1090, 1082, 1072, 1079])
       ])
    ]"

definition BUREAU_VALUE_MAPPINGS :: "(pystr \<times> (pystr \<times> pystr) list) list" where
  "BUREAU_VALUE_MAPPINGS =
    [
     (ascii ''document_format'',
       [
        (ascii ''paper_direction'',
         [1053, 1072, 1087, 1088, 1072, 1074, 1083, 1077, 1085, 1080, 1077, 32, 1073, 1091,
          1084, 1072, 1078, 1085, 1086, 1077]),
        (ascii ''electronic_direction'',
         [1053, 1072, 1087, 1088, 1072, 1074, 1083, 1077, 1085, 1080, 1077, 32, 1074, 32,
          1101, 1083, 1077, 1082, 1090, 1088, 1086, 1085, 1085, 1086, 1084, 32, 1074, 1080,
          1076, 1077]),
        (ascii ''paper_application'',
         [1047, 1072, 1103, 1074, 1083, 1077, 1085, 1080, 1077, 32, 1073, 1091, 1084, 1072,
          1078, 1085, 1086, 1077]),
        (ascii ''epgu'',
         [1047, 1072, 1103, 1074, 1083, 1077, 1085, 1080, 1077, 32, 1045, 1055, 1043, 1059])
       ]),
     (ascii ''purpose'',
       [
        (ascii ''disability_group'',
         [1043, 1088, 1091, 1087, 1087, 1072, 32, 1080, 1085, 1074, 1072, 1083, 1080, 1076,
          1085, 1086, 1089, 1090, 1080]),
        (ascii ''disabled_child'',
         [1050, 1072, 1090, 1077, 1075, 1086, 1088, 1080, 1103, 32, 39, 1088, 1077, 1073,
          1077, 1085, 1086, 1082, 45, 1080, 1085, 1074, 1072, 1083, 1080, 1076, 39]),
        (ascii ''disability_reason'',
         [1055, 1088, 1080, 1095, 1080, 1085, 1072, 32, 1080, 1085, 1074, 1072, 1083, 1080,
          1076, 1085, 1086, 1089, 1090, 1080]),
        (ascii ''disability_term'',
         [1057, 1088, 1086, 1082, 32, 1080, 1085, 1074, 1072, 1083, 1080, 1076, 1085, 1086,
          1089, 1090, 1080]),
        (ascii ''supt'',
         [1054, 1087, 1088, 1077, 1076, 1077, 1083, 1077, 1085, 1080, 1077, 32, 1057, 1059,
          1055, 1058]),
        (ascii ''ipra_development'',
         [1056, 1072, 1079, 1088, 1072, 1073, 1086, 1090, 1082, 1072, 32, 1048, 1055, 1056,
          1040]),
        (ascii ''prp_development'',
         [1056, 1072, 1079, 1088, 1072, 1073, 1086, 1090, 1082, 1072, 32, 1055, 1056, 1055]),
        (ascii ''death_reason'',
         [1054, 1087, 1088, 1077, 1076, 1077, 1083, 1077, 1085, 1080, 1077, 32, 1087, 1088,
          1080, 1095, 1080, 1085, 1099, 32, 1089, 1084, 1077, 1088, 1090, 1080]),
        (ascii ''care_need'',
         [1054, 1087, 1088, 1077, 1076, 1077, 1083, 1077, 1085, 1080, 1077, 32, 1085, 1091,
          1078, 1076, 1072, 1077, 1084, 1086, 1089, 1090, 1080, 32, 1074, 32, 1087, 1086, 1089,
          1090, 1086, 1103, 1085, 1085, 1086, 1084, 32, 1087, 1086, 1089, 1090, 1086, 1088,
          1086, 1085, 1085, 1077, 1084, 32, 1091, 1093, 1086, 1076, 1077]),
        (ascii ''new_certificate'',
         [1042, 1099, 1076, 1072, 1095, 1072, 32, 1085, 1086, 1074, 1086, 1081, 32, 1089,
          1087, 1088, 1072, 1074, 1082, 1080, 32, 1086, 1073, 32, 1080, 1085, 1074, 1072, 1083,
          1080, 1076, 1085, 1086, 1089, 1090, 1080]),
        (ascii ''duplicate_certificate'',
         [1042, 1099, 1076, 1072, 1095, 1072, 32, 1076, 1091, 1073, 1083, 1080, 1082, 1072,
          1090, 1072, 32, 1089, 1087, 1088, 1072, 1074, 1082, 1080, 32, 1086, 1073, 32, 1080,
          1085, 1074, 1072, 1083, 1080, 1076, 1085, 1086, 1089, 1090, 1080]),
        (ascii ''new_supt_certificate'',
         [1042, 1099, 1076, 1072, 1095, 1072, 32, 1085, 1086, 1074, 1086, 1081, 32, 1089,
          1087, 1088, 1072, 1074, 1082, 1080, 32, 1086, 32, 1057, 1059, 1055, 1058]),
        (ascii ''duplicate_supt_certificate'',
         [1042, 1099, 1076, 1072, 1095, 1072, 32, 1076, 1091, 1073, 1083, 1080, 1082, 1072,
          1090, 1072, 32, 1089, 1087, 1088, 1072, 1074, 1082, 1080, 32, 1086, 32, 1057, 1059,
          1055, 1058]),
        (ascii ''ipra_changes'',
         [1042, 1085, 1077, 1089, 1077, 1085, 1080, 1077, 32, 1080, 1079, 1084, 1077, 1085,
          1077, 1085, 1080, 1081, 32, 1074, 32, 1048, 1055, 1056, 1040]),
        (ascii ''prp_changes'',
         [1042, 1085, 1077, 1089, 1077, 1085, 1080, 1077, 32, 1080, 1079, 1084, 1077, 1085,
          1077, 1085, 1080, 1081, 32, 1074, 32, 1055, 1056, 1055])
       ]),
     (ascii ''mse_type'',
       [
        (ascii ''primary'',
         [1055, 1077, 1088, 1074, 1080, 1095, 1085, 1086]),
        (ascii ''repeat'',
         [1055, 1086, 1074, 1090, 1086, 1088, 1085, 1086]),
        (ascii ''early_repeat'',
         [1055, 1086, 1074, 1090, 1086, 1088, 1085, 1086, 32, 40, 1076, 1086, 1089, 1088,
          1086, 1095, 1085, 1086, 41])
       ]),
     (ascii ''ipra_direction'',
       [
        (ascii ''regular'',
         [1042, 32, 1086, 1095, 1077, 1088, 1077, 1076, 1085, 1086, 1081, 32, 1089, 1088,
          1086, 1082]),
        (ascii ''exclusively'',
         [1048, 1089, 1082, 1083, 1102, 1095, 1080, 1090, 1077, 1083, 1100, 1085, 1086, 32,
          1076, 1083, 1103, 32, 1088, 1072, 1079, 1088, 1072, 1073, 1086, 1090, 1082, 1080, 32,
          1048, 1055, 1056, 1040]),
        (ascii ''health_change'',
         [1048, 1079, 1084, 1077, 1085, 1077, 1085, 1080, 1077, 32, 1089, 1086, 1089, 1090,
          1086, 1103, 1085, 1080, 1103, 32, 1079, 1076, 1086, 1088, 1086, 1074, 1100, 1103, 32,
          40, 1087, 1086, 1074, 1090, 1086, 1088, 1085, 1086, 32, 1076, 1086, 1089, 1088, 1086,
          1095, 1085, 1086, 41])
       ]),
     (ascii ''ipra_contains_tsr'',
       [
        (ascii ''yes'',
         [1044, 1072]),
        (ascii ''no'',
         [1053, 1077, 1090])
       ]),
     (ascii ''ipra_changes'',
       [
        (ascii ''anthropometric'',
         [1040, 1085, 1090, 1088, 1086, 1087, 1086, 1084, 1077, 1090, 1088, 1080, 1095, 1077,
          1089, 1082, 1080, 1077, 32, 1076, 1072, 1085, 1085, 1099, 1077]),
        (ascii ''personal'',
         [1055, 1077, 1088, 1089, 1086, 1085, 1072, 1083, 1100, 1085, 1099, 1077, 32, 1076,
          1072, 1085, 1085, 1099, 1077]),
        (ascii ''tsr_specs'',
         [1059, 1090, 1086, 1095, 1085, 1077, 1085, 1080, 1077, 32, 1090, 1077, 1093, 1085,
          1080, 1095, 1077, 1089, 1082, 1080, 1093, 32, 1093, 1072, 1088, 1072, 1082, 1090,
          1077, 1088, 1080, 1089, 1090, 1080, 1082, 32, 1058, 1057, 1056]),
        (ascii ''errors'',
         [1048, 1089, 1087, 1088, 1072, 1074, 1083, 1077, 1085, 1080, 1077, 32, 1090, 1077,
          1093, 1085, 1080, 1095, 1077, 1089, 1082, 1080, 1093, 32, 1086, 1096, 1080, 1073,
          1086, 1082]),
        (ascii ''maternal_capital'',
         [1052, 1072, 1090, 1077, 1088, 1080, 1085, 1089, 1082, 1080, 1081, 32, 1082, 1072,
          1087, 1080, 1090, 1072, 1083])
       ])
    ]"

definition EXPERT_VALUE_MAPPINGS :: "(pystr \<times> (pystr \<times> pystr) list) list" where
  "EXPERT_VALUE_MAPPINGS =
    [
     (ascii ''document_format'',
       [
        (ascii ''paper_application'',
         [1047, 1072, 1103, 1074, 1083, 1077, 1085, 1080, 1077, 32, 1073, 1091, 1084, 1072,
          1078, 1085, 1086, 1077]),
        (ascii ''epgu'',
         [1047, 1072, 1103, 1074, 1083, 1077, 1085, 1080, 1077, 32, 1045, 1055, 1043, 1059])
       ]),
     (ascii ''procedure_type'',
       [
        (ascii ''appeal'',
         [1054, 1073, 1078, 1072, 1083, 1086, 1074, 1072, 1085, 1080, 1077]),
        (ascii ''control'',
         [1050, 1086, 1085, 1090, 1088, 1086, 1083, 1100]),
        (ascii ''pdo'',
         [1055, 1044, 1054])
       ]),
     (ascii ''purpose'',
       [
        (ascii ''disability_group'',
         [1043, 1088, 1091, 1087, 1087, 1072, 32, 1080, 1085, 1074, 1072, 1083, 1080, 1076,
          1085, 1086, 1089, 1090, 1080]),
        (ascii ''disabled_child'',
         [1050, 1072, 1090, 1077, 1075, 1086, 1088, 1080, 1103, 32, 1088, 1077, 1073, 1077,
          1085, 1086, 1082, 45, 1080, 1085, 1074, 1072, 1083, 1080, 1076]),
        (ascii ''disability_reason'',
         [1055, 1088, 1080, 1095, 1080, 1085, 1072, 32, 1080, 1085, 1074, 1072, 1083, 1080,
          1076, 1085, 1086, 1089, 1090, 1080]),
        (ascii ''disability_term'',
         [1057, 1088, 1086, 1082, 32, 1080, 1085, 1074, 1072, 1083, 1080, 1076, 1085, 1086,
          1089, 1090, 1080]),
        (ascii ''supt'',
         [1054, 1087, 1088, 1077, 1076, 1077, 1083, 1077, 1085, 1080, 1077, 32, 1057, 1059,
          1055, 1058]),
        (ascii ''care_need'',
         [1054, 1087, 1088, 1077, 1076, 1077, 1083, 1077, 1085, 1080, 1077, 32, 1085, 1091,
          1078, 1076, 1072, 1077, 1084, 1086, 1089, 1090, 1080, 32, 1074, 32, 1087, 1086, 1089,
          1090, 1086, 1088, 1086, 1085, 1085, 1077, 1084, 32, 1091, 1093, 1086, 1076, 1077]),
        (ascii ''death_reason'',
         [1054, 1087, 1088, 1077, 1076, 1077, 1083, 1077, 1085, 1080, 1077, 32, 1087, 1088,
          1080, 1095, 1080, 1085, 1099, 32, 1089, 1084, 1077, 1088, 1090, 1080]),
        (ascii ''ipra_development'',
         [1056, 1072, 1079, 1088, 1072, 1073, 1086, 1090, 1082, 1072, 32, 1048, 1055, 1056,
          1040]),
        (ascii ''prp_development'',
         [1056, 1072, 1079, 1088, 1072, 1073, 1086, 1090, 1082, 1072, 32, 1055, 1056, 1055]),
        (ascii ''other'',
         [1048, 1085, 1086, 1077])
       ]),
     (ascii ''mse_type'',
       [
        (ascii ''primary'',
         [1055, 1077, 1088, 1074, 1080, 1095, 1085, 1086]),
        (ascii ''repeat'',
         [1055, 1086, 1074, 1090, 1086, 1088, 1085, 1086]),
        (ascii ''early_repeat'',
         [1055, 1086, 1074, 1090, 1086, 1088, 1085, 1086, 32, 40, 1076, 1086, 1089, 1088,
          1086, 1095, 1085, 1086, 41])
       ]),
     (ascii ''decision_changed_part'',
       [
        (ascii ''disability_group'',
         [1043, 1088, 1091, 1087, 1087, 1099, 32, 1080, 1085, 1074, 1072, 1083, 1080, 1076,
          1085, 1086, 1089, 1090, 1080]),
        (ascii ''disabled_child'',
         [1050, 1072, 1090, 1077, 1075, 1086, 1088, 1080, 1080, 32, 1088, 1077, 1073, 1077,
          1085, 1086, 1082, 45, 1080, 1085, 1074, 1072, 1083, 1080, 1076]),
        (ascii ''disability_term'',
         [1057, 1088, 1086, 1082, 1072, 32, 1080, 1085, 1074, 1072, 1083, 1080, 1076, 1085,
          1086, 1089, 1090, 1080]),
        (ascii ''disability_reason'',
         [1055, 1088, 1080, 1095, 1080, 1085, 1099, 32, 1080, 1085, 1074, 1072, 1083, 1080,
          1076, 1085, 1086, 1089, 1090, 1080]),
        (ascii ''ipra_development'',
         [1056, 1072, 1079, 1088, 1072, 1073, 1086, 1090, 1082, 1080, 32, 1048, 1055, 1056,
          1040]),
        (ascii ''supt'',
         [1057, 1090, 1077, 1087, 1077, 1085, 1080, 32, 1059, 1055, 1058]),
        (ascii ''prp_development'',
         [1055, 1056, 1055]),
        (ascii ''other'',
         [1044, 1088, 1091, 1075, 1080, 1077])
       ]),
     (ascii ''tsr_changed'',
       [
        (ascii ''yes'',
         [1044, 1072])
       ]),
     (ascii ''sfr_appeal'',
       [
        (ascii ''yes'',
         [1044, 1072])
       ]),
     (ascii ''changed'',
       [
        (ascii ''yes'',
         [1044, 1072])
       ])
    ]"

text \<open>\<open>{**a, **b}\<close>: the keys of \<open>a\<close> in their order, each key of \<open>b\<close> replacing the value
  of the same key or added at the end.\<close>

definition dict_merge :: "'v py_dict \<Rightarrow> 'v py_dict \<Rightarrow> 'v py_dict" where
  "dict_merge a b = fold (\<lambda>(k, v). AList.update k v) b a"

definition get_value_mappings :: "pystr \<Rightarrow> (pystr \<times> (pystr \<times> pystr) list) list" where
  "get_value_mappings bureau_number =
     (if py_startswith bureau_number (ascii ''expert_'')
      then dict_merge COMMON_VALUE_MAPPINGS EXPERT_VALUE_MAPPINGS
      else dict_merge COMMON_VALUE_MAPPINGS BUREAU_VALUE_MAPPINGS)"

text \<open>\<open>mapping.get(k, default)\<close>\<close>

definition mapping_get :: "pystr py_dict \<Rightarrow> pystr \<Rightarrow> pystr \<Rightarrow> pystr" where
  "mapping_get mapping k dflt = (case map_of mapping k of None \<Rightarrow> dflt | Some l \<Rightarrow> l)"

text \<open>\<open>map_value(bureau_number, field_name, value)\<close> at its declared types: \<open>value\<close> is
  \<open>Optional[str]\<close>.\<close>

definition map_value :: "pystr \<Rightarrow> pystr \<Rightarrow> pystr option \<Rightarrow> pystr" where
  "map_value bureau_number field_name v =
     (case v of
        None \<Rightarrow> []
      | Some val \<Rightarrow>
          if val = [] then []
          else
            (case map_of (get_value_mappings bureau_number) field_name of
               Some mapping \<Rightarrow>
                 if 44 \<in> set val
                 then py_join (ascii '', '')
                        (map (\<lambda>t. mapping_get mapping (py_strip t) (py_strip t))
                           (filter (\<lambda>t. py_strip t \<noteq> []) (py_split 44 val)))
                 else mapping_get mapping val val
             | None \<Rightarrow> val))"

text \<open>
  The same call with the arguments the sheet builder passes, which are whatever the record
  holds: a falsy value gives the empty string before anything else is looked at; a unit
  identifier that is not a string has no \<open>startswith\<close> (\<open>AttributeError\<close>); a truthy value
  that is not a string is returned as it is for a field without a mapping, and fails the
  test \<open>',' in value\<close> otherwise (\<open>TypeError\<close>).
\<close>

definition map_value_call :: "pyval \<Rightarrow> pystr \<Rightarrow> pyval \<Rightarrow> py_error + pyval" where
  "map_value_call bureau_number field_name v =
     (if \<not> truthy v then Inr (PStr [])
      else case bureau_number of
        PStr b \<Rightarrow>
          (case v of
             PStr val \<Rightarrow> Inr (PStr (map_value b field_name (Some val)))
           | _ \<Rightarrow>
             (case map_of (get_value_mappings b) field_name of
                None \<Rightarrow> Inr v
              | Some mapping \<Rightarrow> Inl TypeError))
      | _ \<Rightarrow> Inl AttributeError)"

section \<open>The sheet builder: \<open>create_excel_worksheet\<close>\<close>

text \<open>
  The part of an openpyxl worksheet the function writes: the cells with their value, font,
  alignment and border, the merged ranges (first row, first column, last row, last column),
  the widths in \<open>column_dimensions\<close> (by column letter), the reference of the auto-filter
  and the freeze panes. The cells are held row by
  row; the cell of row \<open>r\<close> and column \<open>c\<close> (both from 1) is the element \<open>c - 1\<close> of the row
  \<open>r - 1\<close>. A width is a rational number: the source computes it in floating point.
\<close>

record alignment =
  horizontal :: pystr
  vertical :: pystr
  wrap_text :: bool

record border =
  border_left :: pystr
  border_right :: pystr
  border_top :: pystr
  border_bottom :: pystr

record cell =
  cell_value :: pyval
  font_bold :: bool
  cell_alignment :: "alignment option"
  cell_border :: "border option"

record worksheet =
  ws_rows :: "cell list list"
  merged_cells :: "(nat \<times> nat \<times> nat \<times> nat) list"
  column_widths :: "(pystr \<times> rat) list"
  auto_filter_ref :: "pystr option"
  freeze_panes :: "pystr option"

definition THIN_BORDER :: border where
  "THIN_BORDER = \<lparr>border_left = ascii ''thin'', border_right = ascii ''thin'',
     border_top = ascii ''thin'', border_bottom = ascii ''thin''\<rparr>"

definition HEADER_ALIGNMENT :: alignment where
  "HEADER_ALIGNMENT = \<lparr>horizontal = ascii ''center'', vertical = ascii ''center'', wrap_text = True\<rparr>"

definition CELL_ALIGNMENT :: alignment where
  "CELL_ALIGNMENT = \<lparr>horizontal = ascii ''left'', vertical = ascii ''center'', wrap_text = True\<rparr>"

text \<open>
  \<open>worksheet.cell(row, column, value)\<close> binds the value to the cell. openpyxl takes a string
  through its \<open>check_string\<close>: the string is cut to 32767 characters, and when what is left
  holds a control character (the code points 0 to 8, 11, 12 and 14 to 31)
  \<open>IllegalCharacterError\<close> is raised. A value that is not a string is stored as it is, and
  \<open>None\<close> leaves the cell without a value.
\<close>

definition illegal_character :: "nat \<Rightarrow> bool" where
  "illegal_character c \<longleftrightarrow> c \<le> 8 \<or> c = 11 \<or> c = 12 \<or> (14 \<le> c \<and> c \<le> 31)"

definition check_string :: "pystr \<Rightarrow> py_error + pystr" where
  "check_string s =
     (let value = take 32767 s in
      if \<exists>c \<in> set value. illegal_character c then Inl IllegalCharacterError else Inr value)"

definition cell_write :: "pyval \<Rightarrow> py_error + pyval" where
  "cell_write v =
     (case v of
        PStr s \<Rightarrow> (case check_string s of Inl e \<Rightarrow> Inl e | Inr value \<Rightarrow> Inr (PStr value))
      | _ \<Rightarrow> Inr v)"

text \<open>A cell as \<open>worksheet.cell(row, column, value)\<close> leaves it: the value stored, no
  style.\<close>

definition plain_cell :: "pyval \<Rightarrow> cell" where
  "plain_cell v = \<lparr>cell_value = v, font_bold = False, cell_alignment = None, cell_border = None\<rparr>"

text \<open>\<open>openpyxl.utils.get_column_letter\<close>: 1 is A, 26 is Z, 27 is AA. The library
  refuses the numbers outside 1 to 18278; the source calls it with the numbers of the
  columns of a sheet, 1 to 28.\<close>

fun get_column_letter :: "nat \<Rightarrow> pystr" where
  "get_column_letter n =
     (if n = 0 then []
      else if n mod 26 = 0 then get_column_letter (n div 26 - 1) @ [26 + 64]
      else get_column_letter (n div 26) @ [n mod 26 + 64])"

declare get_column_letter.simps [simp del]

text \<open>The titles of the first column, of the 22 columns every sheet has after it, and of
  the columns of an expert panel and of a bureau.\<close>

definition header_source :: pystr where
  "header_source = [1048, 1089, 1090, 1086, 1095, 1085, 1080, 1082]"

definition header_number :: pystr where
  "header_number = [8470, 32, 1087, 47, 1087]"

definition common_headers :: "pystr list" where
  "common_headers =
     [[1060, 1048, 1054],
      [1044, 1072, 1090, 1072, 32, 1088, 1086, 1078, 1076, 1077, 1085, 1080, 1103],
      [1057, 1053, 1048, 1051, 1057],
      [1044, 1072, 1090, 1072, 32, 1087, 1088, 1086, 1074, 1077, 1076, 1077, 1085, 1080, 1103,
       32, 1052, 1057, 1069],
      [1044, 1072, 1090, 1072, 32, 1074, 1099, 1085, 1077, 1089, 1077, 1085, 1080, 1103, 32,
       1088, 1077, 1096, 1077, 1085, 1080, 1103],
      [1044, 1072, 1090, 1072, 32, 1088, 1077, 1075, 1080, 1089, 1090, 1088, 1072, 1094, 1080,
       1080, 32, 1085, 1072, 1087, 1088, 1072, 1074, 1083, 1077, 1085, 1080, 1103],
      [1042, 1086, 1079, 1088, 1072, 1089, 1090, 1085, 1072, 1103, 32, 1082, 1072, 1090, 1077,
       1075, 1086, 1088, 1080, 1103],
      [1054, 1089, 1086, 1073, 1099, 1077, 32, 1086, 1090, 1084, 1077, 1090, 1082, 1080],
      [1042, 1086, 1080, 1085, 1089, 1082, 1080, 1081, 32, 1091, 1095, 1077, 1090],
      [1060, 1086, 1088, 1084, 1072, 1090, 32, 1076, 1086, 1082, 1091, 1084, 1077, 1085, 1090,
       1072],
      [1062, 1077, 1083, 1100, 32, 1086, 1089, 1074, 1080, 1076, 1077, 1090, 1077, 1083, 1100,
       1089, 1090, 1074, 1086, 1074, 1072, 1085, 1080, 1103],
      [1052, 1057, 1069, 32, 1087, 1088, 1086, 1074, 1086, 1076, 1080, 1090, 1089, 1103],
      [1060, 1086, 1088, 1084, 1072, 32, 1087, 1088, 1086, 1074, 1077, 1076, 1077, 1085, 1080,
       1103, 32, 1052, 1057, 1069],
      [1048, 1079, 1084, 1077, 1085, 1077, 1085, 1080, 1077, 32, 1092, 1086, 1088, 1084, 1099,
       32, 1087, 1088, 1086, 1074, 1077, 1076, 1077, 1085, 1080, 1103, 32, 1052, 1057, 1069],
      [1048, 1085, 1074, 1072, 1083, 1080, 1076, 1085, 1086, 1089, 1090, 1100, 32, 40, 1087,
       1088, 1077, 1076, 1099, 1076, 1091, 1097, 1072, 1103, 32, 1052, 1057, 1069, 41],
      [1055, 1088, 1080, 1095, 1080, 1085, 1072, 32, 1080, 1085, 1074, 1072, 1083, 1080, 1076,
       1085, 1086, 1089, 1090, 1080, 32, 40, 1087, 1088, 1077, 1076, 1099, 1076, 1091, 1097,
       1072, 1103, 32, 1052, 1057, 1069, 41],
      [1057, 1088, 1086, 1082, 32, 1080, 1085, 1074, 1072, 1083, 1080, 1076, 1085, 1086, 1089,
       1090, 1080, 32, 40, 1087, 1088, 1077, 1076, 1099, 1076, 1091, 1097, 1072, 1103, 32,
       1052, 1057, 1069, 41],
      [1048, 1085, 1074, 1072, 1083, 1080, 1076, 1085, 1086, 1089, 1090, 1100, 32, 40, 1090,
       1077, 1082, 1091, 1097, 1072, 1103, 32, 1052, 1057, 1069, 41],
      [1055, 1088, 1080, 1095, 1080, 1085, 1072, 32, 1080, 1085, 1074, 1072, 1083, 1080, 1076,
       1085, 1086, 1089, 1090, 1080, 32, 40, 1090, 1077, 1082, 1091, 1097, 1072, 1103, 32,
       1052, 1057, 1069, 41],
      [1057, 1088, 1086, 1082, 32, 1080, 1085, 1074, 1072, 1083, 1080, 1076, 1085, 1086, 1089,
       1090, 1080, 32, 40, 1090, 1077, 1082, 1091, 1097, 1072, 1103, 32, 1052, 1057, 1069, 41],
      [1044, 1080, 1072, 1075, 1085, 1086, 1079, 32, 1086, 1089, 1085, 1086, 1074, 1085, 1086,
       1081, 32, 40, 1089, 32, 1096, 1080, 1092, 1088, 1086, 1084, 32, 1052, 1050, 1041, 41],
      [1055, 1044, 1054, 32, 1088, 1072, 1079, 1088, 1072, 1073, 1086, 1090, 1072, 1085,
       1072]]"

definition expert_headers :: "pystr list" where
  "expert_headers =
     [[1055, 1086, 1088, 1103, 1076, 1086, 1082, 32, 1087, 1088, 1086, 1074, 1077, 1076, 1077,
       1085, 1080, 1103, 32, 1052, 1057, 1069],
      [1056, 1077, 1096, 1077, 1085, 1080, 1077, 32, 1080, 1079, 1084, 1077, 1085, 1077, 1085,
       1086, 32, 1074, 32, 1095, 1072, 1089, 1090, 1080],
      [1048, 1079, 32, 1085, 1080, 1093, 32, 1080, 1079, 1084, 1077, 1085, 1077, 1085, 1086,
       32, 1074, 32, 1095, 1072, 1089, 1090, 1080, 32, 1058, 1057, 1056],
      [1052, 1057, 1069, 32, 1087, 1086, 32, 1086, 1073, 1088, 1072, 1097, 1077, 1085, 1080,
       1102, 32, 1054, 1057, 1060, 1056],
      [1048, 1079, 32, 1085, 1080, 1093, 32, 1080, 1079, 1084, 1077, 1085, 1077, 1085, 1086]]"

definition bureau_headers :: "pystr list" where
  "bureau_headers =
     [[1056, 1072, 1079, 1088, 1072, 1073, 1086, 1090, 1072, 1085, 1072, 32, 1048, 1055, 1056,
       1040, 32, 1087, 1086, 32, 1085, 1072, 1087, 1088, 1072, 1074, 1083, 1077, 1085, 1080,
       1102],
      [1048, 1055, 1056, 1040, 32, 1089, 1086, 1076, 1077, 1088, 1078, 1080, 1090, 32, 1058,
       1057, 1056],
      [1042, 1085, 1077, 1089, 1077, 1085, 1080, 1077, 32, 1080, 1079, 1084, 1077, 1085, 1077,
       1085, 1080, 1081, 32, 1074, 32, 1048, 1055, 1056, 1040]]"

definition no_records_text :: pystr where
  "no_records_text = [1053, 1077, 1090, 32, 1079, 1072, 1087, 1080, 1089, 1077, 1081]"

definition bureau_label :: pystr where
  "bureau_label = [1041, 1102, 1088, 1086, 32, 8470]"

definition expert_label :: pystr where
  "expert_label = [1069, 1057, 32, 8470]"

text \<open>\<open>is_expert\<close>: false for an empty batch, else whether the unit identifier of the first
  record starts with \<open>expert_\<close>; an identifier that is not a string has no \<open>startswith\<close>.\<close>

definition batch_is_expert :: "pyval py_dict list \<Rightarrow> py_error + bool" where
  "batch_is_expert records =
     (case records of
        [] \<Rightarrow> Inr False
      | first_record # _ \<Rightarrow>
          (case dict_get_default first_record (ascii ''bureau_number'') (PStr []) of
             PStr b \<Rightarrow> Inr (py_startswith b (ascii ''expert_''))
           | _ \<Rightarrow> Inl AttributeError))"

definition sheet_headers :: "bool \<Rightarrow> bool \<Rightarrow> pystr list" where
  "sheet_headers is_all_records is_expert =
     (if is_all_records then header_source else header_number) # common_headers
     @ (if is_expert then expert_headers else bureau_headers)"

text \<open>A cell of the header, after the title is written and the three styles are set. The
  titles are constants of the source, short and without control characters, as are the
  placeholder of an empty sheet and the empty string: \<open>check_string\<close> returns them as they
  are, so that their cells hold them.\<close>

definition header_cell :: "pystr \<Rightarrow> cell" where
  "header_cell h = \<lparr>cell_value = PStr h, font_bold = True,
     cell_alignment = Some HEADER_ALIGNMENT, cell_border = Some THIN_BORDER\<rparr>"

text \<open>The first error of a sequence of computations, in their order, or all the results.\<close>

fun collect :: "('e + 'a) list \<Rightarrow> 'e + 'a list" where
  "collect [] = Inr []"
| "collect (Inl e # xs) = Inl e"
| "collect (Inr v # xs) = (case collect xs of Inl e \<Rightarrow> Inl e | Inr vs \<Rightarrow> Inr (v # vs))"

text \<open>The label of the unit in the first column of the sheet of all records.\<close>

definition second_part :: "pystr \<Rightarrow> py_error + pystr" where
  "second_part b = (case py_split 95 b of _ # x # _ \<Rightarrow> Inr x | _ \<Rightarrow> Inl IndexError)"

definition source_label :: "pyval \<Rightarrow> py_error + pyval" where
  "source_label bureau_number =
     (case bureau_number of
        PStr b \<Rightarrow>
          if py_startswith b (ascii ''bureau_'')
          then (case second_part b of Inr n \<Rightarrow> Inr (PStr (bureau_label @ n)) | Inl e \<Rightarrow> Inl e)
          else if py_startswith b (ascii ''expert_'')
          then (case second_part b of Inr n \<Rightarrow> Inr (PStr (expert_label @ n)) | Inl e \<Rightarrow> Inl e)
          else Inr (PStr b)
      | _ \<Rightarrow> Inl AttributeError)"

text \<open>\<open>record.get(a) or record.get(b)\<close>\<close>

definition get_either :: "pyval py_dict \<Rightarrow> string \<Rightarrow> string \<Rightarrow> pyval" where
  "get_either r a b = py_or (dict_get r (ascii a)) (dict_get r (ascii b))"

definition date_cell :: "pyval \<Rightarrow> py_error + pyval" where
  "date_cell v = (case format_excel_date v of Inr s \<Rightarrow> Inr (PStr s) | Inl e \<Rightarrow> Inl e)"

text \<open>The cell of the special marks: the marks are split on commas, trimmed, the empty ones
  dropped, each one mapped, and the labels joined with \<open>"; "\<close>.\<close>

definition special_marks_cell :: "pyval \<Rightarrow> pyval \<Rightarrow> py_error + pyval" where
  "special_marks_cell bureau_number v =
     (case py_or v (PStr []) of
        PStr s \<Rightarrow>
          (case collect (map (\<lambda>mark. map_value_call bureau_number (ascii ''special_marks'') (PStr (py_strip mark)))
                           (filter (\<lambda>mark. py_strip mark \<noteq> []) (py_split 44 s))) of
             Inl e \<Rightarrow> Inl e
           | Inr labels \<Rightarrow> Inr (PStr (py_join (ascii ''; '') (map py_str labels))))
      | _ \<Rightarrow> Inl AttributeError)"

text \<open>The values computed for one row, in the order of the columns, which is the order
  the source computes them in.\<close>

definition record_cells :: "bool \<Rightarrow> bool \<Rightarrow> nat \<Rightarrow> pyval py_dict \<Rightarrow> (py_error + pyval) list" where
  "record_cells is_all_records is_expert row_num r =
     (let bureau_number = dict_get_default r (ascii ''bureau_number'') (PStr []) in
      [ if is_all_records then source_label bureau_number else Inr (PInt (int row_num - 1)),
        Inr (py_or (get_either r ''fullName'' ''full_name'') (PStr [])),
        date_cell (get_either r ''birthDate'' ''birth_date''),
        Inr (dict_get_default r (ascii ''snils'') (PStr [])),
        date_cell (get_either r ''mseDate'' ''mse_date''),
        date_cell (get_either r ''decisionDate'' ''decision_date''),
        date_cell (get_either r ''regDate'' ''reg_date''),
        map_value_call bureau_number (ascii ''age_category'') (get_either r ''ageCategory'' ''age_category''),
        special_marks_cell bureau_number (get_either r ''specialMarks'' ''special_marks''),
        map_value_call bureau_number (ascii ''military_registration'')
          (get_either r ''militaryRegistration'' ''military_registration''),
        map_value_call bureau_number (ascii ''document_format'')
          (get_either r ''documentFormat'' ''document_format''),
        map_value_call bureau_number (ascii ''purpose'') (dict_get r (ascii ''purpose'')),
        map_value_call bureau_number (ascii ''mse_type'') (get_either r ''mseType'' ''mse_type''),
        map_value_call bureau_number (ascii ''mse_form'') (get_either r ''mseForm'' ''mse_form''),
        map_value_call bureau_number (ascii ''mse_form_change'')
          (get_either r ''mseFormChange'' ''mse_form_change''),
        map_value_call bureau_number (ascii ''prev_disability'')
          (get_either r ''prevDisability'' ''prev_disability''),
        map_value_call bureau_number (ascii ''prev_disability_reason'')
          (get_either r ''prevDisabilityReason'' ''prev_disability_reason''),
        map_value_call bureau_number (ascii ''prev_disability_term'')
          (get_either r ''prevDisabilityTerm'' ''prev_disability_term''),
        map_value_call bureau_number (ascii ''current_disability'')
          (get_either r ''currentDisability'' ''current_disability''),
        map_value_call bureau_number (ascii ''current_disability_reason'')
          (get_either r ''currentDisabilityReason'' ''current_disability_reason''),
        map_value_call bureau_number (ascii ''current_disability_term'')
          (get_either r ''currentDisabilityTerm'' ''current_disability_term''),
        Inr (py_or (get_either r ''mainDiagnosis'' ''main_diagnosis'') (PStr [])),
        map_value_call bureau_number (ascii ''pdo_developed'') (get_either r ''pdoDeveloped'' ''pdo_developed'')
      ] @
      (if is_expert then
         [ map_value_call bureau_number (ascii ''procedure_type'')
             (get_either r ''procedureType'' ''procedure_type''),
           map_value_call bureau_number (ascii ''decision_changed_part'')
             (get_either r ''decisionChangedPart'' ''decision_changed_part''),
           map_value_call bureau_number (ascii ''tsr_changed'') (get_either r ''tsrChanged'' ''tsr_changed''),
           map_value_call bureau_number (ascii ''sfr_appeal'') (get_either r ''sfrAppeal'' ''sfr_appeal''),
           map_value_call bureau_number (ascii ''changed'') (dict_get r (ascii ''changed'')) ]
       else
         [ map_value_call bureau_number (ascii ''ipra_direction'')
             (get_either r ''ipraDirection'' ''ipra_direction''),
           map_value_call bureau_number (ascii ''ipra_contains_tsr'')
             (get_either r ''ipraContainsTsr'' ''ipra_contains_tsr''),
           map_value_call bureau_number (ascii ''ipra_changes'') (get_either r ''ipraChanges'' ''ipra_changes'') ]))"

text \<open>Each value is written to its cell as soon as it is computed, before the value of the
  next column is: computing it may raise, and so may writing it.\<close>

definition written :: "py_error + pyval \<Rightarrow> py_error + pyval" where
  "written x = (case x of Inl e \<Rightarrow> Inl e | Inr v \<Rightarrow> cell_write v)"

text \<open>The loop over \<open>enumerate(records, 2)\<close>: the rows of the values stored, from the row
  \<open>row_num\<close>.\<close>

fun record_rows :: "bool \<Rightarrow> bool \<Rightarrow> nat \<Rightarrow> pyval py_dict list \<Rightarrow> py_error + pyval list list" where
  "record_rows is_all_records is_expert row_num [] = Inr []"
| "record_rows is_all_records is_expert row_num (r # rs) =
     (case collect (map written (record_cells is_all_records is_expert row_num r)) of
        Inl e \<Rightarrow> Inl e
      | Inr vs \<Rightarrow>
          (case record_rows is_all_records is_expert (Suc row_num) rs of
             Inl e \<Rightarrow> Inl e
           | Inr rows \<Rightarrow> Inr (vs # rows)))"

text \<open>The pass over \<open>worksheet.iter_rows()\<close>, which are all the rows of the sheet.\<close>

definition style_cell :: "cell \<Rightarrow> cell" where
  "style_cell c = c\<lparr>cell_alignment := Some CELL_ALIGNMENT, cell_border := Some THIN_BORDER\<rparr>"

text \<open>The loop over the cells of a column, from \<open>max_length = 0\<close>.\<close>

definition column_max_length :: "cell list \<Rightarrow> nat" where
  "column_max_length column =
     fold (\<lambda>c max_length.
             if length (py_str (cell_value c)) > max_length then length (py_str (cell_value c))
             else max_length) column 0"

definition adjusted_width :: "nat \<Rightarrow> rat" where
  "adjusted_width max_length = min ((of_nat max_length + 2) * (12 / 10)) 50"

text \<open>\<open>worksheet.columns\<close>: the columns of the sheet, each with its cells from the first
  row to the last.\<close>

definition ws_columns :: "cell list list \<Rightarrow> cell list list" where
  "ws_columns rows = transpose rows"

text \<open>\<open>column_dimensions[get_column_letter(c)].width = w c\<close> for the columns \<open>cs\<close> in turn.\<close>

definition set_widths :: "(nat \<Rightarrow> rat) \<Rightarrow> nat list \<Rightarrow> (pystr \<times> rat) list \<Rightarrow> (pystr \<times> rat) list" where
  "set_widths w cs dims = fold (\<lambda>c. AList.update (get_column_letter c) (w c)) cs dims"

text \<open>The sheet of an empty batch: the header row, the row of the placeholder, the
  width 15 for every column; the function returns there.\<close>

definition empty_sheet :: "pystr list \<Rightarrow> worksheet" where
  "empty_sheet headers =
     \<lparr>ws_rows =
        [map header_cell headers,
         (plain_cell (PStr no_records_text))
            \<lparr>cell_alignment := Some \<lparr>horizontal = ascii ''center'', vertical = ascii ''center'', wrap_text = True\<rparr>,
             cell_border := Some THIN_BORDER\<rparr>
         # map (\<lambda>col_num. (plain_cell (PStr []))\<lparr>cell_border := Some THIN_BORDER\<rparr>) [2..<length headers + 1]],
      merged_cells = [(2, 1, 2, 1)],
      column_widths = set_widths (\<lambda>c. 15) [1..<length headers + 1] [],
      auto_filter_ref = None,
      freeze_panes = None\<rparr>"

text \<open>
  \<open>create_excel_worksheet(worksheet, records, is_all_records)\<close> on a sheet just created,
  as every call of the source is: the result is the sheet as the function leaves it, or
  the exception that leaves it.
\<close>

definition create_excel_worksheet :: "pyval py_dict list \<Rightarrow> bool \<Rightarrow> py_error + worksheet" where
  "create_excel_worksheet records is_all_records =
     (case batch_is_expert records of
        Inl e \<Rightarrow> Inl e
      | Inr is_expert \<Rightarrow>
          let headers = sheet_headers is_all_records is_expert in
          if records = [] then Inr (empty_sheet headers)
          else
            (case record_rows is_all_records is_expert 2 records of
               Inl e \<Rightarrow> Inl e
             | Inr rows \<Rightarrow>
                 let cells = map (map style_cell) (map header_cell headers # map (map plain_cell) rows);
                     columns = ws_columns cells;
                     max_row = length records + 1;
                     max_col = length headers
                 in Inr \<lparr>ws_rows = cells,
                         merged_cells = [],
                         column_widths =
                           set_widths (\<lambda>c. adjusted_width (column_max_length (columns ! (c - 1))))
                             [1..<length columns + 1] [],
                         auto_filter_ref =
                           Some (ascii ''A1:'' @ get_column_letter max_col @ str_int (int max_row)),
                         freeze_panes = Some (ascii ''A2'')\<rparr>))"

section \<open>The workbook assembler: \<open>create_excel_workbook\<close>\<close>





text \<open>\<open>[r for r in records if r["bureau_number"] == unit]\<close>: a record without the key
  raises \<open>KeyError\<close>.\<close>

fun records_of_unit :: "pystr \<Rightarrow> pyval py_dict list \<Rightarrow> py_error + pyval py_dict list" where
  "records_of_unit unit [] = Inr []"
| "records_of_unit unit (r # rs) =
     (case map_of r (ascii ''bureau_number'') of
        None \<Rightarrow> Inl KeyError
      | Some v \<Rightarrow>
          (case records_of_unit unit rs of
             Inl e \<Rightarrow> Inl e
           | Inr rs' \<Rightarrow> Inr (if v = PStr unit then r # rs' else rs')))"



text \<open>What a round of either loop does with the sheet it has created: the records of the
  unit are picked and written to the sheet, which is titled with the label and the number
  cut to 31 characters.\<close>

definition unit_sheet :: "pystr \<Rightarrow> pystr \<Rightarrow> int \<Rightarrow> pyval py_dict list \<Rightarrow> py_error + pystr \<times> worksheet" where
  "unit_sheet prefix label n records =
     (let unit = prefix @ str_int n; sheet_name = take 31 (label @ str_int n) in
      case records_of_unit unit records of
        Inl e \<Rightarrow> Inl e
      | Inr unit_records \<Rightarrow>
          (case create_excel_worksheet unit_records False of
             Inl e \<Rightarrow> Inl e
           | Inr ws \<Rightarrow> Inr (sheet_name, ws)))"




section \<open>Notions used in the statements\<close>

text \<open>The renderings \<open>DD.MM.YYYY\<close> and \<open>MM/DD/YYYY\<close> of a date, with the year in four
  digits, beside \<open>isoformat\<close> (\<open>YYYY-MM-DD\<close>).\<close>

definition render_dmY :: "py_date \<Rightarrow> pystr" where
  "render_dmY d =
     zfill 2 (str_nat (day d)) @ [46] @ zfill 2 (str_nat (month d)) @ [46] @ zfill 4 (str_nat (year d))"

definition render_mdY :: "py_date \<Rightarrow> pystr" where
  "render_mdY d =
     zfill 2 (str_nat (month d)) @ [47] @ zfill 2 (str_nat (day d)) @ [47] @ zfill 4 (str_nat (year d))"

text \<open>An item with the key \<open>key\<close> writes the field \<open>sk\<close> of \<open>transformed_data\<close>: the key is
  not skipped and \<open>sk\<close> is its snake-case form.\<close>

definition writes_field :: "pystr \<Rightarrow> pystr \<Rightarrow> bool" where
  "writes_field sk key \<longleftrightarrow> \<not> is_bureanumber key \<and> snake_key (rename_expert_key key) = sk"


text \<open>The number of a column from its letters: the inverse of \<open>get_column_letter\<close>.\<close>

definition column_index :: "pystr \<Rightarrow> nat" where
  "column_index letters = foldl (\<lambda>acc ch. acc * 26 + (ch - 64)) 0 letters"

text \<open>A value of a text column: \<open>None\<close> or a string.\<close>

definition text_value :: "pyval \<Rightarrow> bool" where
  "text_value v \<longleftrightarrow> v = PNone \<or> (\<exists>s. v = PStr s)"

text \<open>The keys the sheet builder passes to \<open>map_value\<close>, in both spellings.\<close>

definition coded_fields :: "string list" where
  "coded_fields =
     [''ageCategory'', ''age_category'', ''specialMarks'', ''special_marks'',
      ''militaryRegistration'', ''military_registration'', ''documentFormat'', ''document_format'',
      ''purpose'', ''mseType'', ''mse_type'', ''mseForm'', ''mse_form'',
      ''mseFormChange'', ''mse_form_change'', ''prevDisability'', ''prev_disability'',
      ''prevDisabilityReason'', ''prev_disability_reason'', ''prevDisabilityTerm'', ''prev_disability_term'',
      ''currentDisability'', ''current_disability'', ''currentDisabilityReason'', ''current_disability_reason'',
      ''currentDisabilityTerm'', ''current_disability_term'', ''pdoDeveloped'', ''pdo_developed'',
      ''procedureType'', ''procedure_type'', ''decisionChangedPart'', ''decision_changed_part'',
      ''tsrChanged'', ''tsr_changed'', ''sfrAppeal'', ''sfr_appeal'', ''changed'',
      ''ipraDirection'', ''ipra_direction'', ''ipraContainsTsr'', ''ipra_contains_tsr'',
      ''ipraChanges'', ''ipra_changes'']"

text \<open>A string without the control characters that a cell refuses.\<close>

definition legal_text :: "pystr \<Rightarrow> bool" where
  "legal_text s \<longleftrightarrow> (\<forall>c \<in> set s. \<not> illegal_character c)"

definition legal_value :: "pyval \<Rightarrow> bool" where
  "legal_value v = (case v of PStr s \<Rightarrow> legal_text s | _ \<Rightarrow> True)"

text \<open>A record as the record store returns it, fit for a sheet: its unit identifier is a
  string, its coded fields are text values, and none of its strings holds a control
  character that a cell refuses.\<close>

definition stored_record :: "pyval py_dict \<Rightarrow> bool" where
  "stored_record r \<longleftrightarrow>
     (\<exists>u. map_of r (ascii ''bureau_number'') = Some (PStr u)) \<and>
     (\<forall>k \<in> set coded_fields. text_value (dict_get r (ascii k))) \<and>
     (\<forall>(k, v) \<in> set r. legal_value v)"

text \<open>The length of the longest string \<open>str(cell.value)\<close> among the cells of the column \<open>c\<close>
  (from 1) of a sheet.\<close>

definition longest_in_column :: "worksheet \<Rightarrow> nat \<Rightarrow> nat" where
  "longest_in_column ws c = Max ((\<lambda>row. length (py_str (cell_value (row ! (c - 1))))) ` set (ws_rows ws))"

text \<open>The width of the column \<open>c\<close> (from 1) of a sheet, when one is set.\<close>

definition column_width :: "worksheet \<Rightarrow> nat \<Rightarrow> rat option" where
  "column_width ws c = map_of (column_widths ws) (get_column_letter c)"

section \<open>Strings and dates\<close>

lemma ascii_Nil [simp]: "ascii [] = []"
  by (simp add: ascii_def)
lemma ascii_Cons [simp]: "ascii (c # s) = of_char c # ascii s"
  by (simp add: ascii_def)

lemma strptime_error: "strptime s f = Inl e \<Longrightarrow> e = ValueError"
  by (auto simp: strptime_def split: list.splits if_splits)

lemma decimal_value_ascii: "48 \<le> c \<Longrightarrow> c \<le> 57 \<Longrightarrow> decimal_value c = Some (c - 48)"
  by (simp add: decimal_value_def decimal_zeros_def)

lemma is_digit_ascii: "48 \<le> c \<Longrightarrow> c \<le> 57 \<Longrightarrow> is_digit c"
  by (simp add: is_digit_def decimal_value_ascii)

lemma digit_ascii: "48 \<le> c \<Longrightarrow> c \<le> 57 \<Longrightarrow> digit c = c - 48"
  by (simp add: digit_def decimal_value_ascii)

lemma not_digit_below: "c < 48 \<Longrightarrow> \<not> is_digit c"
  by (simp add: is_digit_def decimal_value_def decimal_zeros_def)

lemma str_nat_1: "n < 10 \<Longrightarrow> str_nat n = [48 + n]"
  by (simp add: str_nat.simps)

lemma str_nat_2: "10 \<le> n \<Longrightarrow> n < 100 \<Longrightarrow> str_nat n = [48 + n div 10, 48 + n mod 10]"
proof -
  assume a: "10 \<le> n" "n < 100"
  then have "n div 10 < 10" by simp
  then have "str_nat (n div 10) = [48 + n div 10]" by (rule str_nat_1)
  with a show ?thesis by (simp add: str_nat.simps[of n])
qed

lemma str_nat_3: "100 \<le> n \<Longrightarrow> n < 1000 \<Longrightarrow>
   str_nat n = [48 + n div 100, 48 + n div 10 mod 10, 48 + n mod 10]"
proof -
  assume a: "100 \<le> n" "n < 1000"
  then have "10 \<le> n div 10" "n div 10 < 100" by simp_all
  then have "str_nat (n div 10) = [48 + n div 10 div 10, 48 + n div 10 mod 10]" by (rule str_nat_2)
  with a show ?thesis by (simp add: str_nat.simps[of n] div_mult2_eq[symmetric])
qed

lemma str_nat_4: "1000 \<le> n \<Longrightarrow> n < 10000 \<Longrightarrow>
   str_nat n = [48 + n div 1000, 48 + n div 100 mod 10, 48 + n div 10 mod 10, 48 + n mod 10]"
proof -
  assume a: "1000 \<le> n" "n < 10000"
  then have "100 \<le> n div 10" "n div 10 < 1000" by simp_all
  then have "str_nat (n div 10) = [48 + n div 10 div 100, 48 + n div 10 div 10 mod 10, 48 + n div 10 mod 10]"
    by (rule str_nat_3)
  with a show ?thesis by (simp add: str_nat.simps[of n] div_mult2_eq[symmetric])
qed

lemma replicate_2: "replicate 2 x = [x, x]"
  by (simp add: numeral_2_eq_2)
lemma replicate_3: "replicate 3 x = [x, x, x]"
  by (simp add: numeral_3_eq_3)

lemma pad2: "n < 100 \<Longrightarrow> zfill 2 (str_nat n) = [48 + n div 10, 48 + n mod 10]"
  by (cases "n < 10") (simp_all add: zfill_def str_nat_1 str_nat_2)

lemma pad4: "n < 10000 \<Longrightarrow>
  zfill 4 (str_nat n) = [48 + n div 1000, 48 + n div 100 mod 10, 48 + n div 10 mod 10, 48 + n mod 10]"
proof -
  assume n: "n < 10000"
  consider (a) "n < 10" | (b) "10 \<le> n" "n < 100" | (c) "100 \<le> n" "n < 1000" | (d) "1000 \<le> n"
    by linarith
  then show ?thesis
  proof cases
    case a then show ?thesis by (simp add: zfill_def str_nat_1 replicate_3)
  next
    case b
    then have "n div 10 < 10" by (simp add: div_less_iff_less_mult)
    with b show ?thesis by (simp add: zfill_def str_nat_2 replicate_2)
  next
    case c
    then have "n div 100 < 10" by (simp add: div_less_iff_less_mult)
    with c show ?thesis by (simp add: zfill_def str_nat_3)
  next
    case d with n show ?thesis by (simp add: zfill_def str_nat_4)
  qed
qed

lemma digits4:
   "n div 1000 * 1000 + n div 100 mod 10 * 100 + n div 10 mod 10 * 10 + n mod 10 = (n::nat)"
proof -
  define q1 where "q1 = n div 10"
  define q2 where "q2 = n div 100"
  define q3 where "q3 = n div 1000"
  define r0 where "r0 = n mod 10"
  define r1 where "r1 = n div 10 mod 10"
  define r2 where "r2 = n div 100 mod 10"
  have a: "n = q1 * 10 + r0" by (simp add: q1_def r0_def)
  have "q2 = q1 div 10" by (simp add: q1_def q2_def div_mult2_eq[symmetric])
  then have b: "q1 = q2 * 10 + r1" by (simp add: q1_def r1_def)
  have "q3 = q2 div 10" by (simp add: q3_def q2_def div_mult2_eq[symmetric])
  then have c: "q2 = q3 * 10 + r2" by (simp add: q2_def r2_def)
  have "q3 * 1000 + r2 * 100 + r1 * 10 + r0 = n" unfolding a b c by simp
  then show ?thesis by (simp add: q3_def r2_def r1_def r0_def)
qed

lemma mod10_le9: "(k::nat) mod 10 \<le> 9"
proof -
  have "k mod 10 < 10" by simp
  then show ?thesis by linarith
qed

lemma re_Y_pad4: "n < 10000 \<Longrightarrow> re_Y (zfill 4 (str_nat n) @ r) = [(n, r)]"
proof -
  assume n: "n < 10000"
  then have "n div 1000 < 10" by (simp add: div_less_iff_less_mult)
  then have "n div 1000 \<le> 9" by simp
  then show ?thesis using n digits4[of n] by (simp add: pad4 is_digit_ascii digit_ascii mod10_le9)
qed

lemma re_m_pad2: "1 \<le> m \<Longrightarrow> m \<le> 12 \<Longrightarrow>
   re_m (zfill 2 (str_nat m) @ r) = (m, r) # (if m < 10 then [] else [(1, (48 + m mod 10) # r)])"
proof -
  assume m: "1 \<le> m" "m \<le> 12"
  show ?thesis
  proof (cases "m < 10")
    case True
    with m show ?thesis by (simp add: pad2 re_m_def in_range_def digit_ascii)
  next
    case False
    with m have "m div 10 = 1" "m mod 10 = m - 10" by (simp_all add: mod_if)
    with False m show ?thesis by (simp add: pad2 re_m_def in_range_def digit_ascii)
  qed
qed

lemma re_d_pad2: "1 \<le> d \<Longrightarrow> d \<le> 31 \<Longrightarrow>
   re_d (zfill 2 (str_nat d) @ r) = (d, r) # (if d < 10 then [] else [(d div 10, (48 + d mod 10) # r)])"
proof -
  assume d: "1 \<le> d" "d \<le> 31"
  consider (a) "d < 10" | (b) "10 \<le> d" "d < 20" | (c) "20 \<le> d" "d < 30" | (e) "30 \<le> d"
    by linarith
  then show ?thesis
  proof cases
    case a
    with d show ?thesis by (simp add: pad2 re_d_def in_range_def is_digit_ascii digit_ascii)
  next
    case b
    then have "d div 10 = 1" "d mod 10 = d - 10" by (simp_all add: mod_if)
    with b show ?thesis by (simp add: pad2 re_d_def in_range_def is_digit_ascii digit_ascii)
  next
    case c
    then have "d div 10 = 2" "d mod 10 = d - 20" by (simp_all add: mod_if)
    with c show ?thesis by (simp add: pad2 re_d_def in_range_def is_digit_ascii digit_ascii)
  next
    case e
    with d have "d div 10 = 3" "d mod 10 = d - 30" by (simp_all add: mod_if)
    with e d show ?thesis by (simp add: pad2 re_d_def in_range_def is_digit_ascii digit_ascii)
  qed
qed

lemma days_in_month_le: "days_in_month y m \<le> 31"
  by (simp add: days_in_month_def)

lemma valid_dateD:
  assumes "valid_date d"
  shows "year d < 10000" "1 \<le> month d" "month d \<le> 12" "1 \<le> day d" "day d \<le> 31"
  using assms days_in_month_le[of "year d" "month d"] by (auto simp: valid_date_def)

lemma strptime_isoformat: "valid_date d \<Longrightarrow> strptime (isoformat d) Fmt_Ymd = Inr d"
proof -
  assume v: "valid_date d"
  note b = valid_dateD[OF v]
  from b have e: "re_d (zfill 2 (str_nat (day d))) =
      (day d, []) # (if day d < 10 then [] else [(day d div 10, [48 + day d mod 10])])"
    using re_d_pad2[of "day d" "[]"] by simp
  show ?thesis using b v by (simp add: strptime_def isoformat_def re_Y_pad4 re_m_pad2 e valid_date_def)
qed

lemma strptime_render_dmY: "valid_date d \<Longrightarrow> strptime (render_dmY d) Fmt_dmY = Inr d"
proof -
  assume v: "valid_date d"
  note b = valid_dateD[OF v]
  from b have e: "re_Y (zfill 4 (str_nat (year d))) = [(year d, [])]"
    using re_Y_pad4[of "year d" "[]"] by simp
  show ?thesis using b v by (simp add: strptime_def render_dmY_def re_d_pad2 re_m_pad2 e valid_date_def)
qed

lemma strptime_render_mdY: "valid_date d \<Longrightarrow> strptime (render_mdY d) Fmt_mdY = Inr d"
proof -
  assume v: "valid_date d"
  note b = valid_dateD[OF v]
  from b have e: "re_Y (zfill 4 (str_nat (year d))) = [(year d, [])]"
    using re_Y_pad4[of "year d" "[]"] by simp
  show ?thesis using b v by (simp add: strptime_def render_mdY_def re_d_pad2 re_m_pad2 e valid_date_def)
qed

lemma re_lit_shape: "r' \<in> set (re_lit c r) \<Longrightarrow> r = c # r'"
  by (cases r) (auto split: if_splits)

lemma re_two_shape: "(v, r) \<in> set (re_two p q s) \<Longrightarrow> \<exists>a b. s = a # b # r \<and> p a \<and> q b"
  by (cases "(p, q, s)" rule: re_two.cases) (auto split: if_splits)

lemma re_one_shape: "(v, r) \<in> set (re_one p s) \<Longrightarrow> \<exists>a. s = a # r \<and> p a"
  by (cases s) (auto split: if_splits)

lemma re_space_one_shape: "(v, r) \<in> set (re_space_one p s) \<Longrightarrow> \<exists>b. s = 32 # b # r \<and> p b"
  by (cases "(p, s)" rule: re_space_one.cases) (auto split: if_splits)

lemma re_Y_shape: "(v, r) \<in> set (re_Y s) \<Longrightarrow>
   \<exists>a b c d. s = a # b # c # d # r \<and> is_digit a \<and> is_digit b \<and> is_digit c \<and> is_digit d"
  by (cases s rule: re_Y.cases) (auto split: if_splits)

lemma re_m_shape: "(v, r) \<in> set (re_m s) \<Longrightarrow>
   (\<exists>a. s = a # r \<and> is_digit a) \<or> (\<exists>a b. s = a # b # r \<and> is_digit a \<and> is_digit b)"
  by (auto simp: re_m_def in_range_def is_digit_ascii dest!: re_two_shape re_one_shape)

lemma re_d_shape: "(v, r) \<in> set (re_d s) \<Longrightarrow>
   (\<exists>a. s = a # r \<and> is_digit a) \<or> (\<exists>a b. s = a # b # r \<and> is_digit b)"
  by (auto simp: re_d_def in_range_def is_digit_ascii dest!: re_two_shape re_one_shape re_space_one_shape)

lemma Ymd_shape: "re_format Fmt_Ymd s \<noteq> [] \<Longrightarrow>
   \<exists>a b c r. s = a # b # c # r \<and> is_digit a \<and> is_digit b \<and> is_digit c"
  by (auto dest!: re_Y_shape)

lemma dmY_shape: "re_format Fmt_dmY s \<noteq> [] \<Longrightarrow>
   (\<exists>a r. s = a # 46 # r) \<or> (\<exists>a b r. s = a # b # 46 # r \<and> is_digit b)"
  by (auto dest!: re_d_shape re_lit_shape)

lemma mdY_shape: "re_format Fmt_mdY s \<noteq> [] \<Longrightarrow>
   (\<exists>a r. s = a # 47 # r) \<or> (\<exists>a b r. s = a # b # 47 # r \<and> is_digit b)"
  by (auto dest!: re_m_shape re_lit_shape)

lemma not_digit_46 [simp]: "\<not> is_digit 46"
  by (simp add: not_digit_below)
lemma not_digit_47 [simp]: "\<not> is_digit 47"
  by (simp add: not_digit_below)

lemma dmY_not_Ymd: "re_format Fmt_dmY s \<noteq> [] \<Longrightarrow> re_format Fmt_Ymd s = []"
  by (rule ccontr, drule dmY_shape, drule Ymd_shape) auto

lemma mdY_not_Ymd: "re_format Fmt_mdY s \<noteq> [] \<Longrightarrow> re_format Fmt_Ymd s = []"
  by (rule ccontr, drule mdY_shape, drule Ymd_shape) auto

lemma mdY_not_dmY: "re_format Fmt_mdY s \<noteq> [] \<Longrightarrow> re_format Fmt_dmY s = []"
  by (rule ccontr, drule mdY_shape, drule dmY_shape) auto

lemma strptime_Inr_match: "strptime s f = Inr d \<Longrightarrow> re_format f s \<noteq> []"
  by (auto simp: strptime_def)

lemma strptime_no_match: "re_format f s = [] \<Longrightarrow> strptime s f = Inl ValueError"
  by (simp add: strptime_def)

lemma parse_date_loop_first:
  assumes "f \<in> set date_formats" and "strptime s f = Inr d"
  shows "parse_date_loop s date_formats = Inr d"
proof -
  have m: "re_format f s \<noteq> []" using assms(2) by (rule strptime_Inr_match)
  consider "f = Fmt_Ymd" | "f = Fmt_dmY" | "f = Fmt_mdY" by (cases f) auto
  then show ?thesis
  proof cases
    case 1
    with assms(2) show ?thesis by (simp add: date_formats_def)
  next
    case 2
    with m have "strptime s Fmt_Ymd = Inl ValueError"
      by (blast intro: strptime_no_match dmY_not_Ymd)
    with 2 assms(2) show ?thesis by (simp add: date_formats_def)
  next
    case 3
    with m have "strptime s Fmt_Ymd = Inl ValueError" "strptime s Fmt_dmY = Inl ValueError"
      by (blast intro: strptime_no_match mdY_not_Ymd mdY_not_dmY)+
    with 3 assms(2) show ?thesis by (simp add: date_formats_def)
  qed
qed

section \<open>Field normalisation\<close>

lemma filter_dropWhile_neg: "filter P (dropWhile (\<lambda>x. \<not> P x) xs) = filter P xs"
  by (induction xs) auto

lemma is_bureanumber_ascii: "is_bureanumber key \<Longrightarrow> c \<in> set key \<Longrightarrow> c < 128"
proof -
  assume k: "is_bureanumber key" and c: "c \<in> set key"
  let ?l = "\<lambda>c. if 65 \<le> c \<and> c \<le> 90 then c + 32 else (c::nat)"
  from c have "?l c \<in> set (map ?l key)" by (rule imageI[of c "set key" ?l, folded set_map])
  with k have "?l c \<in> set (ascii ''bureanumber'')" by (simp only: is_bureanumber_def)
  then have "?l c < 128" by (auto simp: ascii_def)
  then show "c < 128" by (simp split: if_splits)
qed

lemma snake_key_letters:
  assumes "\<forall>c \<in> set key. c < 128"
  shows "filter (\<lambda>c. c \<noteq> 95) (snake_key key)
       = filter (\<lambda>c. c \<noteq> 95) (map (\<lambda>c. if 65 \<le> c \<and> c \<le> 90 then c + 32 else c) key)"
proof -
  have "filter (\<lambda>c. c \<noteq> 95) (concat (map (\<lambda>c. if py_isupper c then 95 # py_lower_char c else [c]) key))
        = filter (\<lambda>c. c \<noteq> 95) (map (\<lambda>c. if 65 \<le> c \<and> c \<le> 90 then c + 32 else c) key)"
    using assms by (induction key) (auto simp: py_lower_char_def py_isupper_def)
  moreover have "filter (\<lambda>c. c \<noteq> 95) (snake_key key)
        = filter (\<lambda>c. c \<noteq> 95) (concat (map (\<lambda>c. if py_isupper c then 95 # py_lower_char c else [c]) key))"
    unfolding snake_key_def using filter_dropWhile_neg[of "\<lambda>c. c \<noteq> 95"] by simp
  ultimately show ?thesis by simp
qed

lemma rename_expert_key_lower:
  "is_bureanumber key \<Longrightarrow> rename_expert_key key = key"
  by (auto simp: rename_expert_key_def is_bureanumber_def)

lemma skipped_key_snake:
  assumes "is_bureanumber key"
  shows "filter (\<lambda>c. c \<noteq> 95) (snake_key (rename_expert_key key)) = ascii ''bureanumber''"
proof -
  from assms have "\<forall>c \<in> set key. c < 128" by (blast dest: is_bureanumber_ascii)
  from snake_key_letters[OF this] assms show ?thesis
    by (simp add: rename_expert_key_lower is_bureanumber_def)
qed

lemma date_field_not_skipped:
  "snake_key (rename_expert_key key) \<in> set date_field_names \<Longrightarrow> \<not> is_bureanumber key"
proof
  assume a: "snake_key (rename_expert_key key) \<in> set date_field_names"
     and b: "is_bureanumber key"
  from skipped_key_snake[OF b] a show False
    by (auto simp: date_field_names_def)
qed

lemma special_marks_not_skipped:
  "snake_key (rename_expert_key key) = ascii ''special_marks'' \<Longrightarrow> \<not> is_bureanumber key"
proof
  assume a: "snake_key (rename_expert_key key) = ascii ''special_marks''"
     and b: "is_bureanumber key"
  from skipped_key_snake[OF b] a show False by simp
qed

lemma parse_date_loop_none:
  "\<forall>f \<in> set date_formats. isl (strptime s f) \<Longrightarrow> parse_date_loop s date_formats = Inl ValueError"
  by (auto simp: date_formats_def isl_def dest: strptime_error)

lemma strptime_Nil: "strptime [] f = Inl ValueError"
  by (cases f) (simp_all add: strptime_def re_d_def re_m_def)

lemma transform_item_date:
  assumes "snake_key (rename_expert_key key) \<in> set date_field_names"
  shows "transform_item td (key, v) =
           transform_date td (rename_expert_key key) (snake_key (rename_expert_key key)) v"
  using assms date_field_not_skipped[OF assms] by (simp add: transform_item_def Let_def)

lemma transform_date_other:
  "transform_date td key sk' v = Inr td' \<Longrightarrow> sk' \<noteq> sk \<Longrightarrow> map_of td' sk = map_of td sk"
  by (auto simp: transform_date_def update_conv' split: if_splits jval.splits pyval.splits sum.splits)

lemma transform_item_other:
  "transform_item td (key, v) = Inr td' \<Longrightarrow> \<not> writes_field sk key \<Longrightarrow> map_of td' sk = map_of td sk"
  by (auto simp: transform_item_def writes_field_def Let_def update_conv'
      split: if_splits jval.splits sum.splits dest: transform_date_other)

lemma transform_items_other:
  "transform_items td items = Inr td' \<Longrightarrow> \<forall>(k, v) \<in> set items. \<not> writes_field sk k \<Longrightarrow>
   map_of td' sk = map_of td sk"
proof (induction items arbitrary: td)
  case Nil
  then show ?case by simp
next
  case (Cons item items)
  obtain k v where item: "item = (k, v)" by (cases item)
  from Cons.prems(1) obtain td1 where s1: "transform_item td (k, v) = Inr td1"
    and s2: "transform_items td1 items = Inr td'"
    by (auto simp: item split: sum.splits)
  from Cons.prems(2) have "\<not> writes_field sk k" by (simp add: item)
  with s1 have "map_of td1 sk = map_of td sk" by (rule transform_item_other)
  moreover from Cons.IH[OF s2] Cons.prems(2) have "map_of td' sk = map_of td1 sk" by simp
  ultimately show ?case by simp
qed

lemma transform_items_append:
  "transform_items td (xs @ ys) =
     (case transform_items td xs of Inl e \<Rightarrow> Inl e | Inr td1 \<Rightarrow> transform_items td1 ys)"
  by (induction xs arbitrary: td) (auto split: sum.splits)

lemma normalize_full_name_other:
  "normalize_full_name td = Inr td' \<Longrightarrow> sk \<noteq> ascii ''full_name'' \<Longrightarrow> map_of td' sk = map_of td sk"
  by (auto simp: normalize_full_name_def update_conv' split: option.splits if_splits jval.splits pyval.splits)

section \<open>Date rendering\<close>

lemma format_excel_date_loop_first:
  assumes "f \<in> set date_formats" and "strptime s f = Inr d"
  shows "format_excel_date_loop s date_formats = Inr (strftime_dmY d)"
proof -
  have m: "re_format f s \<noteq> []" using assms(2) by (rule strptime_Inr_match)
  consider "f = Fmt_Ymd" | "f = Fmt_dmY" | "f = Fmt_mdY" by (cases f) auto
  then show ?thesis
  proof cases
    case 1
    with assms(2) show ?thesis by (simp add: date_formats_def)
  next
    case 2
    with m have "strptime s Fmt_Ymd = Inl ValueError"
      by (blast intro: strptime_no_match dmY_not_Ymd)
    with 2 assms(2) show ?thesis by (simp add: date_formats_def)
  next
    case 3
    with m have "strptime s Fmt_Ymd = Inl ValueError" "strptime s Fmt_dmY = Inl ValueError"
      by (blast intro: strptime_no_match mdY_not_Ymd mdY_not_dmY)+
    with 3 assms(2) show ?thesis by (simp add: date_formats_def)
  qed
qed

lemma format_excel_date_loop_none:
  "\<forall>f \<in> set date_formats. isl (strptime s f) \<Longrightarrow> format_excel_date_loop s date_formats = Inr s"
  by (auto simp: date_formats_def isl_def dest: strptime_error)

lemma format_excel_date_loop_total: "\<exists>t. format_excel_date_loop s fs = Inr t"
  by (induction fs) (auto split: sum.splits dest: strptime_error)

lemma strftime_dmY_day_month:
  "valid_date d \<Longrightarrow> strftime_dmY d =
     [48 + day d div 10, 48 + day d mod 10, 46, 48 + month d div 10, 48 + month d mod 10, 46]
     @ str_nat (year d)"
  by (frule valid_dateD(3), frule valid_dateD(5)) (simp add: strftime_dmY_def pad2)

lemma strftime_dmY_shape:
  "valid_date d \<Longrightarrow> 1000 \<le> year d \<Longrightarrow> strftime_dmY d =
     [48 + day d div 10, 48 + day d mod 10, 46, 48 + month d div 10, 48 + month d mod 10, 46,
      48 + year d div 1000, 48 + year d div 100 mod 10, 48 + year d div 10 mod 10, 48 + year d mod 10]"
  by (frule valid_dateD(1)) (simp add: strftime_dmY_day_month str_nat_4)

text \<open>
  What \<open>format_excel_date\<close> returns. It returns a string for every input and never
  raises: the empty string for \<open>None\<close>; for a date, the day and the month in two digits
  each and the year, with dots between them, which is \<open>DD.MM.YYYY\<close> from the year 1000 on;
  for a string that parses in one of the three formats, what it returns for the date
  parsed; the string itself for a string that parses in none of them; and \<open>str\<close> of any
  other value.
\<close>

lemma format_excel_date_cases:
  "(\<exists>t. format_excel_date v = Inr t) \<and>
   format_excel_date PNone = Inr [] \<and>
   (valid_date d \<longrightarrow>
      format_excel_date (PDate d) =
        Inr ([48 + day d div 10, 48 + day d mod 10, 46, 48 + month d div 10, 48 + month d mod 10, 46]
             @ str_nat (year d))) \<and>
   (valid_date d \<and> 1000 \<le> year d \<longrightarrow>
      format_excel_date (PDate d) =
        Inr [48 + day d div 10, 48 + day d mod 10, 46, 48 + month d div 10, 48 + month d mod 10, 46,
             48 + year d div 1000, 48 + year d div 100 mod 10, 48 + year d div 10 mod 10,
             48 + year d mod 10]) \<and>
   (f \<in> set date_formats \<and> strptime s f = Inr d \<longrightarrow>
      format_excel_date (PStr s) = format_excel_date (PDate d)) \<and>
   ((\<forall>f \<in> set date_formats. isl (strptime s f)) \<longrightarrow> format_excel_date (PStr s) = Inr s) \<and>
   format_excel_date (PInt i) = Inr (str_int i) \<and>
   format_excel_date (PBool b) = Inr (if b then ascii ''True'' else ascii ''False'')"
proof -
  have "\<exists>t. format_excel_date v = Inr t"
    using format_excel_date_loop_total by (cases v) simp_all
  moreover have "valid_date d \<longrightarrow>
      format_excel_date (PDate d) =
        Inr ([48 + day d div 10, 48 + day d mod 10, 46, 48 + month d div 10, 48 + month d mod 10, 46]
             @ str_nat (year d))"
    by (simp add: strftime_dmY_day_month)
  moreover have "valid_date d \<and> 1000 \<le> year d \<longrightarrow>
      format_excel_date (PDate d) =
        Inr [48 + day d div 10, 48 + day d mod 10, 46, 48 + month d div 10, 48 + month d mod 10, 46,
             48 + year d div 1000, 48 + year d div 100 mod 10, 48 + year d div 10 mod 10,
             48 + year d mod 10]"
    by (simp add: strftime_dmY_shape)
  moreover have "f \<in> set date_formats \<and> strptime s f = Inr d \<longrightarrow>
      format_excel_date (PStr s) = format_excel_date (PDate d)"
    by (auto intro: format_excel_date_loop_first)
  moreover have "(\<forall>f \<in> set date_formats. isl (strptime s f)) \<longrightarrow> format_excel_date (PStr s) = Inr s"
    by (simp add: format_excel_date_loop_none)
  ultimately show ?thesis by simp
qed

lemma valid_2024_01_15: "valid_date \<lparr>year = 2024, month = 1, day = 15\<rparr>"
  by (simp add: valid_date_def days_in_month_def)

lemma strptime_mdY_example:
  "strptime (ascii ''1/15/2024'') Fmt_mdY = Inr \<lparr>year = 2024, month = 1, day = 15\<rparr>"
  by (simp add: strptime_def re_m_def re_d_def in_range_def is_digit_ascii digit_ascii not_digit_below
      valid_date_def days_in_month_def)

lemma strptime_garbage:
  "\<forall>f \<in> set date_formats. isl (strptime (ascii ''15-01-2024'') f)"
  by (simp add: date_formats_def strptime_def re_m_def re_d_def in_range_def is_digit_ascii
      digit_ascii not_digit_below)

lemma format_excel_date_examples:
  "format_excel_date (PDate \<lparr>year = 2024, month = 1, day = 15\<rparr>) = Inr (ascii ''15.01.2024'') \<and>
   format_excel_date (PStr (ascii ''1/15/2024'')) = Inr (ascii ''15.01.2024'') \<and>
   format_excel_date (PStr (ascii ''15-01-2024'')) = Inr (ascii ''15-01-2024'')"
  using format_excel_date_cases[of "PNone" "\<lparr>year = 2024, month = 1, day = 15\<rparr>" Fmt_mdY
          "ascii ''1/15/2024''" 0 True]
        format_excel_date_cases[of "PNone" "\<lparr>year = 2024, month = 1, day = 15\<rparr>" Fmt_mdY
          "ascii ''15-01-2024''" 0 True]
        valid_2024_01_15 strptime_mdY_example strptime_garbage
  by (simp add: date_formats_def)

text \<open>
  Claim C10. The claim, as the description of the function in the source, has a date
  rendered as \<open>DD.MM.YYYY\<close>. The code does not do so for a year before 1000: the first day
  of the year 999, a date, is rendered as \<open>01.01.999\<close>, with a year of three digits, in 9
  characters where \<open>DD.MM.YYYY\<close> has 10; the string \<open>0999-01-01\<close>, which is in the first of
  the three formats, is rendered the same.
\<close>

theorem format_excel_date_year_999:
  "valid_date \<lparr>year = 999, month = 1, day = 1\<rparr> \<and>
   format_excel_date (PDate \<lparr>year = 999, month = 1, day = 1\<rparr>) = Inr (ascii ''01.01.999'') \<and>
   format_excel_date (PStr (ascii ''0999-01-01'')) = Inr (ascii ''01.01.999'') \<and>
   length (ascii ''01.01.999'') = 9"
proof -
  have v: "valid_date \<lparr>year = 999, month = 1, day = 1\<rparr>"
    by (simp add: valid_date_def days_in_month_def)
  have i: "isoformat \<lparr>year = 999, month = 1, day = 1\<rparr> = ascii ''0999-01-01''"
    by (simp add: isoformat_def pad2 pad4)
  have "strptime (ascii ''0999-01-01'') Fmt_Ymd = Inr \<lparr>year = 999, month = 1, day = 1\<rparr>"
    using strptime_isoformat[OF v] by (simp only: i)
  then have "format_excel_date (PStr (ascii ''0999-01-01'')) = Inr (strftime_dmY \<lparr>year = 999, month = 1, day = 1\<rparr>)"
    by (simp add: date_formats_def)
  then show ?thesis using v by (simp add: strftime_dmY_def pad2 str_nat_3)
qed

section \<open>The date fields\<close>

text \<open>A string parses in at most one of the three formats, so the order in which they are
  tried does not change the date read.\<close>

lemma date_formats_exclusive:
  assumes "strptime s f = Inr d" and "strptime s g = Inr d'"
  shows "f = g"
proof -
  have mf: "re_format f s \<noteq> []" using assms(1) by (rule strptime_Inr_match)
  have mg: "re_format g s \<noteq> []" using assms(2) by (rule strptime_Inr_match)
  show ?thesis
  proof (cases f; cases g)
    assume "f = Fmt_Ymd" "g = Fmt_dmY"
    with mf mg show ?thesis using dmY_not_Ymd[of s] by blast
  next
    assume "f = Fmt_Ymd" "g = Fmt_mdY"
    with mf mg show ?thesis using mdY_not_Ymd[of s] by blast
  next
    assume "f = Fmt_dmY" "g = Fmt_Ymd"
    with mf mg show ?thesis using dmY_not_Ymd[of s] by blast
  next
    assume "f = Fmt_dmY" "g = Fmt_mdY"
    with mf mg show ?thesis using mdY_not_dmY[of s] by blast
  next
    assume "f = Fmt_mdY" "g = Fmt_Ymd"
    with mf mg show ?thesis using mdY_not_Ymd[of s] by blast
  next
    assume "f = Fmt_mdY" "g = Fmt_dmY"
    with mf mg show ?thesis using mdY_not_dmY[of s] by blast
  qed simp_all
qed

lemma jdict_get_update: "jdict_get (AList.update k v td) k = v"
  by (simp add: jdict_get_def update_conv')

lemma transform_date_parsed:
  assumes "f \<in> set date_formats" and "strptime s f = Inr d"
  shows "transform_date td key sk (JScalar (PStr s)) = Inr (AList.update sk (JScalar (PDate d)) td)"
proof -
  from assms(2) have "s \<noteq> []" using strptime_Nil[of f] by auto
  then show ?thesis
    using parse_date_loop_first[OF assms] by (simp add: transform_date_def none_or_empty_def)
qed

lemma transform_date_unparsed:
  assumes "s \<noteq> []" and "\<forall>f \<in> set date_formats. isl (strptime s f)"
  shows "transform_date td key sk (JScalar (PStr s)) = Inl (HTTPException 400 (date_detail key s))"
  using assms(1) parse_date_loop_none[OF assms(2)] by (simp add: transform_date_def none_or_empty_def)

lemma parse_date_loop_Inr:
  "parse_date_loop s fs = Inr d \<Longrightarrow> \<exists>f \<in> set fs. strptime s f = Inr d"
  by (induction fs) (auto split: sum.splits if_splits)

lemma transform_date_string:
  assumes "transform_date td key sk (JScalar (PStr s)) = Inr td'" and "s \<noteq> []"
  shows "\<exists>f d. f \<in> set date_formats \<and> strptime s f = Inr d \<and>
           td' = AList.update sk (JScalar (PDate d)) td"
proof -
  from assms obtain d where p: "parse_date_loop s date_formats = Inr d"
    and t: "td' = AList.update sk (JScalar (PDate d)) td"
    by (auto simp: transform_date_def none_or_empty_def split: sum.splits)
  from parse_date_loop_Inr[OF p] obtain f where "f \<in> set date_formats" "strptime s f = Inr d"
    by blast
  with t show ?thesis by blast
qed

text \<open>What an accepted payload holds in a field other than the full name is what the last
  item that writes the field left there; a field that no item writes is not there.\<close>

lemma field_written:
  assumes r: "create_or_update_record_data (pre @ (key, v) # post) = Inr td"
    and p: "\<forall>(k, x) \<in> set post. \<not> writes_field sk k"
    and n: "sk \<noteq> ascii ''full_name''"
  shows "\<exists>t0 t1. transform_items [] pre = Inr t0 \<and> transform_item t0 (key, v) = Inr t1 \<and>
           jdict_get td sk = jdict_get t1 sk"
proof -
  from r obtain td1 where t: "transform_items [] (pre @ (key, v) # post) = Inr td1"
    and f: "normalize_full_name td1 = Inr td"
    by (auto simp: create_or_update_record_data_def split: sum.splits if_splits)
  from t obtain t0 t1 where z: "transform_items [] pre = Inr t0"
    and i: "transform_item t0 (key, v) = Inr t1"
    and q: "transform_items t1 post = Inr td1"
    by (auto simp: transform_items_append split: sum.splits)
  from q p have "map_of td1 sk = map_of t1 sk" by (rule transform_items_other)
  moreover from f n have "map_of td sk = map_of td1 sk" by (rule normalize_full_name_other)
  ultimately have "jdict_get td sk = jdict_get t1 sk" by (simp add: jdict_get_def)
  with z i show ?thesis by blast
qed

lemma field_absent:
  assumes r: "create_or_update_record_data record_data = Inr td"
    and p: "\<forall>(k, x) \<in> set record_data. \<not> writes_field sk k"
    and n: "sk \<noteq> ascii ''full_name''"
  shows "jdict_get td sk = JScalar PNone"
proof -
  from r obtain td1 where t: "transform_items [] record_data = Inr td1"
    and f: "normalize_full_name td1 = Inr td"
    by (auto simp: create_or_update_record_data_def split: sum.splits if_splits)
  from t p have "map_of td1 sk = map_of [] sk" by (rule transform_items_other)
  moreover from f n have "map_of td sk = map_of td1 sk" by (rule normalize_full_name_other)
  ultimately show ?thesis by (simp add: jdict_get_def)
qed

lemma item_failure:
  assumes "transform_items [] pre = Inr t0" and "transform_item t0 item = Inl e"
  shows "create_or_update_record_data (pre @ item # post) = Inl e"
  using assms by (simp add: create_or_update_record_data_def transform_items_append)

lemma item_refused:
  assumes "\<And>t0. isl (transform_item t0 item)"
  shows "isl (create_or_update_record_data (pre @ item # post))"
proof (cases "transform_items [] pre")
  case (Inl e)
  then show ?thesis by (simp add: create_or_update_record_data_def transform_items_append)
next
  case (Inr t0)
  from assms[of t0] obtain e where "transform_item t0 item = Inl e" by (auto simp: isl_def)
  with Inr show ?thesis by (simp add: item_failure)
qed

lemma date_field_not_full_name: "sk \<in> set date_field_names \<Longrightarrow> sk \<noteq> ascii ''full_name''"
  by (auto simp: date_field_names_def)

lemma item_written:
  assumes "transform_items [] pre = Inr tp" and "transform_item tp item = Inr t"
  shows "transform_items [] (pre @ [item]) = Inr t"
  using assms by (simp add: transform_items_append)

lemma prefix_failure:
  assumes "transform_items [] pre = Inl e"
  shows "create_or_update_record_data (pre @ item # post) = Inl e"
  using assms by (simp add: create_or_update_record_data_def transform_items_append)

text \<open>
  Claim C2, as amended. The item of a payload that writes a date field \<open>sk\<close>, when the
  items before it are normalised without an error, writes: a date as it is; for a string,
  the date it parses to in one of the three formats (it parses in one at most), so that
  the renderings \<open>YYYY-MM-DD\<close>, \<open>DD.MM.YYYY\<close> and \<open>MM/DD/YYYY\<close> of a date all give that
  date; \<open>None\<close> for \<open>None\<close> and for the empty string. A payload that is accepted holds in
  the field what the last item that writes it has written, and \<open>None\<close> when no item writes
  it. A payload with a string that parses in none of the formats is never accepted; it
  is refused with the status 400 whose detail holds the key and the raw value when the
  items before it are normalised without an error, and with the error of the first item
  that fails otherwise.
\<close>

theorem date_field_normalisation:
  "(sk \<in> set date_field_names \<and> writes_field sk key \<longrightarrow>
     (transform_items [] pre = Inr tp \<longrightarrow>
        transform_items [] (pre @ [(key, JScalar (PDate date))])
          = Inr (AList.update sk (JScalar (PDate date)) tp) \<and>
        (f \<in> set date_formats \<and> strptime s f = Inr d \<longrightarrow>
           transform_items [] (pre @ [(key, JScalar (PStr s))])
             = Inr (AList.update sk (JScalar (PDate d)) tp)) \<and>
        (none_or_empty v \<longrightarrow>
           transform_items [] (pre @ [(key, v)]) = Inr (AList.update sk (JScalar PNone) tp))) \<and>
     (create_or_update_record_data (pre @ (key, v) # post) = Inr td \<and>
      (\<forall>(k, x) \<in> set post. \<not> writes_field sk k) \<longrightarrow>
        (v = JScalar (PDate date) \<longrightarrow> jdict_get td sk = JScalar (PDate date)) \<and>
        (v = JScalar (PStr s) \<and> s \<noteq> [] \<longrightarrow>
           (\<exists>f d. f \<in> set date_formats \<and> strptime s f = Inr d \<and> jdict_get td sk = JScalar (PDate d)) \<and>
           (\<forall>f d. f \<in> set date_formats \<and> strptime s f = Inr d \<longrightarrow> jdict_get td sk = JScalar (PDate d))) \<and>
        (v = JScalar (PStr s) \<and> valid_date d \<and> s \<in> {isoformat d, render_dmY d, render_mdY d} \<longrightarrow>
           jdict_get td sk = JScalar (PDate d)) \<and>
        (none_or_empty v \<longrightarrow> jdict_get td sk = JScalar PNone)) \<and>
     (s' \<noteq> [] \<and> (\<forall>f \<in> set date_formats. isl (strptime s' f)) \<longrightarrow>
        isl (create_or_update_record_data (pre @ (key, JScalar (PStr s')) # post)) \<and>
        (transform_items [] pre = Inr tp \<longrightarrow>
           create_or_update_record_data (pre @ (key, JScalar (PStr s')) # post) =
             Inl (HTTPException 400
                    (date_detail_1 @ rename_expert_key key @ date_detail_2 @ date_detail_3 @ s'))) \<and>
        (transform_items [] pre = Inl e \<longrightarrow>
           create_or_update_record_data (pre @ (key, JScalar (PStr s')) # post) = Inl e))) \<and>
   (sk \<in> set date_field_names \<and> create_or_update_record_data record_data = Inr td' \<and>
    (\<forall>(k, x) \<in> set record_data. \<not> writes_field sk k) \<longrightarrow>
      jdict_get td' sk = JScalar PNone) \<and>
   (valid_date d \<longrightarrow>
      strptime (isoformat d) Fmt_Ymd = Inr d \<and> strptime (render_dmY d) Fmt_dmY = Inr d \<and>
      strptime (render_mdY d) Fmt_mdY = Inr d)"
proof -
  have absent: "sk \<in> set date_field_names \<and> create_or_update_record_data record_data = Inr td' \<and>
    (\<forall>(k, x) \<in> set record_data. \<not> writes_field sk k) \<longrightarrow>
      jdict_get td' sk = JScalar PNone"
    using field_absent[of record_data td' sk] date_field_not_full_name[of sk] by blast
  have roundtrip: "valid_date d \<longrightarrow>
      strptime (isoformat d) Fmt_Ymd = Inr d \<and> strptime (render_dmY d) Fmt_dmY = Inr d \<and>
      strptime (render_mdY d) Fmt_mdY = Inr d"
    by (simp add: strptime_isoformat strptime_render_dmY strptime_render_mdY)
  have main: "(transform_items [] pre = Inr tp \<longrightarrow>
        transform_items [] (pre @ [(key, JScalar (PDate date))])
          = Inr (AList.update sk (JScalar (PDate date)) tp) \<and>
        (f \<in> set date_formats \<and> strptime s f = Inr d \<longrightarrow>
           transform_items [] (pre @ [(key, JScalar (PStr s))])
             = Inr (AList.update sk (JScalar (PDate d)) tp)) \<and>
        (none_or_empty v \<longrightarrow>
           transform_items [] (pre @ [(key, v)]) = Inr (AList.update sk (JScalar PNone) tp))) \<and>
     (create_or_update_record_data (pre @ (key, v) # post) = Inr td \<and>
      (\<forall>(k, x) \<in> set post. \<not> writes_field sk k) \<longrightarrow>
        (v = JScalar (PDate date) \<longrightarrow> jdict_get td sk = JScalar (PDate date)) \<and>
        (v = JScalar (PStr s) \<and> s \<noteq> [] \<longrightarrow>
           (\<exists>f d. f \<in> set date_formats \<and> strptime s f = Inr d \<and> jdict_get td sk = JScalar (PDate d)) \<and>
           (\<forall>f d. f \<in> set date_formats \<and> strptime s f = Inr d \<longrightarrow> jdict_get td sk = JScalar (PDate d))) \<and>
        (v = JScalar (PStr s) \<and> valid_date d \<and> s \<in> {isoformat d, render_dmY d, render_mdY d} \<longrightarrow>
           jdict_get td sk = JScalar (PDate d)) \<and>
        (none_or_empty v \<longrightarrow> jdict_get td sk = JScalar PNone)) \<and>
     (s' \<noteq> [] \<and> (\<forall>f \<in> set date_formats. isl (strptime s' f)) \<longrightarrow>
        isl (create_or_update_record_data (pre @ (key, JScalar (PStr s')) # post)) \<and>
        (transform_items [] pre = Inr tp \<longrightarrow>
           create_or_update_record_data (pre @ (key, JScalar (PStr s')) # post) =
             Inl (HTTPException 400
                    (date_detail_1 @ rename_expert_key key @ date_detail_2 @ date_detail_3 @ s'))) \<and>
        (transform_items [] pre = Inl e \<longrightarrow>
           create_or_update_record_data (pre @ (key, JScalar (PStr s')) # post) = Inl e))"
    if df: "sk \<in> set date_field_names" and w: "writes_field sk key"
  proof -
    from w have sk: "sk = snake_key (rename_expert_key key)" by (simp add: writes_field_def)
    from df have item: "\<And>td v. transform_item td (key, v) = transform_date td (rename_expert_key key) sk v"
      unfolding sk by (rule transform_item_date)
    have written: "transform_items [] (pre @ [(key, JScalar (PDate date))])
          = Inr (AList.update sk (JScalar (PDate date)) tp) \<and>
        (f \<in> set date_formats \<and> strptime s f = Inr d \<longrightarrow>
           transform_items [] (pre @ [(key, JScalar (PStr s))])
             = Inr (AList.update sk (JScalar (PDate d)) tp)) \<and>
        (none_or_empty v \<longrightarrow>
           transform_items [] (pre @ [(key, v)]) = Inr (AList.update sk (JScalar PNone) tp))"
      if z: "transform_items [] pre = Inr tp"
    proof -
      have "transform_item tp (key, JScalar (PDate date)) = Inr (AList.update sk (JScalar (PDate date)) tp)"
        by (simp add: item transform_date_def none_or_empty_def)
      then have a: "transform_items [] (pre @ [(key, JScalar (PDate date))])
          = Inr (AList.update sk (JScalar (PDate date)) tp)"
        using z by (intro item_written)
      have b: "f \<in> set date_formats \<and> strptime s f = Inr d \<longrightarrow>
           transform_items [] (pre @ [(key, JScalar (PStr s))])
             = Inr (AList.update sk (JScalar (PDate d)) tp)"
      proof (intro impI, elim conjE)
        assume "f \<in> set date_formats" "strptime s f = Inr d"
        then have "transform_item tp (key, JScalar (PStr s)) = Inr (AList.update sk (JScalar (PDate d)) tp)"
          by (simp add: item transform_date_parsed)
        then show "transform_items [] (pre @ [(key, JScalar (PStr s))])
             = Inr (AList.update sk (JScalar (PDate d)) tp)"
          using z by (intro item_written)
      qed
      have c: "none_or_empty v \<longrightarrow>
           transform_items [] (pre @ [(key, v)]) = Inr (AList.update sk (JScalar PNone) tp)"
      proof
        assume "none_or_empty v"
        then have "transform_item tp (key, v) = Inr (AList.update sk (JScalar PNone) tp)"
          by (simp add: item transform_date_def)
        then show "transform_items [] (pre @ [(key, v)]) = Inr (AList.update sk (JScalar PNone) tp)"
          using z by (intro item_written)
      qed
      from a b c show ?thesis by blast
    qed
    have stored: "(v = JScalar (PDate date) \<longrightarrow> jdict_get td sk = JScalar (PDate date)) \<and>
        (v = JScalar (PStr s) \<and> s \<noteq> [] \<longrightarrow>
           (\<exists>f d. f \<in> set date_formats \<and> strptime s f = Inr d \<and> jdict_get td sk = JScalar (PDate d)) \<and>
           (\<forall>f d. f \<in> set date_formats \<and> strptime s f = Inr d \<longrightarrow> jdict_get td sk = JScalar (PDate d))) \<and>
        (v = JScalar (PStr s) \<and> valid_date d \<and> s \<in> {isoformat d, render_dmY d, render_mdY d} \<longrightarrow>
           jdict_get td sk = JScalar (PDate d)) \<and>
        (none_or_empty v \<longrightarrow> jdict_get td sk = JScalar PNone)"
      if r: "create_or_update_record_data (pre @ (key, v) # post) = Inr td"
        and p: "\<forall>(k, x) \<in> set post. \<not> writes_field sk k"
    proof -
      from field_written[OF r p date_field_not_full_name[OF df]] obtain t0 t1 where
        i: "transform_item t0 (key, v) = Inr t1" and g: "jdict_get td sk = jdict_get t1 sk"
        by blast
      from i have i': "transform_date t0 (rename_expert_key key) sk v = Inr t1" by (simp add: item)
      have a: "v = JScalar (PDate date) \<longrightarrow> jdict_get td sk = JScalar (PDate date)"
        using i' g by (auto simp: transform_date_def none_or_empty_def jdict_get_update)
      have parsed: "jdict_get td sk = JScalar (PDate d)"
        if "v = JScalar (PStr s)" "f \<in> set date_formats" "strptime s f = Inr d" for f d
        using transform_date_parsed[OF that(2,3), of t0 "rename_expert_key key" sk] i' g that(1)
        by (auto simp: jdict_get_update)
      have b: "v = JScalar (PStr s) \<and> s \<noteq> [] \<longrightarrow>
           (\<exists>f d. f \<in> set date_formats \<and> strptime s f = Inr d \<and> jdict_get td sk = JScalar (PDate d)) \<and>
           (\<forall>f d. f \<in> set date_formats \<and> strptime s f = Inr d \<longrightarrow> jdict_get td sk = JScalar (PDate d))"
      proof (intro impI, elim conjE)
        assume v: "v = JScalar (PStr s)" and ne: "s \<noteq> []"
        from i' v have "transform_date t0 (rename_expert_key key) sk (JScalar (PStr s)) = Inr t1" by simp
        from transform_date_string[OF this ne] obtain f d where
          "f \<in> set date_formats" "strptime s f = Inr d" by blast
        with parsed[OF v] show "(\<exists>f d. f \<in> set date_formats \<and> strptime s f = Inr d \<and> jdict_get td sk = JScalar (PDate d)) \<and>
           (\<forall>f d. f \<in> set date_formats \<and> strptime s f = Inr d \<longrightarrow> jdict_get td sk = JScalar (PDate d))"
          by blast
      qed
      have c: "v = JScalar (PStr s) \<and> valid_date d \<and> s \<in> {isoformat d, render_dmY d, render_mdY d} \<longrightarrow>
           jdict_get td sk = JScalar (PDate d)"
      proof (intro impI, elim conjE)
        assume v: "v = JScalar (PStr s)" and vd: "valid_date d"
          and s: "s \<in> {isoformat d, render_dmY d, render_mdY d}"
        from s consider "s = isoformat d" | "s = render_dmY d" | "s = render_mdY d" by auto
        then have "\<exists>f \<in> set date_formats. strptime s f = Inr d"
        proof cases
          case 1 then show ?thesis using strptime_isoformat[OF vd] by (auto simp: date_formats_def)
        next
          case 2 then show ?thesis using strptime_render_dmY[OF vd] by (auto simp: date_formats_def)
        next
          case 3 then show ?thesis using strptime_render_mdY[OF vd] by (auto simp: date_formats_def)
        qed
        with parsed[OF v] show "jdict_get td sk = JScalar (PDate d)" by blast
      qed
      have e: "none_or_empty v \<longrightarrow> jdict_get td sk = JScalar PNone"
        using i' g by (auto simp: transform_date_def jdict_get_update)
      from a b c e show ?thesis by blast
    qed
    have refused: "isl (create_or_update_record_data (pre @ (key, JScalar (PStr s')) # post)) \<and>
        (transform_items [] pre = Inr tp \<longrightarrow>
           create_or_update_record_data (pre @ (key, JScalar (PStr s')) # post) =
             Inl (HTTPException 400
                    (date_detail_1 @ rename_expert_key key @ date_detail_2 @ date_detail_3 @ s'))) \<and>
        (transform_items [] pre = Inl e \<longrightarrow>
           create_or_update_record_data (pre @ (key, JScalar (PStr s')) # post) = Inl e)"
      if ne: "s' \<noteq> []" and u: "\<forall>f \<in> set date_formats. isl (strptime s' f)"
    proof -
      have f: "transform_item t (key, JScalar (PStr s')) =
          Inl (HTTPException 400
                 (date_detail_1 @ rename_expert_key key @ date_detail_2 @ date_detail_3 @ s'))" for t
        by (simp add: item transform_date_unparsed[OF ne u] date_detail_def)
      then have "isl (create_or_update_record_data (pre @ (key, JScalar (PStr s')) # post))"
        by (intro item_refused) simp
      moreover have "transform_items [] pre = Inr tp \<longrightarrow>
           create_or_update_record_data (pre @ (key, JScalar (PStr s')) # post) =
             Inl (HTTPException 400
                    (date_detail_1 @ rename_expert_key key @ date_detail_2 @ date_detail_3 @ s'))"
        using f[of tp] by (auto intro: item_failure)
      moreover have "transform_items [] pre = Inl e \<longrightarrow>
           create_or_update_record_data (pre @ (key, JScalar (PStr s')) # post) = Inl e"
        by (simp add: prefix_failure)
      ultimately show ?thesis by blast
    qed
    from written stored refused show ?thesis by blast
  qed
  from main absent roundtrip show ?thesis by blast
qed

lemma snake_mseDate: "snake_key (rename_expert_key (ascii ''mseDate'')) = ascii ''mse_date''"
  by (simp add: snake_key_def rename_expert_key_def py_isupper_def py_lower_char_def)

lemma writes_mseDate: "writes_field (ascii ''mse_date'') (ascii ''mseDate'')"
  by (simp add: writes_field_def snake_key_def rename_expert_key_def is_bureanumber_def py_lower_char_def
      py_isupper_def)

lemma isoformat_example: "isoformat \<lparr>year = 2024, month = 1, day = 15\<rparr> = ascii ''2024-01-15''"
  by (simp add: isoformat_def pad2 pad4)

lemma strptime_unparsed_example:
  "\<forall>f \<in> set date_formats. isl (strptime (ascii ''15-01-2024'') f)"
  by (simp add: date_formats_def strptime_def re_m_def re_d_def in_range_def is_digit_ascii
      digit_ascii not_digit_below)

lemma not_writes_fullName:
  "\<not> writes_field (ascii ''mse_date'') (ascii ''fullName'')"
  "\<not> writes_field (ascii ''birth_date'') (ascii ''fullName'')"
  "\<not> writes_field (ascii ''birth_date'') (ascii ''mseDate'')"
  by (simp_all add: writes_field_def snake_key_def rename_expert_key_def py_isupper_def py_lower_char_def)

lemma parse_2024_01_15:
  "parse_date_loop (ascii ''2024-01-15'') date_formats = Inr \<lparr>year = 2024, month = 1, day = 15\<rparr>"
proof -
  have "strptime (ascii ''2024-01-15'') Fmt_Ymd = Inr \<lparr>year = 2024, month = 1, day = 15\<rparr>"
    using strptime_isoformat[OF valid_2024_01_15] by (simp only: isoformat_example)
  then show ?thesis by (simp add: date_formats_def)
qed

lemma transform_mseDate:
  "transform_item [] (ascii ''mseDate'', JScalar (PStr (ascii ''2024-01-15'')))
     = Inr [(ascii ''mse_date'', JScalar (PDate \<lparr>year = 2024, month = 1, day = 15\<rparr>))]"
  using parse_2024_01_15
  by (simp add: transform_item_def snake_key_def rename_expert_key_def py_isupper_def
      py_lower_char_def is_bureanumber_def date_field_names_def none_or_empty_def transform_date_def)

lemma record_with_name:
  "create_or_update_record_data
     [(ascii ''mseDate'', JScalar (PStr (ascii ''2024-01-15''))),
      (ascii ''fullName'', JScalar (PStr (ascii ''Ivan'')))]
   = Inr [(ascii ''mse_date'', JScalar (PDate \<lparr>year = 2024, month = 1, day = 15\<rparr>)),
          (ascii ''full_name'', JScalar (PStr (ascii ''Ivan'')))]"
  using transform_mseDate
  by (simp add: create_or_update_record_data_def)
     (simp add: transform_item_def snake_key_def rename_expert_key_def
        py_isupper_def py_lower_char_def is_bureanumber_def date_field_names_def none_or_empty_def
        jdict_get_def normalize_full_name_def py_split_ws_def py_isspace_def)

theorem date_field_normalisation_witness:
  "create_or_update_record_data
     [(ascii ''mseDate'', JScalar (PStr (ascii ''2024-01-15''))),
      (ascii ''fullName'', JScalar (PStr (ascii ''Ivan'')))]
     = Inr [(ascii ''mse_date'', JScalar (PDate \<lparr>year = 2024, month = 1, day = 15\<rparr>)),
            (ascii ''full_name'', JScalar (PStr (ascii ''Ivan'')))] \<and>
   jdict_get [(ascii ''mse_date'', JScalar (PDate \<lparr>year = 2024, month = 1, day = 15\<rparr>)),
              (ascii ''full_name'', JScalar (PStr (ascii ''Ivan'')))] (ascii ''mse_date'')
     = JScalar (PDate \<lparr>year = 2024, month = 1, day = 15\<rparr>) \<and>
   create_or_update_record_data
     [(ascii ''mseDate'', JScalar (PStr (ascii ''15-01-2024''))),
      (ascii ''fullName'', JScalar (PStr (ascii ''Ivan'')))]
     = Inl (HTTPException 400
             (date_detail_1 @ ascii ''mseDate'' @ date_detail_2 @ date_detail_3 @ ascii ''15-01-2024'')) \<and>
   jdict_get [(ascii ''mse_date'', JScalar (PDate \<lparr>year = 2024, month = 1, day = 15\<rparr>)),
              (ascii ''full_name'', JScalar (PStr (ascii ''Ivan'')))] (ascii ''birth_date'')
     = JScalar PNone"
proof -
  let ?d = "\<lparr>year = 2024, month = 1, day = 15\<rparr>"
  let ?post = "[(ascii ''fullName'', JScalar (PStr (ascii ''Ivan'')))]"
  let ?td = "[(ascii ''mse_date'', JScalar (PDate ?d)), (ascii ''full_name'', JScalar (PStr (ascii ''Ivan'')))]"
  note t = date_field_normalisation[where sk = "ascii ''mse_date''" and key = "ascii ''mseDate''"
      and pre = "[]" and post = ?post and v = "JScalar (PStr (ascii ''2024-01-15''))" and td = ?td
      and s = "ascii ''2024-01-15''" and d = ?d and s' = "ascii ''15-01-2024''" and tp = "[]"]
  note u = date_field_normalisation[where sk = "ascii ''birth_date''"
      and record_data = "[(ascii ''mseDate'', JScalar (PStr (ascii ''2024-01-15''))),
                          (ascii ''fullName'', JScalar (PStr (ascii ''Ivan'')))]" and td' = ?td]
  have a: "jdict_get ?td (ascii ''mse_date'') = JScalar (PDate ?d)"
    using t writes_mseDate not_writes_fullName record_with_name valid_2024_01_15 isoformat_example
    by (simp add: date_field_names_def)
  have b: "create_or_update_record_data
     [(ascii ''mseDate'', JScalar (PStr (ascii ''15-01-2024''))),
      (ascii ''fullName'', JScalar (PStr (ascii ''Ivan'')))]
     = Inl (HTTPException 400
             (date_detail_1 @ ascii ''mseDate'' @ date_detail_2 @ date_detail_3 @ ascii ''15-01-2024''))"
    using t writes_mseDate not_writes_fullName strptime_unparsed_example
    by (simp add: date_field_names_def rename_expert_key_def)
  have c: "jdict_get ?td (ascii ''birth_date'') = JScalar PNone"
    using u not_writes_fullName record_with_name by (simp add: date_field_names_def)
  from a b c record_with_name show ?thesis by blast
qed

lemma strptime_garbage_word: "strptime (ascii ''garbage'') f = Inl ValueError"
  by (cases f)
     (simp_all add: strptime_def re_m_def re_d_def in_range_def is_digit_def decimal_value_def
        decimal_zeros_def)

lemma writes_specialMarks: "writes_field (ascii ''special_marks'') (ascii ''specialMarks'')"
  by (simp add: writes_field_def snake_key_def rename_expert_key_def py_isupper_def py_lower_char_def
      is_bureanumber_def)

text \<open>
  Two payloads with a date of birth that parses in none of the formats. In the first the
  special marks, which come before it, hold a number: the payload is refused with the
  status 500, which names no field. In the second the date of registration, which comes
  before it, parses in none of the formats either: the status 400 names the date of
  registration and its value, and neither the date of birth nor its value.
\<close>

theorem date_field_normalisation_counterexample:
  "create_or_update_record_data
     [(ascii ''specialMarks'', JList [PInt 1]),
      (ascii ''birthDate'', JScalar (PStr (ascii ''garbage'')))]
   = Inl (HTTPException 500 save_failed_detail) \<and>
   create_or_update_record_data
     [(ascii ''regDate'', JScalar (PStr (ascii ''soon''))),
      (ascii ''birthDate'', JScalar (PStr (ascii ''garbage'')))]
   = Inl (HTTPException 400
            (date_detail_1 @ ascii ''regDate'' @ date_detail_2 @ date_detail_3 @ ascii ''soon'')) \<and>
   date_detail_1 @ ascii ''regDate'' @ date_detail_2 @ date_detail_3 @ ascii ''soon''
     \<noteq> date_detail_1 @ ascii ''birthDate'' @ date_detail_2 @ date_detail_3 @ ascii ''garbage'' \<and>
   strptime (ascii ''garbage'') Fmt_Ymd = Inl ValueError \<and>
   strptime (ascii ''garbage'') Fmt_dmY = Inl ValueError \<and>
   strptime (ascii ''garbage'') Fmt_mdY = Inl ValueError"
proof -
  have a: "create_or_update_record_data
     [(ascii ''specialMarks'', JList [PInt 1]),
      (ascii ''birthDate'', JScalar (PStr (ascii ''garbage'')))]
   = Inl (HTTPException 500 save_failed_detail)"
    by (simp add: create_or_update_record_data_def transform_item_def snake_key_def rename_expert_key_def
        py_isupper_def py_lower_char_def is_bureanumber_def date_field_names_def join_items_def)
  have "strptime (ascii ''soon'') f = Inl ValueError" for f
    by (cases f)
       (simp_all add: strptime_def re_m_def re_d_def in_range_def is_digit_def decimal_value_def
          decimal_zeros_def)
  then have p: "parse_date_loop (ascii ''soon'') date_formats = Inl ValueError"
    by (simp add: date_formats_def)
  have b: "create_or_update_record_data
     [(ascii ''regDate'', JScalar (PStr (ascii ''soon''))),
      (ascii ''birthDate'', JScalar (PStr (ascii ''garbage'')))]
   = Inl (HTTPException 400
            (date_detail_1 @ ascii ''regDate'' @ date_detail_2 @ date_detail_3 @ ascii ''soon''))"
    using p
    by (simp add: create_or_update_record_data_def transform_item_def snake_key_def rename_expert_key_def
        py_isupper_def py_lower_char_def is_bureanumber_def date_field_names_def none_or_empty_def
        transform_date_def date_detail_def)
  have c: "date_detail_1 @ ascii ''regDate'' @ date_detail_2 @ date_detail_3 @ ascii ''soon''
     \<noteq> date_detail_1 @ ascii ''birthDate'' @ date_detail_2 @ date_detail_3 @ ascii ''garbage''"
    by simp
  from a b c show ?thesis using strptime_garbage_word by simp
qed

section \<open>The examination date\<close>

lemma mse_date_is_date_field: "ascii ''mse_date'' \<in> set date_field_names"
  by (simp add: date_field_names_def)

lemma transform_item_null:
  assumes "transform_item td (key, v) = Inr td'" and "writes_field (ascii ''mse_date'') key"
    and "none_or_empty v"
  shows "map_of td' (ascii ''mse_date'') = Some (JScalar PNone)"
proof -
  from assms(2) have sk: "snake_key (rename_expert_key key) = ascii ''mse_date''"
    by (simp add: writes_field_def)
  then have "transform_item td (key, v) =
      transform_date td (rename_expert_key key) (ascii ''mse_date'') v"
    using transform_item_date[of key td v] mse_date_is_date_field by simp
  with assms(1,3) show ?thesis by (auto simp: transform_date_def update_conv')
qed

lemma transform_items_null:
  "transform_items td items = Inr td' \<Longrightarrow>
   \<forall>(k, v) \<in> set items. writes_field (ascii ''mse_date'') k \<longrightarrow> none_or_empty v \<Longrightarrow>
   \<not> jv_truthy (jdict_get td (ascii ''mse_date'')) \<Longrightarrow>
   \<not> jv_truthy (jdict_get td' (ascii ''mse_date''))"
proof (induction items arbitrary: td)
  case Nil
  then show ?case by simp
next
  case (Cons item items)
  obtain k v where item: "item = (k, v)" by (cases item)
  from Cons.prems(1) obtain td1 where s1: "transform_item td (k, v) = Inr td1"
    and s2: "transform_items td1 items = Inr td'"
    by (auto simp: item split: sum.splits)
  have "\<not> jv_truthy (jdict_get td1 (ascii ''mse_date''))"
  proof (cases "writes_field (ascii ''mse_date'') k")
    case True
    with Cons.prems(2) have "none_or_empty v" by (simp add: item)
    with s1 True have "map_of td1 (ascii ''mse_date'') = Some (JScalar PNone)"
      by (rule transform_item_null)
    then show ?thesis by (simp add: jdict_get_def)
  next
    case False
    with s1 have "map_of td1 (ascii ''mse_date'') = map_of td (ascii ''mse_date'')"
      by (rule transform_item_other)
    with Cons.prems(3) show ?thesis by (simp add: jdict_get_def)
  qed
  moreover from Cons.prems(2) have
    "\<forall>(k, v) \<in> set items. writes_field (ascii ''mse_date'') k \<longrightarrow> none_or_empty v" by simp
  ultimately show ?case using Cons.IH[OF s2] by blast
qed

lemma mse_date_label_named: "\<exists>a b. mse_date_required_detail = a @ mse_date_label @ b"
  unfolding mse_date_required_detail_def by blast

text \<open>
  Claim C1, as amended. When all the fields of a payload are normalised without an error
  and the examination date is not there (absent, \<open>None\<close> or empty), the function raises
  the status 400 whose detail names the examination date. A payload whose examination
  date items are all \<open>None\<close> or empty is always refused: with that status 400, or with the
  error of the first item that fails to normalise, which is raised before the examination
  date is looked at. Every payload that is accepted has an examination date.
\<close>

theorem mse_date_required:
  "(transform_items [] record_data = Inr td \<and> \<not> jv_truthy (jdict_get td (ascii ''mse_date'')) \<longrightarrow>
      create_or_update_record_data record_data = Inl (HTTPException 400 mse_date_required_detail)) \<and>
   ((\<forall>(k, v) \<in> set record_data. writes_field (ascii ''mse_date'') k \<longrightarrow> none_or_empty v) \<longrightarrow>
      create_or_update_record_data record_data = Inl (HTTPException 400 mse_date_required_detail) \<or>
      (\<exists>e. transform_items [] record_data = Inl e \<and> create_or_update_record_data record_data = Inl e)) \<and>
   (create_or_update_record_data record_data = Inr td' \<longrightarrow>
      jv_truthy (jdict_get td' (ascii ''mse_date'')) \<and> jdict_get td' (ascii ''mse_date'') \<noteq> JScalar PNone) \<and>
   (\<exists>a b. mse_date_required_detail = a @ mse_date_label @ b)"
proof -
  have a: "transform_items [] record_data = Inr td \<and> \<not> jv_truthy (jdict_get td (ascii ''mse_date'')) \<longrightarrow>
      create_or_update_record_data record_data = Inl (HTTPException 400 mse_date_required_detail)"
    by (simp add: create_or_update_record_data_def)
  have b: "(\<forall>(k, v) \<in> set record_data. writes_field (ascii ''mse_date'') k \<longrightarrow> none_or_empty v) \<longrightarrow>
      create_or_update_record_data record_data = Inl (HTTPException 400 mse_date_required_detail) \<or>
      (\<exists>e. transform_items [] record_data = Inl e \<and> create_or_update_record_data record_data = Inl e)"
  proof
    assume h: "\<forall>(k, v) \<in> set record_data. writes_field (ascii ''mse_date'') k \<longrightarrow> none_or_empty v"
    show "create_or_update_record_data record_data = Inl (HTTPException 400 mse_date_required_detail) \<or>
      (\<exists>e. transform_items [] record_data = Inl e \<and> create_or_update_record_data record_data = Inl e)"
    proof (cases "transform_items [] record_data")
      case (Inl e)
      then show ?thesis by (simp add: create_or_update_record_data_def)
    next
      case (Inr td1)
      from transform_items_null[OF Inr h] have "\<not> jv_truthy (jdict_get td1 (ascii ''mse_date''))"
        by (simp add: jdict_get_def)
      with Inr show ?thesis by (simp add: create_or_update_record_data_def)
    qed
  qed
  have c: "create_or_update_record_data record_data = Inr td' \<longrightarrow>
      jv_truthy (jdict_get td' (ascii ''mse_date'')) \<and> jdict_get td' (ascii ''mse_date'') \<noteq> JScalar PNone"
  proof
    assume r: "create_or_update_record_data record_data = Inr td'"
    then obtain td1 where t: "transform_items [] record_data = Inr td1"
      and tr: "jv_truthy (jdict_get td1 (ascii ''mse_date''))"
      and n: "normalize_full_name td1 = Inr td'"
      by (auto simp: create_or_update_record_data_def split: sum.splits if_splits)
    from n have "map_of td' (ascii ''mse_date'') = map_of td1 (ascii ''mse_date'')"
      by (rule normalize_full_name_other) simp
    with tr have "jv_truthy (jdict_get td' (ascii ''mse_date''))" by (simp add: jdict_get_def)
    then show "jv_truthy (jdict_get td' (ascii ''mse_date'')) \<and> jdict_get td' (ascii ''mse_date'') \<noteq> JScalar PNone"
      by auto
  qed
  from a b c mse_date_label_named show ?thesis by blast
qed

theorem mse_date_required_witness:
  "create_or_update_record_data [(ascii ''fullName'', JScalar (PStr (ascii ''Ivan'')))]
     = Inl (HTTPException 400 mse_date_required_detail) \<and>
   create_or_update_record_data [(ascii ''mseDate'', JScalar (PStr []))]
     = Inl (HTTPException 400 mse_date_required_detail) \<and>
   create_or_update_record_data
     [(ascii ''mseDate'', JScalar (PDate \<lparr>year = 2024, month = 1, day = 15\<rparr>))]
     = Inr [(ascii ''mse_date'', JScalar (PDate \<lparr>year = 2024, month = 1, day = 15\<rparr>))] \<and>
   jv_truthy (jdict_get [(ascii ''mse_date'', JScalar (PDate \<lparr>year = 2024, month = 1, day = 15\<rparr>))]
      (ascii ''mse_date''))"
proof -
  have t: "transform_items [] [(ascii ''fullName'', JScalar (PStr (ascii ''Ivan'')))]
             = Inr [(ascii ''full_name'', JScalar (PStr (ascii ''Ivan'')))]"
    by (simp add: transform_item_def snake_key_def rename_expert_key_def py_isupper_def
        py_lower_char_def is_bureanumber_def date_field_names_def none_or_empty_def)
  have t2: "transform_items [] [(ascii ''mseDate'', JScalar (PStr []))]
             = Inr [(ascii ''mse_date'', JScalar PNone)]"
    by (simp add: transform_item_def snake_key_def rename_expert_key_def py_isupper_def
        py_lower_char_def is_bureanumber_def date_field_names_def none_or_empty_def transform_date_def)
  have u: "create_or_update_record_data [(ascii ''mseDate'', JScalar (PDate \<lparr>year = 2024, month = 1, day = 15\<rparr>))]
       = Inr [(ascii ''mse_date'', JScalar (PDate \<lparr>year = 2024, month = 1, day = 15\<rparr>))]"
    by (simp add: create_or_update_record_data_def transform_item_def snake_key_def rename_expert_key_def
        py_isupper_def py_lower_char_def is_bureanumber_def date_field_names_def none_or_empty_def
        transform_date_def jdict_get_def normalize_full_name_def)
  show ?thesis
    using mse_date_required[of "[(ascii ''fullName'', JScalar (PStr (ascii ''Ivan'')))]"
        "[(ascii ''full_name'', JScalar (PStr (ascii ''Ivan'')))]"] t
      mse_date_required[of "[(ascii ''mseDate'', JScalar (PStr []))]"] t2
      mse_date_required[of "[(ascii ''mseDate'', JScalar (PDate \<lparr>year = 2024, month = 1, day = 15\<rparr>))]" _
        "[(ascii ''mse_date'', JScalar (PDate \<lparr>year = 2024, month = 1, day = 15\<rparr>))]"] u
    by (simp add: jdict_get_def none_or_empty_def)
qed

text \<open>
  A payload with an empty examination date and a date of birth that parses in none of the
  formats: the examination date is normalised to \<open>None\<close>, and the payload is refused with
  the status 400 of the date of birth, whose detail is not the one that names the
  examination date.
\<close>

theorem mse_date_required_counterexample:
  "transform_items [] [(ascii ''mseDate'', JScalar (PStr []))] = Inr [(ascii ''mse_date'', JScalar PNone)] \<and>
   create_or_update_record_data
     [(ascii ''mseDate'', JScalar (PStr [])),
      (ascii ''birthDate'', JScalar (PStr (ascii ''garbage'')))]
   = Inl (HTTPException 400
            (date_detail_1 @ ascii ''birthDate'' @ date_detail_2 @ date_detail_3 @ ascii ''garbage'')) \<and>
   date_detail_1 @ ascii ''birthDate'' @ date_detail_2 @ date_detail_3 @ ascii ''garbage''
     \<noteq> mse_date_required_detail"
proof -
  have a: "transform_items [] [(ascii ''mseDate'', JScalar (PStr []))] = Inr [(ascii ''mse_date'', JScalar PNone)]"
    by (simp add: transform_item_def snake_key_def rename_expert_key_def py_isupper_def
        py_lower_char_def is_bureanumber_def date_field_names_def none_or_empty_def transform_date_def)
  have p: "parse_date_loop (ascii ''garbage'') date_formats = Inl ValueError"
    using strptime_garbage_word by (simp add: date_formats_def)
  have b: "transform_item [(ascii ''mse_date'', JScalar PNone)]
             (ascii ''birthDate'', JScalar (PStr (ascii ''garbage'')))
      = Inl (HTTPException 400
            (date_detail_1 @ ascii ''birthDate'' @ date_detail_2 @ date_detail_3 @ ascii ''garbage''))"
    using p
    by (simp add: transform_item_def snake_key_def rename_expert_key_def py_isupper_def
        py_lower_char_def is_bureanumber_def date_field_names_def none_or_empty_def transform_date_def
        date_detail_def)
  have c: "date_detail_1 @ ascii ''birthDate'' @ date_detail_2 @ date_detail_3 @ ascii ''garbage''
     \<noteq> mse_date_required_detail"
    by (simp add: date_detail_1_def mse_date_required_detail_def)
  from a b c show ?thesis
    using item_failure[of "[(ascii ''mseDate'', JScalar (PStr []))]" "[(ascii ''mse_date'', JScalar PNone)]"
        "(ascii ''birthDate'', JScalar (PStr (ascii ''garbage'')))" _ "[]"]
    by simp
qed

section \<open>The special marks\<close>

lemma py_split_nonempty: "py_split sep s \<noteq> []"
  by (induction s) (auto split: list.splits)

lemma py_split_append_token:
  "sep \<notin> set t \<Longrightarrow> py_split sep (t @ sep # s) = t # py_split sep s"
  by (induction t) (auto split: list.splits simp: py_split_nonempty)

lemma py_split_token: "sep \<notin> set t \<Longrightarrow> py_split sep t = [t]"
  by (induction t) (auto split: list.splits)

lemma py_split_join:
  "ss \<noteq> [] \<Longrightarrow> \<forall>t \<in> set ss. sep \<notin> set t \<Longrightarrow> py_split sep (py_join [sep] ss) = ss"
proof (induction ss)
  case Nil
  then show ?case by simp
next
  case (Cons x xs)
  show ?case
  proof (cases xs)
    case Nil
    with Cons.prems show ?thesis by (simp add: py_split_token)
  next
    case (Cons y ys)
    with Cons.prems Cons.IH show ?thesis by (simp add: py_split_append_token)
  qed
qed

lemma py_join_split: "py_join [sep] (py_split sep s) = s"
proof (induction s)
  case Nil
  then show ?case by simp
next
  case (Cons c s)
  show ?case
  proof (cases "c = sep")
    case True
    with Cons show ?thesis by (cases "py_split sep s") (auto simp: py_split_nonempty)
  next
    case False
    with Cons show ?thesis
      by (cases "py_split sep s"; cases "tl (py_split sep s)") (auto simp: py_split_nonempty)
  qed
qed

lemma py_split_no_sep: "t \<in> set (py_split sep s) \<Longrightarrow> sep \<notin> set t"
  by (induction s arbitrary: t) (auto split: if_splits list.splits)

lemma special_marks_not_date: "ascii ''special_marks'' \<notin> set date_field_names"
  by (simp add: date_field_names_def)

lemma transform_item_special_marks:
  assumes "writes_field (ascii ''special_marks'') key"
  shows "transform_item td (key, v) =
     (case v of
        JList vs \<Rightarrow>
          if vs \<noteq> [] then
            (case join_items [44] vs of
               Inr s \<Rightarrow> Inr (AList.update (ascii ''special_marks'') (JScalar (PStr s)) td)
             | Inl e \<Rightarrow> Inl (HTTPException 500 save_failed_detail))
          else Inr (AList.update (ascii ''special_marks'') (JScalar PNone) td)
      | JScalar x \<Rightarrow>
          Inr (AList.update (ascii ''special_marks'') (if none_or_empty v then JScalar PNone else v) td))"
  using assms special_marks_not_date
  by (simp add: writes_field_def transform_item_def Let_def split: jval.splits sum.splits)

text \<open>
  Claim C9, as amended. In an accepted payload, the special marks are stored as follows,
  by the last item that writes them: \<open>None\<close> for the empty list, for \<open>None\<close> and for the
  empty string; for a list of strings, the strings joined with commas, and splitting what
  is stored on commas gives the list back, empty strings included; any other value (a
  string that is not empty, a number, a boolean) as it is, so that a string already
  joined is stored unchanged. When no item writes them they are \<open>None\<close>. A payload with
  a list of special marks that holds anything but strings is not accepted.
\<close>

theorem special_marks_stored:
  "(create_or_update_record_data (pre @ (key, v) # post) = Inr td \<and>
    writes_field (ascii ''special_marks'') key \<and>
    (\<forall>(k, x) \<in> set post. \<not> writes_field (ascii ''special_marks'') k) \<longrightarrow>
     (v = JList [] \<or> none_or_empty v \<longrightarrow> jdict_get td (ascii ''special_marks'') = JScalar PNone) \<and>
     (v = JList vs \<and> vs \<noteq> [] \<longrightarrow>
        (\<exists>ss. str_items vs = Inr ss \<and>
              jdict_get td (ascii ''special_marks'') = JScalar (PStr (py_join [44] ss)) \<and>
              ((\<forall>t \<in> set ss. 44 \<notin> set t) \<longrightarrow> py_split 44 (py_join [44] ss) = ss))) \<and>
     (v = JScalar (PStr s) \<and> s \<noteq> [] \<longrightarrow> jdict_get td (ascii ''special_marks'') = JScalar (PStr s)) \<and>
     (v = JScalar x \<and> \<not> none_or_empty v \<longrightarrow> jdict_get td (ascii ''special_marks'') = JScalar x)) \<and>
   (create_or_update_record_data record_data = Inr td' \<and>
    (\<forall>(k, x) \<in> set record_data. \<not> writes_field (ascii ''special_marks'') k) \<longrightarrow>
      jdict_get td' (ascii ''special_marks'') = JScalar PNone) \<and>
   (writes_field (ascii ''special_marks'') key \<and> vs \<noteq> [] \<and> isl (str_items vs) \<longrightarrow>
      isl (create_or_update_record_data (pre @ (key, JList vs) # post)))"
proof -
  have refused: "writes_field (ascii ''special_marks'') key \<and> vs \<noteq> [] \<and> isl (str_items vs) \<longrightarrow>
      isl (create_or_update_record_data (pre @ (key, JList vs) # post))"
  proof (intro impI, elim conjE)
    assume w: "writes_field (ascii ''special_marks'') key" and ne: "vs \<noteq> []" and f: "isl (str_items vs)"
    have "isl (transform_item t (key, JList vs))" for t
      using ne f by (auto simp: transform_item_special_marks[OF w] join_items_def isl_def)
    then show "isl (create_or_update_record_data (pre @ (key, JList vs) # post))"
      by (rule item_refused)
  qed
  have absent: "create_or_update_record_data record_data = Inr td' \<and>
    (\<forall>(k, x) \<in> set record_data. \<not> writes_field (ascii ''special_marks'') k) \<longrightarrow>
      jdict_get td' (ascii ''special_marks'') = JScalar PNone"
    using field_absent[of record_data td' "ascii ''special_marks''"] by simp
  have main: "(v = JList [] \<or> none_or_empty v \<longrightarrow> jdict_get td (ascii ''special_marks'') = JScalar PNone) \<and>
     (v = JList vs \<and> vs \<noteq> [] \<longrightarrow>
        (\<exists>ss. str_items vs = Inr ss \<and>
              jdict_get td (ascii ''special_marks'') = JScalar (PStr (py_join [44] ss)) \<and>
              ((\<forall>t \<in> set ss. 44 \<notin> set t) \<longrightarrow> py_split 44 (py_join [44] ss) = ss))) \<and>
     (v = JScalar (PStr s) \<and> s \<noteq> [] \<longrightarrow> jdict_get td (ascii ''special_marks'') = JScalar (PStr s)) \<and>
     (v = JScalar x \<and> \<not> none_or_empty v \<longrightarrow> jdict_get td (ascii ''special_marks'') = JScalar x)"
    if r: "create_or_update_record_data (pre @ (key, v) # post) = Inr td"
      and w: "writes_field (ascii ''special_marks'') key"
      and p: "\<forall>(k, x) \<in> set post. \<not> writes_field (ascii ''special_marks'') k"
  proof -
    from field_written[OF r p] obtain t0 t1 where
      i: "transform_item t0 (key, v) = Inr t1" and
      g: "jdict_get td (ascii ''special_marks'') = jdict_get t1 (ascii ''special_marks'')"
      by auto
    note item = transform_item_special_marks[OF w, of t0 v]
    have a: "v = JList [] \<or> none_or_empty v \<longrightarrow> jdict_get td (ascii ''special_marks'') = JScalar PNone"
      using i item g by (auto simp: jdict_get_update none_or_empty_def)
    have b: "v = JList vs \<and> vs \<noteq> [] \<longrightarrow>
        (\<exists>ss. str_items vs = Inr ss \<and>
              jdict_get td (ascii ''special_marks'') = JScalar (PStr (py_join [44] ss)) \<and>
              ((\<forall>t \<in> set ss. 44 \<notin> set t) \<longrightarrow> py_split 44 (py_join [44] ss) = ss))"
    proof (intro impI, elim conjE)
      assume v: "v = JList vs" and ne: "vs \<noteq> []"
      with i item obtain ss where ss: "str_items vs = Inr ss"
        and t1: "t1 = AList.update (ascii ''special_marks'') (JScalar (PStr (py_join [44] ss))) t0"
        by (auto simp: join_items_def split: sum.splits)
      from ss ne have "ss \<noteq> []" by (cases vs rule: str_items.cases) (auto split: sum.splits)
      then have "(\<forall>t \<in> set ss. 44 \<notin> set t) \<longrightarrow> py_split 44 (py_join [44] ss) = ss"
        by (simp add: py_split_join)
      with ss g t1 show "\<exists>ss. str_items vs = Inr ss \<and>
              jdict_get td (ascii ''special_marks'') = JScalar (PStr (py_join [44] ss)) \<and>
              ((\<forall>t \<in> set ss. 44 \<notin> set t) \<longrightarrow> py_split 44 (py_join [44] ss) = ss)"
        by (simp add: jdict_get_update)
    qed
    have c: "v = JScalar (PStr s) \<and> s \<noteq> [] \<longrightarrow> jdict_get td (ascii ''special_marks'') = JScalar (PStr s)"
      using i item g by (auto simp: jdict_get_update none_or_empty_def)
    have d: "v = JScalar x \<and> \<not> none_or_empty v \<longrightarrow> jdict_get td (ascii ''special_marks'') = JScalar x"
      using i item g by (auto simp: jdict_get_update)
    from a b c d show ?thesis by blast
  qed
  from main absent refused show ?thesis by blast
qed

lemma record_with_empty_mark:
  "create_or_update_record_data
     [(ascii ''mseDate'', JScalar (PStr (ascii ''2024-01-15''))),
      (ascii ''specialMarks'', JList [PStr (ascii ''amputee''), PStr []])]
   = Inr [(ascii ''mse_date'', JScalar (PDate \<lparr>year = 2024, month = 1, day = 15\<rparr>)),
          (ascii ''special_marks'', JScalar (PStr (ascii ''amputee,'')))]"
  using transform_mseDate
  by (simp add: create_or_update_record_data_def)
     (simp add: transform_item_def snake_key_def rename_expert_key_def
        py_isupper_def py_lower_char_def is_bureanumber_def date_field_names_def none_or_empty_def
        jdict_get_def normalize_full_name_def join_items_def)

lemma record_with_number_mark:
  "create_or_update_record_data
     [(ascii ''mseDate'', JScalar (PStr (ascii ''2024-01-15''))),
      (ascii ''specialMarks'', JScalar (PInt 5))]
   = Inr [(ascii ''mse_date'', JScalar (PDate \<lparr>year = 2024, month = 1, day = 15\<rparr>)),
          (ascii ''special_marks'', JScalar (PInt 5))]"
  using transform_mseDate
  by (simp add: create_or_update_record_data_def)
     (simp add: transform_item_def snake_key_def rename_expert_key_def
        py_isupper_def py_lower_char_def is_bureanumber_def date_field_names_def none_or_empty_def
        jdict_get_def normalize_full_name_def)

theorem special_marks_stored_witness:
  "create_or_update_record_data
     [(ascii ''mseDate'', JScalar (PStr (ascii ''2024-01-15''))),
      (ascii ''specialMarks'', JList [PStr (ascii ''amputee''), PStr []])]
     = Inr [(ascii ''mse_date'', JScalar (PDate \<lparr>year = 2024, month = 1, day = 15\<rparr>)),
            (ascii ''special_marks'', JScalar (PStr (ascii ''amputee,'')))] \<and>
   jdict_get [(ascii ''mse_date'', JScalar (PDate \<lparr>year = 2024, month = 1, day = 15\<rparr>)),
              (ascii ''special_marks'', JScalar (PStr (ascii ''amputee,'')))] (ascii ''special_marks'')
     = JScalar (PStr (py_join [44] [ascii ''amputee'', []])) \<and>
   py_split 44 (py_join [44] [ascii ''amputee'', []]) = [ascii ''amputee'', []] \<and>
   jdict_get [(ascii ''mse_date'', JScalar (PDate \<lparr>year = 2024, month = 1, day = 15\<rparr>)),
              (ascii ''special_marks'', JScalar (PInt 5))] (ascii ''special_marks'')
     = JScalar (PInt 5)"
  using special_marks_stored[where pre = "[(ascii ''mseDate'', JScalar (PStr (ascii ''2024-01-15'')))]"
      and key = "ascii ''specialMarks''" and v = "JList [PStr (ascii ''amputee''), PStr []]" and post = "[]"
      and td = "[(ascii ''mse_date'', JScalar (PDate \<lparr>year = 2024, month = 1, day = 15\<rparr>)),
        (ascii ''special_marks'', JScalar (PStr (ascii ''amputee,'')))]"
      and vs = "[PStr (ascii ''amputee''), PStr []]"]
    special_marks_stored[where pre = "[(ascii ''mseDate'', JScalar (PStr (ascii ''2024-01-15'')))]"
      and key = "ascii ''specialMarks''" and v = "JScalar (PInt 5)" and post = "[]"
      and td = "[(ascii ''mse_date'', JScalar (PDate \<lparr>year = 2024, month = 1, day = 15\<rparr>)),
        (ascii ''special_marks'', JScalar (PInt 5))]"
      and x = "PInt 5"]
    record_with_empty_mark record_with_number_mark writes_specialMarks
  by (simp add: none_or_empty_def)

text \<open>
  A payload with the special marks \<open>['amputee', '']\<close> is accepted and stored as
  \<open>amputee,\<close>, whose second token is empty; a payload with the special marks \<open>5\<close>, a
  number, is accepted and stored as the number, which is neither \<open>None\<close> nor a string.
\<close>

theorem special_marks_empty_token_counterexample:
  "create_or_update_record_data
     [(ascii ''mseDate'', JScalar (PStr (ascii ''2024-01-15''))),
      (ascii ''specialMarks'', JList [PStr (ascii ''amputee''), PStr []])]
   = Inr [(ascii ''mse_date'', JScalar (PDate \<lparr>year = 2024, month = 1, day = 15\<rparr>)),
          (ascii ''special_marks'', JScalar (PStr (ascii ''amputee,'')))] \<and>
   py_split 44 (ascii ''amputee,'') = [ascii ''amputee'', []] \<and>
   create_or_update_record_data
     [(ascii ''mseDate'', JScalar (PStr (ascii ''2024-01-15''))),
      (ascii ''specialMarks'', JScalar (PInt 5))]
   = Inr [(ascii ''mse_date'', JScalar (PDate \<lparr>year = 2024, month = 1, day = 15\<rparr>)),
          (ascii ''special_marks'', JScalar (PInt 5))]"
  using record_with_empty_mark record_with_number_mark by simp

section \<open>The value mapper\<close>

declare ascii_Nil [simp del] ascii_Cons [simp del]

lemma inj_of_char_nat: "inj (of_char :: char \<Rightarrow> nat)"
  by (rule injI) simp

lemma ascii_eq_iff [simp]: "ascii a = ascii b \<longleftrightarrow> a = b"
  unfolding ascii_def using inj_of_char_nat by (rule inj_map_eq_map)

lemma ascii_eq_Nil [simp]: "ascii a = [] \<longleftrightarrow> a = []"
  by (simp add: ascii_def)

lemma length_ascii [simp]: "length (ascii a) = length a"
  by (simp add: ascii_def)

lemma startswith_ascii [simp]: "py_startswith (ascii s) (ascii p) \<longleftrightarrow> take (length p) s = p"
proof -
  have "take (length p) (map of_char s) = map (of_char :: char \<Rightarrow> nat) (take (length p) s)"
    by (simp add: take_map)
  then show ?thesis
    by (simp add: py_startswith_def ascii_def inj_map_eq_map[OF inj_of_char_nat])
qed

lemmas ascii_eval = ascii_Nil ascii_Cons

lemma map_of_dict_merge: "map_of (dict_merge a b) = map_of a ++ map_of (rev b)"
proof -
  have "map_of (fold (\<lambda>(k, v). AList.update k v) b a) = map_of a ++ map_of (rev b)"
    for a :: "(pystr \<times> 'a) list"
  proof (induction b arbitrary: a)
    case Nil
    then show ?case by simp
  next
    case (Cons p b)
    obtain k v where p: "p = (k, v)" by (cases p)
    have "map_of (fold (\<lambda>(k, v). AList.update k v) (p # b) a) = map_of (AList.update k v a) ++ map_of (rev b)"
      using Cons.IH[of "AList.update k v a"] by (simp add: p)
    also have "\<dots> = map_of a ++ map_of (rev (p # b))"
      by (rule ext) (auto simp: p update_conv' map_add_def split: option.splits)
    finally show ?case .
  qed
  then show ?thesis by (simp add: dict_merge_def)
qed

lemma special_marks_mapping:
  "map_of (get_value_mappings u) (ascii ''special_marks'') =
     map_of COMMON_VALUE_MAPPINGS (ascii ''special_marks'')"
  by (simp add: get_value_mappings_def map_of_dict_merge map_add_def
      EXPERT_VALUE_MAPPINGS_def BUREAU_VALUE_MAPPINGS_def)

lemma filter_map_strip:
  "map f (filter (\<lambda>t. py_strip t \<noteq> []) ts) = map (\<lambda>t. g t) (filter (\<lambda>t. t \<noteq> []) (map py_strip ts))"
  if "\<And>t. f t = g (py_strip t)"
  using that by (induction ts) auto

text \<open>
  Claim C3. For a field of the taxonomy of the unit, a value with a comma is split on
  commas, each part trimmed, the empty parts dropped, each part replaced by its label or
  kept when it has none, and the results joined with \<open>", "\<close>; for every unit the special
  marks \<open>amputee,bogus_code\<close> give the label of \<open>amputee\<close>, then \<open>bogus_code\<close>; \<open>None\<close> and
  the empty string give the empty string.
\<close>

theorem map_value_set_valued:
  "(map_of (get_value_mappings u) f = Some mapping \<and> 44 \<in> set v \<longrightarrow>
      map_value u f (Some v) =
        py_join (ascii '', '')
          (map (\<lambda>t. case map_of mapping t of Some l \<Rightarrow> l | None \<Rightarrow> t)
             (filter (\<lambda>t. t \<noteq> []) (map py_strip (py_split 44 v))))) \<and>
   map_value u (ascii ''special_marks'') (Some (ascii ''amputee,bogus_code'')) =
     [1040, 1084, 1087, 1091, 1090, 1072, 1085, 1090] @ ascii '', bogus_code'' \<and>
   map_value u f None = [] \<and>
   map_value u f (Some []) = []"
proof -
  have a: "map_of (get_value_mappings u) f = Some mapping \<and> 44 \<in> set v \<longrightarrow>
      map_value u f (Some v) =
        py_join (ascii '', '')
          (map (\<lambda>t. case map_of mapping t of Some l \<Rightarrow> l | None \<Rightarrow> t)
             (filter (\<lambda>t. t \<noteq> []) (map py_strip (py_split 44 v))))"
  proof (intro impI, elim conjE)
    assume m: "map_of (get_value_mappings u) f = Some mapping" and c: "44 \<in> set v"
    from c have "v \<noteq> []" by auto
    moreover have "map (\<lambda>t. mapping_get mapping (py_strip t) (py_strip t))
                     (filter (\<lambda>t. py_strip t \<noteq> []) (py_split 44 v))
          = map (\<lambda>t. case map_of mapping t of Some l \<Rightarrow> l | None \<Rightarrow> t)
             (filter (\<lambda>t. t \<noteq> []) (map py_strip (py_split 44 v)))"
      by (rule filter_map_strip) (simp add: mapping_get_def split: option.splits)
    ultimately show "map_value u f (Some v) =
        py_join (ascii '', '')
          (map (\<lambda>t. case map_of mapping t of Some l \<Rightarrow> l | None \<Rightarrow> t)
             (filter (\<lambda>t. t \<noteq> []) (map py_strip (py_split 44 v))))"
      using m c by (simp add: map_value_def)
  qed
  have b: "map_value u (ascii ''special_marks'') (Some (ascii ''amputee,bogus_code'')) =
     [1040, 1084, 1087, 1091, 1090, 1072, 1085, 1090] @ ascii '', bogus_code''"
    by (simp add: map_value_def special_marks_mapping COMMON_VALUE_MAPPINGS_def mapping_get_def)
       (simp add: ascii_eval py_strip_def py_isspace_def)
  show ?thesis using a b by (simp add: map_value_def)
qed

theorem map_value_set_valued_witness:
  "map_value (ascii ''expert_1'') (ascii ''tsr_changed'') (Some (ascii '' yes , ,no''))
     = [1044, 1072] @ ascii '', no''"
proof -
  have m: "map_of (get_value_mappings (ascii ''expert_1'')) (ascii ''tsr_changed'')
       = Some [(ascii ''yes'', [1044, 1072])]"
    by (simp add: get_value_mappings_def map_of_dict_merge map_add_def EXPERT_VALUE_MAPPINGS_def)
  show ?thesis
    using map_value_set_valued[of "ascii ''expert_1''" "ascii ''tsr_changed''"
        "[(ascii ''yes'', [1044, 1072])]" "ascii '' yes , ,no''"] m
    by (simp add: ascii_eval py_strip_def py_isspace_def)
qed

section \<open>The sheet builder\<close>

lemma column_index_letter: "column_index (get_column_letter n) = n"
proof (induction n rule: get_column_letter.induct)
  case (1 n)
  show ?case
  proof (cases "n = 0")
    case True
    then show ?thesis by (simp add: get_column_letter.simps column_index_def)
  next
    case n0: False
    show ?thesis
    proof (cases "n mod 26 = 0")
      case True
      with n0 have ih: "column_index (get_column_letter (n div 26 - 1)) = n div 26 - 1"
        using 1 by simp
      from True n0 have "1 \<le> n div 26" by (cases "n div 26") auto
      then have "(n div 26 - 1) * 26 + 26 = n div 26 * 26"
        by (cases "n div 26") auto
      also from True have "\<dots> = n" by (simp add: mod_eq_0_iff_dvd)
      finally have e: "(n div 26 - 1) * 26 + 26 = n" .
      have "get_column_letter n = get_column_letter (n div 26 - 1) @ [26 + 64]"
        using True n0 by (simp add: get_column_letter.simps[of n])
      then show ?thesis using ih e by (simp add: column_index_def)
    next
      case False
      with n0 have ih: "column_index (get_column_letter (n div 26)) = n div 26"
        using 1 by simp
      have "get_column_letter n = get_column_letter (n div 26) @ [n mod 26 + 64]"
        using False n0 by (simp add: get_column_letter.simps[of n])
      then show ?thesis using ih by (simp add: column_index_def)
    qed
  qed
qed

lemma get_column_letter_inj: "get_column_letter m = get_column_letter n \<longleftrightarrow> m = n"
proof
  assume "get_column_letter m = get_column_letter n"
  then have "column_index (get_column_letter m) = column_index (get_column_letter n)"
    by (rule arg_cong)
  then show "m = n" by (simp only: column_index_letter)
next
  assume "m = n"
  then show "get_column_letter m = get_column_letter n" by (rule arg_cong)
qed

lemma set_widths_get:
  "c \<in> set cs \<or> map_of dims (get_column_letter c) = Some (w c) \<Longrightarrow>
   map_of (set_widths w cs dims) (get_column_letter c) = Some (w c)"
proof (induction cs arbitrary: dims)
  case Nil
  then show ?case by (simp add: set_widths_def)
next
  case (Cons x cs)
  have "c \<in> set cs \<or> map_of (AList.update (get_column_letter x) (w x) dims) (get_column_letter c) = Some (w c)"
    using Cons.prems by (auto simp: update_conv' get_column_letter_inj)
  from Cons.IH[OF this] show ?case by (simp add: set_widths_def)
qed

lemma set_widths_dom:
  "fst ` set (set_widths w cs dims) = get_column_letter ` set cs \<union> fst ` set dims"
proof (induction cs arbitrary: dims)
  case Nil
  then show ?case by (simp add: set_widths_def)
next
  case (Cons x cs)
  have "fst ` set (set_widths w cs (AList.update (get_column_letter x) (w x) dims))
      = get_column_letter ` set cs \<union> fst ` set (AList.update (get_column_letter x) (w x) dims)"
    by (rule Cons.IH)
  then show ?case by (simp add: set_widths_def dom_update Un_ac)
qed

lemma collect_length: "collect xs = Inr vs \<Longrightarrow> length vs = length xs"
proof (induction xs arbitrary: vs)
  case Nil
  then show ?case by simp
next
  case (Cons x xs)
  then show ?case by (cases x) (auto split: sum.splits)
qed

lemma collect_success: "\<forall>x \<in> set xs. \<not> isl x \<Longrightarrow> \<exists>vs. collect xs = Inr vs"
proof (induction xs)
  case Nil
  then show ?case by simp
next
  case (Cons x xs)
  then show ?case by (cases x) auto
qed

lemma collect_map: "collect xs = Inr vs \<Longrightarrow> xs = map Inr vs"
proof (induction xs arbitrary: vs)
  case Nil
  then show ?case by simp
next
  case (Cons x xs)
  then show ?case by (cases x) (auto split: sum.splits)
qed

lemma length_common_headers: "length common_headers = 22"
  by (simp add: common_headers_def)

lemma length_expert_headers: "length expert_headers = 5"
  by (simp add: expert_headers_def)

lemma length_bureau_headers: "length bureau_headers = 3"
  by (simp add: bureau_headers_def)

lemma length_sheet_headers: "length (sheet_headers a e) = (if e then 28 else 26)"
  by (simp add: sheet_headers_def length_common_headers length_expert_headers length_bureau_headers)

lemma length_record_cells: "length (record_cells a e n r) = (if e then 28 else 26)"
  by (simp add: record_cells_def Let_def)

lemma record_rows_shape:
  "record_rows a e n rs = Inr rows \<Longrightarrow>
   length rows = length rs \<and> (\<forall>row \<in> set rows. length row = (if e then 28 else 26))"
proof (induction rs arbitrary: n rows)
  case Nil
  then show ?case by simp
next
  case (Cons r rs)
  from Cons.prems obtain vs rows' where c: "collect (map written (record_cells a e n r)) = Inr vs"
    and r: "record_rows a e (Suc n) rs = Inr rows'" and e: "rows = vs # rows'"
    by (auto split: sum.splits)
  from collect_length[OF c] have "length vs = (if e then 28 else 26)"
    by (simp add: length_record_cells)
  with Cons.IH[OF r] e show ?case by simp
qed

lemma create_excel_worksheet_empty:
  "create_excel_worksheet [] a = Inr (empty_sheet (sheet_headers a False))"
  by (simp add: create_excel_worksheet_def batch_is_expert_def)

text \<open>What a built sheet of a batch that is not empty consists of.\<close>

lemma create_excel_worksheet_rows:
  assumes "create_excel_worksheet records a = Inr ws" and "records \<noteq> []"
  obtains e rows where
    "batch_is_expert records = Inr e"
    "record_rows a e 2 records = Inr rows"
    "ws_rows ws = map (map style_cell) (map header_cell (sheet_headers a e) # map (map plain_cell) rows)"
    "column_widths ws =
       set_widths (\<lambda>c. adjusted_width (column_max_length (ws_columns (ws_rows ws) ! (c - 1))))
         [1..<length (ws_columns (ws_rows ws)) + 1] []"
    "auto_filter_ref ws =
       Some (ascii ''A1:'' @ get_column_letter (length (sheet_headers a e)) @ str_int (int (length records + 1)))"
    "freeze_panes ws = Some (ascii ''A2'')"
    "merged_cells ws = []"
  using assms
  by (auto simp: create_excel_worksheet_def Let_def split: sum.splits)

lemma batch_is_expert_first:
  assumes "batch_is_expert records = Inr e" and "records \<noteq> []"
  shows "\<exists>b. dict_get_default (hd records) (ascii ''bureau_number'') (PStr []) = PStr b \<and>
             e = py_startswith b (ascii ''expert_'')"
  using assms by (cases records) (auto simp: batch_is_expert_def split: pyval.splits)

lemma cell_value_style_header: "cell_value (style_cell (header_cell h)) = PStr h"
  by (simp add: style_cell_def header_cell_def)

text \<open>
  Claim C5. The header of the sheet of a batch that is not empty is the first column, the
  22 columns every sheet has (23 together), then the 5 columns of the expert panels when
  the unit identifier of the first record starts with \<open>expert_\<close> and the 3 columns of the
  bureaus otherwise; the first record alone decides, and every row of the sheet has as
  many cells as the header.
\<close>

theorem sheet_header_layout:
  "(records \<noteq> [] \<and> create_excel_worksheet records is_all_records = Inr ws \<longrightarrow>
      (\<exists>b. dict_get_default (hd records) (ascii ''bureau_number'') (PStr []) = PStr b \<and>
           map cell_value (hd (ws_rows ws)) =
             map PStr (((if is_all_records then header_source else header_number) # common_headers)
                       @ (if py_startswith b (ascii ''expert_'') then expert_headers else bureau_headers))) \<and>
      (\<forall>row \<in> set (ws_rows ws). length row = length (hd (ws_rows ws)))) \<and>
   length ((if is_all_records then header_source else header_number) # common_headers) = 23 \<and>
   length expert_headers = 5 \<and> length bureau_headers = 3"
proof -
  have "(\<exists>b. dict_get_default (hd records) (ascii ''bureau_number'') (PStr []) = PStr b \<and>
           map cell_value (hd (ws_rows ws)) =
             map PStr (((if is_all_records then header_source else header_number) # common_headers)
                       @ (if py_startswith b (ascii ''expert_'') then expert_headers else bureau_headers))) \<and>
      (\<forall>row \<in> set (ws_rows ws). length row = length (hd (ws_rows ws)))"
    if ne: "records \<noteq> []" and ok: "create_excel_worksheet records is_all_records = Inr ws"
  proof -
    from ok ne obtain e rows where e: "batch_is_expert records = Inr e"
      and r: "record_rows is_all_records e 2 records = Inr rows"
      and w: "ws_rows ws = map (map style_cell)
                (map header_cell (sheet_headers is_all_records e) # map (map plain_cell) rows)"
      by (rule create_excel_worksheet_rows)
    from batch_is_expert_first[OF e ne] obtain b where
      b: "dict_get_default (hd records) (ascii ''bureau_number'') (PStr []) = PStr b"
      and eb: "e = py_startswith b (ascii ''expert_'')" by blast
    have "map cell_value (hd (ws_rows ws)) = map PStr (sheet_headers is_all_records e)"
      by (simp add: w comp_def cell_value_style_header)
    with eb have h: "map cell_value (hd (ws_rows ws)) =
             map PStr (((if is_all_records then header_source else header_number) # common_headers)
                       @ (if py_startswith b (ascii ''expert_'') then expert_headers else bureau_headers))"
      by (simp add: sheet_headers_def)
    from record_rows_shape[OF r] have "\<forall>row \<in> set (ws_rows ws). length row = length (hd (ws_rows ws))"
      by (auto simp: w length_sheet_headers)
    with b h show ?thesis by blast
  qed
  then show ?thesis
    by (simp add: length_common_headers length_expert_headers length_bureau_headers)
qed

lemma length_empty_rows: "length (ws_rows (empty_sheet hs)) = 2"
  by (simp add: empty_sheet_def)

lemma empty_sheet_header_row: "ws_rows (empty_sheet hs) ! 0 = map header_cell hs"
  by (simp add: empty_sheet_def)

lemma empty_sheet_placeholder_row:
  "map cell_value (ws_rows (empty_sheet hs) ! 1) = PStr no_records_text # replicate (length hs - 1) (PStr [])"
proof -
  have "map (\<lambda>col_num. PStr []) [2..<length hs + 1] = replicate (length hs - 1) (PStr [])"
    by (simp add: map_replicate_const del: upt_Suc)
  then show ?thesis by (simp add: empty_sheet_def plain_cell_def comp_def del: upt_Suc)
qed

lemma empty_sheet_width:
  assumes "c \<in> {1..length hs}"
  shows "map_of (column_widths (empty_sheet hs)) (get_column_letter c) = Some 15"
proof -
  from assms have "c \<in> set [1..<length hs + 1]" by auto
  then have "map_of (set_widths (\<lambda>c. 15) [1..<length hs + 1] []) (get_column_letter c) = Some 15"
    using set_widths_get[of c "[1..<length hs + 1]" "[]" "\<lambda>c. 15"] by blast
  then show ?thesis by (simp add: empty_sheet_def del: upt_Suc)
qed

lemma empty_sheet_width_keys:
  "fst ` set (column_widths (empty_sheet hs)) = get_column_letter ` {1..length hs}"
proof -
  have "set [1..<length hs + 1] = {1..length hs}" by auto
  then show ?thesis by (simp add: empty_sheet_def set_widths_dom del: upt_Suc)
qed

text \<open>
  Claim C6. The sheet of an empty batch is always built and has two rows: the header with
  the columns of the bureaus, and a row with the placeholder text in the first column
  (merged over that one cell) and empty strings in the other 25; each of the 26 columns has
  the width 15. So has the sheet of any unit, bureau or expert panel, without records in
  the batch.
\<close>

theorem empty_batch_sheet:
  "(\<exists>ws. create_excel_worksheet [] is_all_records = Inr ws \<and>
     length (ws_rows ws) = 2 \<and>
     map cell_value (ws_rows ws ! 0) =
       map PStr ((if is_all_records then header_source else header_number) # common_headers @ bureau_headers) \<and>
     map cell_value (ws_rows ws ! 1) = PStr no_records_text # replicate 25 (PStr []) \<and>
     merged_cells ws = [(2, 1, 2, 1)] \<and>
     (\<forall>c \<in> {1..26}. map_of (column_widths ws) (get_column_letter c) = Some 15) \<and>
     fst ` set (column_widths ws) = get_column_letter ` {1..26}) \<and>
   (records_of_unit (prefix @ str_int n) records = Inr [] \<longrightarrow>
      (\<exists>ws. unit_sheet prefix label n records = Inr (take 31 (label @ str_int n), ws) \<and>
            length (ws_rows ws) = 2))"
proof -
  have unit: "records_of_unit (prefix @ str_int n) records = Inr [] \<longrightarrow>
      (\<exists>ws. unit_sheet prefix label n records = Inr (take 31 (label @ str_int n), ws) \<and>
            length (ws_rows ws) = 2)"
    by (simp add: unit_sheet_def Let_def create_excel_worksheet_empty length_empty_rows)
  let ?hs = "sheet_headers is_all_records False"
  have l: "length ?hs = 26" by (simp add: length_sheet_headers)
  have "map cell_value (ws_rows (empty_sheet ?hs) ! 0) = map PStr ?hs"
    by (simp add: empty_sheet_header_row header_cell_def comp_def)
  moreover have "map cell_value (ws_rows (empty_sheet ?hs) ! 1) = PStr no_records_text # replicate 25 (PStr [])"
    using empty_sheet_placeholder_row[of ?hs] by (simp add: l)
  moreover have "merged_cells (empty_sheet ?hs) = [(2, 1, 2, 1)]" by (simp add: empty_sheet_def)
  moreover have "\<forall>c \<in> {1..26}. map_of (column_widths (empty_sheet ?hs)) (get_column_letter c) = Some 15"
    using empty_sheet_width[of _ ?hs] by (simp add: l)
  moreover have "fst ` set (column_widths (empty_sheet ?hs)) = get_column_letter ` {1..26}"
    by (simp add: empty_sheet_width_keys l)
  ultimately show ?thesis
    using unit by (simp add: create_excel_worksheet_empty length_empty_rows sheet_headers_def)
qed

text \<open>The constants of the source that are written to cells are stored as they are.\<close>

lemma check_string_legal: "legal_text s \<Longrightarrow> check_string s = Inr (take 32767 s)"
  by (auto simp: check_string_def Let_def legal_text_def dest: in_set_takeD)

lemma cell_write_short:
  "legal_text s \<Longrightarrow> length s \<le> 32767 \<Longrightarrow> cell_write (PStr s) = Inr (PStr s)"
  by (simp add: cell_write_def check_string_legal)

lemma header_titles_legal:
  "\<forall>h \<in> set (sheet_headers a e). legal_text h \<and> length h \<le> 32767"
  by (simp add: sheet_headers_def header_source_def header_number_def common_headers_def
      expert_headers_def bureau_headers_def legal_text_def illegal_character_def)

lemma header_writes: "h \<in> set (sheet_headers a e) \<Longrightarrow> cell_write (PStr h) = Inr (PStr h)"
  using header_titles_legal[of a e] by (simp add: cell_write_short)

lemma placeholder_writes:
  "cell_write (PStr no_records_text) = Inr (PStr no_records_text)"
  "cell_write (PStr []) = Inr (PStr [])"
  by (simp_all add: cell_write_short no_records_text_def legal_text_def illegal_character_def)

text \<open>The sheet of records as the store returns them is built: every value computed is a
  value that its cell takes.\<close>

lemma legal_text_Nil [simp]: "legal_text []"
  by (simp add: legal_text_def)

lemma legal_text_append [simp]: "legal_text (a @ b) \<longleftrightarrow> legal_text a \<and> legal_text b"
  by (auto simp: legal_text_def)

lemma legal_text_Cons: "legal_text (c # s) \<longleftrightarrow> \<not> illegal_character c \<and> legal_text s"
  by (simp add: legal_text_def)

lemma legal_text_subset: "set t \<subseteq> set s \<Longrightarrow> legal_text s \<Longrightarrow> legal_text t"
  by (auto simp: legal_text_def)

lemma legal_value_simps [simp]:
  "legal_value (PStr s) = legal_text s" "legal_value PNone" "legal_value (PInt i)"
  "legal_value (PBool b)" "legal_value (PDate d)"
  by (simp_all add: legal_value_def)

lemma cell_write_ok: "legal_value v \<Longrightarrow> \<not> isl (cell_write v)"
  by (cases v) (simp_all add: cell_write_def check_string_legal)

lemma written_ok: "\<exists>v. x = Inr v \<and> legal_value v \<Longrightarrow> \<not> isl (written x)"
  by (auto simp: written_def cell_write_ok)

lemma str_nat_legal: "legal_text (str_nat n)"
proof (induction n rule: str_nat.induct)
  case (1 n)
  show ?case
  proof (cases "n < 10")
    case True
    then show ?thesis by (simp add: str_nat_1 legal_text_def illegal_character_def)
  next
    case False
    with 1 have "legal_text (str_nat (n div 10))" by simp
    with False show ?thesis
      by (simp add: str_nat.simps[of n] legal_text_Cons illegal_character_def)
  qed
qed

lemma str_int_legal: "legal_text (str_int i)"
  by (simp add: str_int_def str_nat_legal legal_text_Cons illegal_character_def)

lemma zfill_legal: "legal_text (zfill w s) \<longleftrightarrow> legal_text s"
  by (simp add: zfill_def) (simp add: legal_text_def illegal_character_def)

lemma strftime_dmY_legal: "legal_text (strftime_dmY d)"
  by (simp add: strftime_dmY_def zfill_legal str_nat_legal legal_text_Cons illegal_character_def)

lemma format_excel_date_loop_legal:
  "legal_text s \<Longrightarrow> format_excel_date_loop s fs = Inr t \<Longrightarrow> legal_text t"
  by (induction fs) (auto simp: strftime_dmY_legal split: sum.splits if_splits)

lemma format_excel_date_legal:
  assumes "legal_value v" and "format_excel_date v = Inr t"
  shows "legal_text t"
proof (cases v)
  case (PStr s)
  with assms show ?thesis by (auto dest: format_excel_date_loop_legal)
next
  case (PBool b)
  with assms show ?thesis
    by (auto simp: ascii_eval legal_text_Cons illegal_character_def)
next
  case (PInt i)
  with assms show ?thesis by (auto simp: str_int_legal)
next
  case (PDate d)
  with assms show ?thesis by (auto simp: strftime_dmY_legal)
qed (use assms in auto)

lemma format_excel_date_ok: "\<not> isl (format_excel_date v)"
proof (cases v)
  case (PStr s)
  from format_excel_date_loop_total[of s date_formats] obtain t where
    "format_excel_date_loop s date_formats = Inr t" by blast
  with PStr show ?thesis by simp
qed simp_all

lemma date_cell_legal: "legal_value v \<Longrightarrow> \<exists>w. date_cell v = Inr w \<and> legal_value w"
  using format_excel_date_ok[of v] format_excel_date_legal[of v]
  by (cases "format_excel_date v") (auto simp: date_cell_def)

lemma py_strip_legal: "legal_text s \<Longrightarrow> legal_text (py_strip s)"
proof (rule legal_text_subset)
  show "set (py_strip s) \<subseteq> set s"
    unfolding py_strip_def by (auto dest!: set_dropWhileD)
qed

lemma py_split_subset: "t \<in> set (py_split sep s) \<Longrightarrow> set t \<subseteq> set s"
proof (induction s arbitrary: t)
  case Nil
  then show ?case by simp
next
  case (Cons c s)
  obtain x xs where x: "py_split sep s = x # xs" using py_split_nonempty[of sep s] by (cases "py_split sep s") auto
  from Cons.IH[of x] x have hx: "set x \<subseteq> set s" by simp
  from Cons.IH x have hxs: "\<And>t. t \<in> set xs \<Longrightarrow> set t \<subseteq> set s" by simp
  from Cons.prems x consider "t = []" | "t = x" | "t \<in> set xs" | "t = c # x"
    by (auto split: if_splits)
  then show ?case using hx hxs by cases auto
qed

lemma py_split_legal: "legal_text s \<Longrightarrow> t \<in> set (py_split sep s) \<Longrightarrow> legal_text t"
  using py_split_subset legal_text_subset by blast

lemma py_join_legal:
  "legal_text sep \<Longrightarrow> \<forall>x \<in> set xs. legal_text x \<Longrightarrow> legal_text (py_join sep xs)"
  by (induction sep xs rule: py_join.induct) simp_all

lemma set_update_subset: "set (AList.update k v xs) \<subseteq> insert (k, v) (set xs)"
  by (induction xs) auto

lemma set_dict_merge: "set (dict_merge a b) \<subseteq> set a \<union> set b"
proof -
  have "set (fold (\<lambda>(k, v). AList.update k v) b a) \<subseteq> set a \<union> set b" for a :: "(pystr \<times> 'a) list"
  proof (induction b arbitrary: a)
    case Nil
    then show ?case by simp
  next
    case (Cons p b)
    obtain k v where p: "p = (k, v)" by (cases p)
    have "set (fold (\<lambda>(k, v). AList.update k v) b (AList.update k v a))
        \<subseteq> set (AList.update k v a) \<union> set b" by (rule Cons.IH)
    with set_update_subset[of k v a] show ?case by (auto simp: p)
  qed
  then show ?thesis by (simp add: dict_merge_def)
qed

lemma common_labels_legal:
  "\<forall>(f, m) \<in> set COMMON_VALUE_MAPPINGS. \<forall>(c, l) \<in> set m. legal_text l"
  by (simp add: COMMON_VALUE_MAPPINGS_def legal_text_def illegal_character_def)

lemma expert_labels_legal:
  "\<forall>(f, m) \<in> set EXPERT_VALUE_MAPPINGS. \<forall>(c, l) \<in> set m. legal_text l"
  by (simp add: EXPERT_VALUE_MAPPINGS_def legal_text_def illegal_character_def)

lemma bureau_labels_legal:
  "\<forall>(f, m) \<in> set BUREAU_VALUE_MAPPINGS. \<forall>(c, l) \<in> set m. legal_text l"
  by (simp add: BUREAU_VALUE_MAPPINGS_def legal_text_def illegal_character_def)

lemma mapping_labels_legal:
  assumes "map_of (get_value_mappings u) f = Some mapping" and "(c, l) \<in> set mapping"
  shows "legal_text l"
proof -
  from assms(1) have "(f, mapping) \<in> set (get_value_mappings u)" by (rule map_of_SomeD)
  then have "(f, mapping) \<in> set COMMON_VALUE_MAPPINGS \<union> set EXPERT_VALUE_MAPPINGS
      \<union> set BUREAU_VALUE_MAPPINGS"
    using set_dict_merge[of COMMON_VALUE_MAPPINGS EXPERT_VALUE_MAPPINGS]
      set_dict_merge[of COMMON_VALUE_MAPPINGS BUREAU_VALUE_MAPPINGS]
    by (auto simp: get_value_mappings_def split: if_splits)
  with assms(2) show ?thesis
    using common_labels_legal expert_labels_legal bureau_labels_legal by blast
qed

lemma mapping_get_legal:
  assumes "\<And>c l. (c, l) \<in> set mapping \<Longrightarrow> legal_text l" and "legal_text d"
  shows "legal_text (mapping_get mapping k d)"
  using assms by (auto simp: mapping_get_def split: option.splits dest: map_of_SomeD)

lemma map_value_legal:
  assumes "legal_text val"
  shows "legal_text (map_value u f (Some val))"
proof (cases "map_of (get_value_mappings u) f")
  case None
  with assms show ?thesis by (simp add: map_value_def)
next
  case (Some mapping)
  have g: "legal_text (mapping_get mapping k d)" if "legal_text d" for k d
    using mapping_labels_legal[OF Some] that by (rule mapping_get_legal)
  have "legal_text (py_join (ascii '', '')
          (map (\<lambda>t. mapping_get mapping (py_strip t) (py_strip t))
             (filter (\<lambda>t. py_strip t \<noteq> []) (py_split 44 val))))"
  proof (rule py_join_legal)
    show "legal_text (ascii '', '')" by (simp add: ascii_eval legal_text_Cons illegal_character_def)
    show "\<forall>x \<in> set (map (\<lambda>t. mapping_get mapping (py_strip t) (py_strip t))
             (filter (\<lambda>t. py_strip t \<noteq> []) (py_split 44 val))). legal_text x"
      using assms by (auto intro!: g py_strip_legal dest: py_split_legal)
  qed
  with Some assms g[of val val] show ?thesis by (simp add: map_value_def)
qed

lemma map_value_call_text:
  "text_value v \<Longrightarrow> \<exists>s. map_value_call (PStr u) f v = Inr (PStr s)"
  by (auto simp: text_value_def map_value_call_def)

lemma map_value_call_legal:
  "text_value v \<Longrightarrow> legal_value v \<Longrightarrow> \<exists>w. map_value_call (PStr u) f v = Inr w \<and> legal_value w"
  by (auto simp: text_value_def map_value_call_def map_value_legal)

lemma text_value_or: "text_value a \<Longrightarrow> text_value b \<Longrightarrow> text_value (py_or a b)"
  by (simp add: py_or_def)

lemma text_value_either:
  "text_value (dict_get r (ascii a)) \<Longrightarrow> text_value (dict_get r (ascii b)) \<Longrightarrow> text_value (get_either r a b)"
  by (simp add: get_either_def text_value_or)

lemma legal_value_or: "legal_value a \<Longrightarrow> legal_value b \<Longrightarrow> legal_value (py_or a b)"
  by (simp add: py_or_def)

lemma dict_get_legal: "stored_record r \<Longrightarrow> legal_value (dict_get r k)"
  by (auto simp: stored_record_def dict_get_def split: option.splits dest!: map_of_SomeD)

lemma dict_get_default_legal:
  "stored_record r \<Longrightarrow> legal_value d \<Longrightarrow> legal_value (dict_get_default r k d)"
  by (auto simp: stored_record_def dict_get_default_def split: option.splits dest!: map_of_SomeD)

lemma get_either_legal: "stored_record r \<Longrightarrow> legal_value (get_either r a b)"
  by (simp add: get_either_def legal_value_or dict_get_legal)

lemma second_part_ok:
  assumes "py_startswith b (p @ [95])" and "95 \<notin> set p"
  shows "\<not> isl (second_part b)"
proof -
  from assms(1) have "b = p @ 95 # drop (length p + 1) b"
    by (metis py_startswith_def append_take_drop_id append.assoc append_Cons append_Nil length_append_singleton Suc_eq_plus1)
  then have "py_split 95 b = p # py_split 95 (drop (length p + 1) b)"
    using py_split_append_token[OF assms(2)] by metis
  then show ?thesis
    by (cases "py_split 95 (drop (length p + 1) b)") (auto simp: second_part_def py_split_nonempty)
qed

lemma bureau_prefix: "ascii ''bureau_'' = ascii ''bureau'' @ [95]" "95 \<notin> set (ascii ''bureau'')"
  by (simp_all add: ascii_eval)

lemma expert_prefix: "ascii ''expert_'' = ascii ''expert'' @ [95]" "95 \<notin> set (ascii ''expert'')"
  by (simp_all add: ascii_eval)

lemma second_part_bureau: "py_startswith b (ascii ''bureau_'') \<Longrightarrow> \<not> isl (second_part b)"
  using second_part_ok[of b "ascii ''bureau''"] bureau_prefix by simp

lemma second_part_expert: "py_startswith b (ascii ''expert_'') \<Longrightarrow> \<not> isl (second_part b)"
  using second_part_ok[of b "ascii ''expert''"] expert_prefix by simp

lemma second_part_legal: "legal_text b \<Longrightarrow> second_part b = Inr x \<Longrightarrow> legal_text x"
  by (auto simp: second_part_def split: list.splits dest: py_split_legal[of b _ 95])

lemma unit_labels_legal: "legal_text bureau_label" "legal_text expert_label"
  by (simp_all add: bureau_label_def expert_label_def legal_text_def illegal_character_def)

lemma source_label_legal:
  assumes "legal_text b"
  shows "\<exists>w. source_label (PStr b) = Inr w \<and> legal_value w"
  using second_part_bureau[of b] second_part_expert[of b] second_part_legal[OF assms] assms
  by (auto simp: source_label_def unit_labels_legal split: sum.splits)

lemma collect_all:
  assumes "\<forall>x \<in> set xs. \<exists>w. x = Inr w \<and> P w"
  shows "\<exists>ws. collect xs = Inr ws \<and> (\<forall>w \<in> set ws. P w)"
  using assms
proof (induction xs)
  case Nil
  then show ?case by simp
next
  case (Cons x xs)
  then show ?case by (cases x) auto
qed

lemma special_marks_cell_legal:
  assumes "text_value v" and "legal_value v"
  shows "\<exists>w. special_marks_cell (PStr u) v = Inr w \<and> legal_value w"
proof -
  from assms have "\<exists>s. py_or v (PStr []) = PStr s \<and> legal_text s"
    by (auto simp: text_value_def py_or_def)
  then obtain s where s: "py_or v (PStr []) = PStr s" and l: "legal_text s" by blast
  have "\<forall>x \<in> set (map (\<lambda>mark. map_value_call (PStr u) (ascii ''special_marks'') (PStr (py_strip mark)))
                           (filter (\<lambda>mark. py_strip mark \<noteq> []) (py_split 44 s))).
          \<exists>w. x = Inr w \<and> (\<exists>t. w = PStr t \<and> legal_text t)"
    using l
    by (auto simp: map_value_call_def intro!: map_value_legal py_strip_legal dest: py_split_legal)
  then have "\<exists>ws. collect (map (\<lambda>mark. map_value_call (PStr u) (ascii ''special_marks'') (PStr (py_strip mark)))
                           (filter (\<lambda>mark. py_strip mark \<noteq> []) (py_split 44 s))) = Inr ws \<and>
                 (\<forall>w \<in> set ws. \<exists>t. w = PStr t \<and> legal_text t)"
    by (rule collect_all)
  then obtain ws where c: "collect (map (\<lambda>mark. map_value_call (PStr u) (ascii ''special_marks'') (PStr (py_strip mark)))
                           (filter (\<lambda>mark. py_strip mark \<noteq> []) (py_split 44 s))) = Inr ws"
    and w: "\<forall>w \<in> set ws. \<exists>t. w = PStr t \<and> legal_text t" by blast
  have "legal_text (py_join (ascii ''; '') (map py_str ws))"
  proof (rule py_join_legal)
    show "legal_text (ascii ''; '')" by (simp add: ascii_eval legal_text_Cons illegal_character_def)
    show "\<forall>x \<in> set (map py_str ws). legal_text x" using w by auto
  qed
  with c s show ?thesis by (simp add: special_marks_cell_def)
qed

lemma record_cells_legal:
  assumes "stored_record r"
  shows "\<forall>x \<in> set (record_cells a e n r). \<exists>w. x = Inr w \<and> legal_value w"
proof -
  from assms obtain u where u: "dict_get_default r (ascii ''bureau_number'') (PStr []) = PStr u"
    by (auto simp: stored_record_def dict_get_default_def)
  from dict_get_default_legal[OF assms, of "PStr []" "ascii ''bureau_number''"] u
  have lu: "legal_text u" by simp
  from assms have t: "\<And>k. k \<in> set coded_fields \<Longrightarrow> text_value (dict_get r (ascii k))"
    by (simp add: stored_record_def)
  have e: "\<And>x y. x \<in> set coded_fields \<Longrightarrow> y \<in> set coded_fields \<Longrightarrow> text_value (get_either r x y)"
    by (simp add: text_value_either t)
  note g = get_either_legal[OF assms] dict_get_legal[OF assms]
  show ?thesis
    unfolding record_cells_def Let_def u
    by (auto simp: coded_fields_def g legal_value_or dict_get_default_legal[OF assms]
        intro!: source_label_legal[OF lu] date_cell_legal map_value_call_legal
          special_marks_cell_legal e t g)
qed

lemma record_cells_ok:
  assumes "stored_record r"
  shows "\<forall>x \<in> set (map written (record_cells a e n r)). \<not> isl x"
  using record_cells_legal[OF assms, of a e n] by (auto intro!: written_ok)

lemma record_rows_ok:
  "\<forall>r \<in> set rs. stored_record r \<Longrightarrow> \<exists>rows. record_rows a e n rs = Inr rows"
proof (induction rs arbitrary: n)
  case Nil
  then show ?case by simp
next
  case (Cons r rs)
  then have "stored_record r" by simp
  from collect_success[OF record_cells_ok[OF this]] obtain vs where
    "collect (map written (record_cells a e n r)) = Inr vs" by blast
  moreover from Cons obtain rows where "record_rows a e (Suc n) rs = Inr rows" by fastforce
  ultimately show ?case by simp
qed

lemma batch_is_expert_ok:
  "\<forall>r \<in> set rs. stored_record r \<Longrightarrow> \<exists>e. batch_is_expert rs = Inr e"
  by (cases rs) (auto simp: batch_is_expert_def stored_record_def dict_get_default_def)

lemma create_excel_worksheet_ok:
  assumes "\<forall>r \<in> set rs. stored_record r"
  shows "\<exists>ws. create_excel_worksheet rs a = Inr ws"
proof -
  from batch_is_expert_ok[OF assms] obtain e where e: "batch_is_expert rs = Inr e" by blast
  from record_rows_ok[OF assms] obtain rows where "record_rows a e 2 rs = Inr rows" by blast
  with e show ?thesis by (simp add: create_excel_worksheet_def Let_def)
qed

text \<open>A control character in a string of a record makes the sheet fail.\<close>

lemma check_string_illegal:
  "c \<in> set (take 32767 s) \<Longrightarrow> illegal_character c \<Longrightarrow> check_string s = Inl IllegalCharacterError"
  by (auto simp: check_string_def Let_def)

lemma expert_record_stored: "stored_record [(ascii ''bureau_number'', PStr (ascii ''expert_1''))]"
  by (simp add: stored_record_def coded_fields_def dict_get_def text_value_def)
     (simp add: ascii_eval legal_text_def illegal_character_def)

theorem sheet_header_layout_witness:
  "map cell_value (hd (ws_rows (projr (create_excel_worksheet
       [[(ascii ''bureau_number'', PStr (ascii ''expert_1''))]] True))))
   = map PStr ((header_source # common_headers) @ expert_headers)"
proof -
  from create_excel_worksheet_ok[of "[[(ascii ''bureau_number'', PStr (ascii ''expert_1''))]]" True]
    expert_record_stored
  obtain ws where ws: "create_excel_worksheet [[(ascii ''bureau_number'', PStr (ascii ''expert_1''))]] True = Inr ws"
    by auto
  show ?thesis
    using sheet_header_layout[of "[[(ascii ''bureau_number'', PStr (ascii ''expert_1''))]]" True ws] ws
    by (auto simp: dict_get_default_def)
qed

theorem empty_batch_sheet_witness:
  "length (ws_rows (projr (create_excel_worksheet [] True))) = 2 \<and>
   map_of (column_widths (projr (create_excel_worksheet [] True))) (get_column_letter 26) = Some 15 \<and>
   length (ws_rows (snd (projr (unit_sheet (ascii ''expert_'') expert_label 5 [])))) = 2"
  using empty_batch_sheet[of True "ascii ''expert_''" 5 "[]" expert_label] by auto

lemma header_cell_style:
  "font_bold (header_cell h) \<and> cell_border (header_cell h) = Some THIN_BORDER \<and>
   cell_alignment (header_cell h) = Some HEADER_ALIGNMENT"
  by (simp add: header_cell_def)

lemma styled_header_cell_style:
  "font_bold (style_cell (header_cell h)) \<and> cell_border (style_cell (header_cell h)) = Some THIN_BORDER \<and>
   cell_alignment (style_cell (header_cell h)) = Some CELL_ALIGNMENT"
  by (simp add: header_cell_def style_cell_def)

text \<open>
  Claim C7, as amended. On every sheet built, each cell of the header row is bold, wrapped
  and has the thin border. For a batch that is not empty, the panes are frozen at \<open>A2\<close>
  and the auto-filter runs from \<open>A1\<close> to the last column of the last row, which is the
  range the sheet uses. For an empty batch there is neither, and the header is centred.
\<close>

theorem header_row_style:
  "create_excel_worksheet records is_all_records = Inr ws \<longrightarrow>
     (\<forall>c \<in> set (hd (ws_rows ws)).
        font_bold c \<and> cell_border c = Some THIN_BORDER \<and>
        (\<exists>al. cell_alignment c = Some al \<and> wrap_text al)) \<and>
     (records \<noteq> [] \<longrightarrow>
        freeze_panes ws = Some (ascii ''A2'') \<and>
        auto_filter_ref ws =
          Some (ascii ''A1:'' @ get_column_letter (length (hd (ws_rows ws)))
                @ str_int (int (length (ws_rows ws)))) \<and>
        length (ws_rows ws) = length records + 1 \<and>
        (\<forall>row \<in> set (ws_rows ws). length row = length (hd (ws_rows ws)))) \<and>
     (records = [] \<longrightarrow>
        freeze_panes ws = None \<and> auto_filter_ref ws = None \<and>
        (\<forall>c \<in> set (hd (ws_rows ws)). cell_alignment c = Some HEADER_ALIGNMENT))"
proof
  assume ok: "create_excel_worksheet records is_all_records = Inr ws"
  show "(\<forall>c \<in> set (hd (ws_rows ws)).
        font_bold c \<and> cell_border c = Some THIN_BORDER \<and>
        (\<exists>al. cell_alignment c = Some al \<and> wrap_text al)) \<and>
     (records \<noteq> [] \<longrightarrow>
        freeze_panes ws = Some (ascii ''A2'') \<and>
        auto_filter_ref ws =
          Some (ascii ''A1:'' @ get_column_letter (length (hd (ws_rows ws)))
                @ str_int (int (length (ws_rows ws)))) \<and>
        length (ws_rows ws) = length records + 1 \<and>
        (\<forall>row \<in> set (ws_rows ws). length row = length (hd (ws_rows ws)))) \<and>
     (records = [] \<longrightarrow>
        freeze_panes ws = None \<and> auto_filter_ref ws = None \<and>
        (\<forall>c \<in> set (hd (ws_rows ws)). cell_alignment c = Some HEADER_ALIGNMENT))"
  proof (cases "records = []")
    case True
    with ok have ws: "ws = empty_sheet (sheet_headers is_all_records False)"
      by (simp add: create_excel_worksheet_empty)
    have "hd (ws_rows ws) = map header_cell (sheet_headers is_all_records False)"
      by (simp add: ws empty_sheet_def)
    moreover have "freeze_panes ws = None" "auto_filter_ref ws = None"
      by (simp_all add: ws empty_sheet_def)
    ultimately show ?thesis using True
      by (auto simp: header_cell_def HEADER_ALIGNMENT_def)
  next
    case False
    from ok False obtain e rows where r: "record_rows is_all_records e 2 records = Inr rows"
      and w: "ws_rows ws = map (map style_cell)
                (map header_cell (sheet_headers is_all_records e) # map (map plain_cell) rows)"
      and f: "auto_filter_ref ws =
         Some (ascii ''A1:'' @ get_column_letter (length (sheet_headers is_all_records e))
               @ str_int (int (length records + 1)))"
      and z: "freeze_panes ws = Some (ascii ''A2'')"
      by (rule create_excel_worksheet_rows)
    from record_rows_shape[OF r] have l: "length rows = length records"
      and s: "\<forall>row \<in> set rows. length row = length (sheet_headers is_all_records e)"
      by (simp_all add: length_sheet_headers)
    have h: "hd (ws_rows ws) = map style_cell (map header_cell (sheet_headers is_all_records e))"
      by (simp add: w)
    have "\<forall>c \<in> set (hd (ws_rows ws)).
        font_bold c \<and> cell_border c = Some THIN_BORDER \<and>
        (\<exists>al. cell_alignment c = Some al \<and> wrap_text al)"
      by (auto simp: h header_cell_def style_cell_def CELL_ALIGNMENT_def)
    moreover have "length (ws_rows ws) = length records + 1" by (simp add: w l)
    moreover have "\<forall>row \<in> set (ws_rows ws). length row = length (hd (ws_rows ws))"
      using s by (auto simp: w)
    moreover have "length (hd (ws_rows ws)) = length (sheet_headers is_all_records e)"
      by (simp add: h)
    ultimately show ?thesis using False f z by simp
  qed
qed

lemma column_letter_1: "get_column_letter (Suc 0) = ascii ''A''"
  by (simp add: get_column_letter.simps[of "Suc 0"] get_column_letter.simps[of 0] ascii_eval)

lemma column_letter_28: "get_column_letter 28 = ascii ''AB''"
  by (simp add: get_column_letter.simps[of 28] column_letter_1 ascii_eval)

lemma str_int_2: "str_int 2 = ascii ''2''"
  by (simp add: str_int_def str_nat.simps[of 2] ascii_eval)

lemma expert_sheet_columns:
  assumes "create_excel_worksheet [[(ascii ''bureau_number'', PStr (ascii ''expert_1''))]] a = Inr ws"
  shows "length (hd (ws_rows ws)) = 28"
proof -
  from assms obtain e rows where e: "batch_is_expert [[(ascii ''bureau_number'', PStr (ascii ''expert_1''))]] = Inr e"
    and w: "ws_rows ws = map (map style_cell)
                (map header_cell (sheet_headers a e) # map (map plain_cell) rows)"
    by (rule create_excel_worksheet_rows) simp
  from e have "e" by (simp add: batch_is_expert_def dict_get_default_def)
  then show ?thesis by (simp add: w length_sheet_headers)
qed

theorem header_row_style_witness:
  "freeze_panes (projr (create_excel_worksheet
       [[(ascii ''bureau_number'', PStr (ascii ''expert_1''))]] True)) = Some (ascii ''A2'') \<and>
   auto_filter_ref (projr (create_excel_worksheet
       [[(ascii ''bureau_number'', PStr (ascii ''expert_1''))]] True)) = Some (ascii ''A1:AB2'')"
proof -
  from create_excel_worksheet_ok[of "[[(ascii ''bureau_number'', PStr (ascii ''expert_1''))]]" True]
    expert_record_stored
  obtain ws where ws: "create_excel_worksheet [[(ascii ''bureau_number'', PStr (ascii ''expert_1''))]] True = Inr ws"
    by auto
  from expert_sheet_columns[OF ws] show ?thesis
    using header_row_style[of "[[(ascii ''bureau_number'', PStr (ascii ''expert_1''))]]" True ws] ws
    by (simp add: column_letter_28 str_int_2 ascii_def)
qed

text \<open>
  The sheet of an empty batch has no frozen panes and no auto-filter.
\<close>

theorem header_row_style_counterexample:
  "create_excel_worksheet [] False = Inr (empty_sheet (sheet_headers False False)) \<and>
   freeze_panes (empty_sheet (sheet_headers False False)) = None \<and>
   auto_filter_ref (empty_sheet (sheet_headers False False)) = None"
  by (simp add: create_excel_worksheet_empty empty_sheet_def)

section \<open>The column widths\<close>

lemma ws_columns_rectangle:
  assumes "cells \<noteq> []" and "\<forall>row \<in> set cells. length row = n"
  shows "ws_columns cells = map (\<lambda>i. map (\<lambda>row. row ! i) cells) [0..<n]"
proof -
  have "transpose cells = map (\<lambda>i. map (\<lambda>j. cells ! j ! i) [0..<length cells]) [0..<n]"
    using assms by (intro transpose_rectangle) auto
  moreover have "map (\<lambda>j. cells ! j ! i) [0..<length cells] = map (\<lambda>row. row ! i) cells" for i
    by (rule nth_equalityI) auto
  ultimately show ?thesis by (simp add: ws_columns_def)
qed

lemma column_max_length_fold:
  "fold (\<lambda>c max_length. if f c > max_length then f c else max_length) column m
     = Max (insert m (f ` set column))"
proof (induction column arbitrary: m)
  case Nil
  then show ?case by simp
next
  case (Cons c column)
  have "Max (insert (if f c > m then f c else m) (f ` set column))
      = Max (insert m (insert (f c) (f ` set column)))"
    by (cases "f ` set column = {}") (auto simp: max_def)
  with Cons show ?case by simp
qed

lemma column_max_length_Max:
  "column \<noteq> [] \<Longrightarrow>
   column_max_length column = Max ((\<lambda>c. length (py_str (cell_value c))) ` set column)"
  unfolding column_max_length_def
  using column_max_length_fold[of "\<lambda>c. length (py_str (cell_value c))" column 0]
  by (cases column) (auto simp: max_def)

lemma built_sheet_column_width:
  assumes ok: "create_excel_worksheet records a = Inr ws" and ne: "records \<noteq> []"
    and c: "c \<in> {1..length (hd (ws_rows ws))}"
  shows "column_width ws c = Some (min ((of_nat (longest_in_column ws c) + 2) * (12 / 10)) 50)"
proof -
  from ok ne obtain e rows where r: "record_rows a e 2 records = Inr rows"
    and w: "ws_rows ws = map (map style_cell) (map header_cell (sheet_headers a e) # map (map plain_cell) rows)"
    and cw: "column_widths ws =
       set_widths (\<lambda>c. adjusted_width (column_max_length (ws_columns (ws_rows ws) ! (c - 1))))
         [1..<length (ws_columns (ws_rows ws)) + 1] []"
    by (rule create_excel_worksheet_rows)
  let ?n = "length (sheet_headers a e)"
  from record_rows_shape[OF r] have rect: "\<forall>row \<in> set (ws_rows ws). length row = ?n"
    by (auto simp: w length_sheet_headers)
  have nonempty: "ws_rows ws \<noteq> []" by (simp add: w)
  have cols: "ws_columns (ws_rows ws) = map (\<lambda>i. map (\<lambda>row. row ! i) (ws_rows ws)) [0..<?n]"
    using nonempty rect by (rule ws_columns_rectangle)
  have hd: "length (hd (ws_rows ws)) = ?n" by (simp add: w)
  with c have c1: "1 \<le> c" and c2: "c \<le> ?n" by simp_all
  then have "c \<in> set [1..<length (ws_columns (ws_rows ws)) + 1]" by (auto simp: cols)
  then have "map_of (column_widths ws) (get_column_letter c)
      = Some (adjusted_width (column_max_length (ws_columns (ws_rows ws) ! (c - 1))))"
    unfolding cw by (intro set_widths_get) blast
  moreover from c1 c2 have "ws_columns (ws_rows ws) ! (c - 1) = map (\<lambda>row. row ! (c - 1)) (ws_rows ws)"
    by (simp add: cols)
  moreover have "column_max_length (map (\<lambda>row. row ! (c - 1)) (ws_rows ws)) = longest_in_column ws c"
    using nonempty by (simp add: column_max_length_Max longest_in_column_def image_image)
  ultimately show ?thesis by (simp add: column_width_def adjusted_width_def)
qed

text \<open>
  Claim C8, as amended. On the sheet of a batch that is not empty, the width of every
  column is the length of the longest string \<open>str(cell.value)\<close> of the column, header
  included, plus 2, times 1.2, capped at 50.
\<close>

theorem column_width_formula:
  "create_excel_worksheet records is_all_records = Inr ws \<and> records \<noteq> [] \<and>
   c \<in> {1..length (hd (ws_rows ws))} \<longrightarrow>
     column_width ws c = Some (min ((of_nat (longest_in_column ws c) + 2) * (12 / 10)) 50)"
  using built_sheet_column_width by blast

lemma bureau_record_stored: "stored_record [(ascii ''bureau_number'', PStr (ascii ''bureau_3''))]"
  by (simp add: stored_record_def coded_fields_def dict_get_def text_value_def)
     (simp add: ascii_eval legal_text_def illegal_character_def)

lemma length_header_number: "length header_number = 5"
  by (simp add: header_number_def)

lemma record_cells_first: "record_cells False e n r ! 0 = Inr (PInt (int n - 1))"
  by (simp add: record_cells_def Let_def)

lemma collect_nth: "collect xs = Inr vs \<Longrightarrow> i < length xs \<Longrightarrow> xs ! i = Inr (vs ! i)"
  by (drule collect_map) simp

lemma str_int_1: "str_int 1 = ascii ''1''"
  by (simp add: str_int_def str_nat_1 ascii_eval)

lemma bureau_sheet_first_column:
  assumes "create_excel_worksheet [[(ascii ''bureau_number'', PStr (ascii ''bureau_3''))]] False = Inr ws"
  shows "length (hd (ws_rows ws)) = 26" and "longest_in_column ws 1 = 5"
proof -
  let ?r = "[(ascii ''bureau_number'', PStr (ascii ''bureau_3''))]"
  from assms obtain e rows where e: "batch_is_expert [?r] = Inr e"
    and r: "record_rows False e 2 [?r] = Inr rows"
    and w: "ws_rows ws = map (map style_cell)
                (map header_cell (sheet_headers False e) # map (map plain_cell) rows)"
    by (rule create_excel_worksheet_rows) simp
  from e have ne: "\<not> e" by (simp add: batch_is_expert_def dict_get_default_def)
  from r obtain vs where c: "collect (map written (record_cells False e 2 ?r)) = Inr vs"
    and rows: "rows = [vs]"
    by (auto split: sum.splits)
  have l: "length vs = 26" using collect_length[OF c] ne by (simp add: length_record_cells)
  have "map written (record_cells False e 2 ?r) ! 0 = Inr (vs ! 0)"
    using c by (rule collect_nth) (simp add: length_record_cells)
  then have v0: "vs ! 0 = PInt 1"
    by (simp add: length_record_cells record_cells_first written_def cell_write_def)
  show "length (hd (ws_rows ws)) = 26" using ne by (simp add: w length_sheet_headers)
  have h: "map header_cell (sheet_headers False e) ! 0 = header_cell header_number"
    by (simp add: sheet_headers_def)
  have rws: "ws_rows ws = [map style_cell (map header_cell (sheet_headers False e)),
                           map style_cell (map plain_cell vs)]"
    by (simp add: w rows)
  have a: "cell_value (map style_cell (map header_cell (sheet_headers False e)) ! 0) = PStr header_number"
    by (simp add: sheet_headers_def style_cell_def header_cell_def)
  have b: "cell_value (map style_cell (map plain_cell vs) ! 0) = PInt 1"
    using l v0 by (simp add: style_cell_def plain_cell_def)
  have "(\<lambda>row. length (py_str (cell_value (row ! 0)))) ` set (ws_rows ws) = {5, 1}"
    unfolding rws by (simp add: a[simplified] b[simplified] length_header_number str_int_1)
  then show "longest_in_column ws 1 = 5" by (simp add: longest_in_column_def)
qed

lemma bureau_sheet_built:
  "create_excel_worksheet [[(ascii ''bureau_number'', PStr (ascii ''bureau_3''))]] False
     = Inr (projr (create_excel_worksheet [[(ascii ''bureau_number'', PStr (ascii ''bureau_3''))]] False))"
  using create_excel_worksheet_ok[of "[[(ascii ''bureau_number'', PStr (ascii ''bureau_3''))]]" False]
    bureau_record_stored by auto

theorem column_width_formula_witness:
  "column_width (projr (create_excel_worksheet [[(ascii ''bureau_number'', PStr (ascii ''bureau_3''))]] False)) 1
     = Some (42 / 5)"
  using column_width_formula[of "[[(ascii ''bureau_number'', PStr (ascii ''bureau_3''))]]" False
      "projr (create_excel_worksheet [[(ascii ''bureau_number'', PStr (ascii ''bureau_3''))]] False)" 1]
    bureau_sheet_built bureau_sheet_first_column[OF bureau_sheet_built]
  by simp

text \<open>
  On the sheet of one record of a bureau, the longest string of the first column has 5
  characters and the width of the column is 8.4, not 5 times 1.2 plus 2.
\<close>

theorem column_width_counterexample:
  "longest_in_column (projr (create_excel_worksheet [[(ascii ''bureau_number'', PStr (ascii ''bureau_3''))]] False)) 1 = 5 \<and>
   column_width (projr (create_excel_worksheet [[(ascii ''bureau_number'', PStr (ascii ''bureau_3''))]] False)) 1
     = Some (42 / 5) \<and>
   (42 / 5 :: rat) \<noteq> min (of_nat 5 * (12 / 10) + 2) 50"
  using built_sheet_column_width[of "[[(ascii ''bureau_number'', PStr (ascii ''bureau_3''))]]" False
      "projr (create_excel_worksheet [[(ascii ''bureau_number'', PStr (ascii ''bureau_3''))]] False)" 1]
    bureau_sheet_built bureau_sheet_first_column[OF bureau_sheet_built]
  by simp

section \<open>The workbook\<close>



























end
